theory Spec2Isabelle
  imports Main "HOL-Library.Word"
begin

unbundle bit_operations_syntax

section \<open>Guest-process emulation: the x86 system-call translator\<close>

text \<open>
  The C++ types \<^verbatim>\<open>unsigned\<close> and \<^verbatim>\<open>int\<close> are both 32 bits wide on the
  simulated and the simulating machine.  Both are modelled as \<open>32 word\<close>: the
  conversions between them keep every bit, \<open>unat\<close> reads a word as the
  \<^verbatim>\<open>unsigned\<close> value and \<open>sint\<close> as the \<^verbatim>\<open>int\<close> value, so \<open>- 11\<close> is
  \<^verbatim>\<open>-EAGAIN\<close>.
\<close>

type_synonym u32 = "32 word"

subsection \<open>Errors that end the simulation\<close>

text \<open>
  \<^verbatim>\<open>misc::fatal\<close> and \<^verbatim>\<open>misc::panic\<close> print a diagnostic and end the simulator;
  a failed \<^verbatim>\<open>assert\<close> and \<^verbatim>\<open>abort()\<close> end it too.  A handler that reaches one
  of them returns nothing: it is the \<open>Inl\<close> branch of the result.
\<close>

datatype error =
    Fatal string
  | Panic string
  | AssertFailed string
  | Aborted
  | InvalidCall string
  | NullPointer string
  | DivisionByZero

subsection \<open>Context state\<close>

text \<open>
  The state of a context is a bitmap of flags (\<^verbatim>\<open>unsigned state\<close>); the flags the
  system calls of this development touch are the elements of \<open>ContextState\<close>, and the
  bitmap is the set of the flags that are on.
\<close>

datatype ContextState =
    ContextRunning
  | ContextSpecMode
  | ContextSuspended
  | ContextFinished
  | ContextHandler
  | ContextNanosleep
  | ContextRead
  | ContextWrite
  | ContextWaitpid
  | ContextZombie
  | ContextFutex
  | ContextCallback

record Regs =
  eax :: u32
  ecx :: u32
  edx :: u32
  ebx :: u32
  esp :: u32
  ebp :: u32
  esi :: u32
  edi :: u32

text \<open>
  A context.  \<open>memory\<close>, \<open>file_table\<close> and \<open>signal_handler_table\<close> are shared
  pointers in the source: here they are the addresses of the objects in the emulator's
  stores, so that two contexts share an object exactly when they hold the same address.
  \<open>group_parent\<close> is the process id of the group parent (\<open>None\<close> for
  \<^verbatim>\<open>nullptr\<close>).
\<close>

record Context =
  pid :: u32
  state :: "ContextState set"
  regs :: Regs
  memory :: nat
  file_table :: nat
  signal_handler_table :: nat
  exit_signal :: u32
  group_parent :: "u32 option"
  clear_child_tid :: u32
  glibc_segment_base :: u32
  glibc_segment_limit :: u32
  wakeup_fd :: u32
  wakeup_events :: u32
  wakeup_futex :: u32
  wakeup_futex_bitset :: u32
  wakeup_futex_sleep :: nat

definition getState :: "Context \<Rightarrow> ContextState \<Rightarrow> bool" where
  "getState this s = (s \<in> state this)"

text \<open>
  \<^verbatim>\<open>setState(s)\<close> is \<^verbatim>\<open>UpdateState(this->state | s)\<close>, \<^verbatim>\<open>clearState(s)\<close> is
  \<^verbatim>\<open>UpdateState(this->state & ~s)\<close>.

  Modelled from the spec: \<^verbatim>\<open>UpdateState\<close> is missing from the sources.  It stores
  the new bitmap and reconciles the membership of the context in the emulator's
  lists, of which a context is in exactly one among running, suspended, zombie and
  finished: the flag \<open>ContextRunning\<close> is on exactly when none of the other three
  is.  The lists are read off the bitmaps here (see \<open>getContextList\<close> below).
\<close>

definition UpdateState :: "Context \<Rightarrow> ContextState set \<Rightarrow> Context" where
  "UpdateState this st =
     this\<lparr>state := (if st \<inter> {ContextSuspended, ContextZombie, ContextFinished} = {}
                      then st \<union> {ContextRunning} else st - {ContextRunning})\<rparr>"

definition setState :: "Context \<Rightarrow> ContextState \<Rightarrow> Context" where
  "setState this s = UpdateState this (state this \<union> {s})"

definition clearState :: "Context \<Rightarrow> ContextState set \<Rightarrow> Context" where
  "clearState this ss = UpdateState this (state this - ss)"

definition setEax :: "Context \<Rightarrow> u32 \<Rightarrow> Context" where
  "setEax this v = this\<lparr>regs := (regs this)\<lparr>eax := v\<rparr>\<rparr>"

subsection \<open>Guest memory\<close>

datatype MemoryAccess = MemoryAccessInit | MemoryAccessRead | MemoryAccessWrite | MemoryAccessExec

text \<open>
  Modelled from the spec: the class \<^verbatim>\<open>mem::Memory\<close> is missing from the sources.
  The spec describes it as a sparse mapping of the 32-bit address space in pages of
  4 KiB, each page with permission flags, and a heap break.  \<open>pages\<close> gives the
  permissions of the page that starts at an address (\<open>None\<close>: not mapped),
  \<open>bytes\<close> the content.
\<close>

record Memory =
  heap_break :: u32
  pages :: "u32 \<Rightarrow> MemoryAccess set option"
  bytes :: "u32 \<Rightarrow> 8 word"

definition MemoryPageSize :: u32 where
  "MemoryPageSize = 4096"

text \<open>
  Modelled from the spec: \<^verbatim>\<open>misc::RoundUp\<close> is missing from the sources; it rounds
  an \<^verbatim>\<open>unsigned\<close> up to a multiple of a power of two, in 32-bit arithmetic.
\<close>

definition RoundUp :: "u32 \<Rightarrow> u32 \<Rightarrow> u32" where
  "RoundUp n align = (n + (align - 1)) AND NOT (align - 1)"

definition getHeapBreak :: "Memory \<Rightarrow> u32" where
  "getHeapBreak m = heap_break m"

definition setHeapBreak :: "Memory \<Rightarrow> u32 \<Rightarrow> Memory" where
  "setHeapBreak m b = m\<lparr>heap_break := b\<rparr>"

definition page_tag :: "u32 \<Rightarrow> u32" where
  "page_tag a = a AND NOT (MemoryPageSize - 1)"

text \<open>The page tags of the \<open>n\<close> pages from \<open>addr\<close> on.\<close>

definition page_tags :: "u32 \<Rightarrow> nat \<Rightarrow> u32 list" where
  "page_tags addr n = map (\<lambda>i. addr + MemoryPageSize * of_nat i) [0..<n]"

text \<open>
  Modelled from the spec: \<^verbatim>\<open>Memory::MapSpace(addr, size)\<close> reserves address space
  upward from a hint: it returns the start of the first run of \<open>size\<close> bytes of
  unmapped pages at or above \<open>addr\<close>, and \<^verbatim>\<open>(unsigned) -1\<close> when the address space
  ends first.  The search runs over page numbers: \<open>MapSpace_from m first cur n\<close> has
  found the pages \<open>first..<cur\<close> free and needs \<open>n\<close> in all.
\<close>

function MapSpace_from :: "Memory \<Rightarrow> nat \<Rightarrow> nat \<Rightarrow> nat \<Rightarrow> u32" where
  "MapSpace_from m first cur n =
     (if 2 ^ 20 \<le> cur then - 1
      else if pages m (of_nat cur * MemoryPageSize) \<noteq> None
        then MapSpace_from m (Suc cur) (Suc cur) n
      else if Suc cur - first = n then of_nat first * MemoryPageSize
      else MapSpace_from m first (Suc cur) n)"
  by pat_completeness auto
termination
  by (relation "measure (\<lambda>(m, first, cur, n). 2 ^ 20 - cur)") auto

definition MapSpace :: "Memory \<Rightarrow> u32 \<Rightarrow> u32 \<Rightarrow> u32" where
  "MapSpace m addr sz =
     MapSpace_from m (unat addr div 4096) (unat addr div 4096) (unat sz div 4096)"

text \<open>
  Modelled from the spec: \<^verbatim>\<open>Memory::Map(addr, size, perm)\<close> maps the pages of the
  range with the permissions given (added to those of a page already mapped), and
  \<^verbatim>\<open>Memory::Unmap(addr, size)\<close> removes the pages of the range.
\<close>

definition Map_pages :: "Memory \<Rightarrow> u32 \<Rightarrow> u32 \<Rightarrow> MemoryAccess set \<Rightarrow> Memory" where
  "Map_pages m addr sz perm =
     m\<lparr>pages := (\<lambda>t. if t \<in> set (page_tags addr (unat sz div 4096))
                       then Some (perm \<union> (case pages m t of None \<Rightarrow> {} | Some p \<Rightarrow> p))
                       else pages m t)\<rparr>"

definition Unmap :: "Memory \<Rightarrow> u32 \<Rightarrow> u32 \<Rightarrow> Memory" where
  "Unmap m addr sz =
     m\<lparr>pages := (\<lambda>t. if t \<in> set (page_tags addr (unat sz div 4096))
                       then None else pages m t)\<rparr>"

text \<open>
  Modelled from the spec: \<^verbatim>\<open>Memory::Read(addr, 4, buf)\<close> into an
  \<^verbatim>\<open>unsigned\<close>: the four bytes from \<open>addr\<close> on, little-endian.  An access to
  a page that is not mapped is a fault that ends the simulation (\<open>None\<close>).
\<close>

definition Read4 :: "Memory \<Rightarrow> u32 \<Rightarrow> u32 option" where
  "Read4 m addr =
     (if \<forall>i \<in> {0, 1, 2, 3}. pages m (page_tag (addr + i)) \<noteq> None
      then Some (word_rcat [bytes m (addr + 3), bytes m (addr + 2), bytes m (addr + 1), bytes m addr])
      else None)"

text \<open>
  Modelled from the spec: \<^verbatim>\<open>Memory::Write(addr, 4, buf)\<close> from an
  \<^verbatim>\<open>unsigned\<close>, little-endian, with the same fault.
\<close>

definition Write4 :: "Memory \<Rightarrow> u32 \<Rightarrow> u32 \<Rightarrow> Memory option" where
  "Write4 m addr v =
     (if \<forall>i \<in> {0, 1, 2, 3}. pages m (page_tag (addr + i)) \<noteq> None
      then Some (m\<lparr>bytes := (bytes m)
                      (addr := ucast v,
                       addr + 1 := ucast (drop_bit 8 v),
                       addr + 2 := ucast (drop_bit 16 v),
                       addr + 3 := ucast (drop_bit 24 v))\<rparr>)
      else None)"

subsection \<open>The emulator\<close>

text \<open>
  \<open>context_list\<close> holds the contexts other than the one that runs the system call
  (\<^verbatim>\<open>this\<close>, which the handlers take as an argument of its own).  \<open>memories\<close> is
  the store of the memory images the contexts' shared pointers point into.

  Modelled from the spec: the class \<^verbatim>\<open>Emu\<close> is missing from the sources.
  \<open>futex_sleep_count\<close> is the global futex counter, \<open>next_pid\<close> the process id
  the next new context gets, \<open>next_object\<close> the next free address of the stores.
\<close>

record Emu =
  context_list :: "Context list"
  memories :: "nat \<Rightarrow> Memory"
  futex_sleep_count :: nat
  next_pid :: u32
  next_object :: nat

datatype ContextListType =
  ContextListRunning | ContextListSuspended | ContextListZombie | ContextListFinished

text \<open>
  Modelled from the spec: \<^verbatim>\<open>Emu::getContextList\<close> is missing from the sources.  A
  context is in the list of a state exactly when the flag of that state is on in its
  bitmap (this is what \<^verbatim>\<open>UpdateState\<close> keeps up).
\<close>

definition list_flag :: "ContextListType \<Rightarrow> ContextState" where
  "list_flag l = (case l of
       ContextListRunning \<Rightarrow> ContextRunning
     | ContextListSuspended \<Rightarrow> ContextSuspended
     | ContextListZombie \<Rightarrow> ContextZombie
     | ContextListFinished \<Rightarrow> ContextFinished)"

definition getContextList :: "Emu \<Rightarrow> ContextListType \<Rightarrow> Context list" where
  "getContextList emu l = filter (\<lambda>c. getState c (list_flag l)) (context_list emu)"

text \<open>
  Modelled from the spec: \<^verbatim>\<open>Emu::incFutexSleepCount\<close> is missing from the sources;
  the spec gives the sleep epoch of a waiter as \<^verbatim>\<open>++global_futex_counter\<close>: the
  counter is incremented and its new value returned.
\<close>

definition incFutexSleepCount :: "Emu \<Rightarrow> nat \<times> Emu" where
  "incFutexSleepCount emu =
     (Suc (futex_sleep_count emu), emu\<lparr>futex_sleep_count := Suc (futex_sleep_count emu)\<rparr>)"

subsection \<open>The dispatcher\<close>

text \<open>
  A handler (\<^verbatim>\<open>int (Context::*)()\<close>) runs on a context inside the emulator and
  returns its \<^verbatim>\<open>int\<close> with the context and the emulator as it leaves them,
  or ends the simulation.
\<close>

type_synonym ExecuteSyscallFn = "Context \<Rightarrow> Emu \<Rightarrow> error + (u32 \<times> Context \<times> Emu)"

text \<open>
  \<^verbatim>\<open>Context::ExecuteSyscall\<close>.  The table \<^verbatim>\<open>execute_syscall_fn\<close> and the code
  \<^verbatim>\<open>SyscallCode_sigreturn\<close> are generated from \<^verbatim>\<open>syscall.dat\<close>, which is missing
  from the sources: they are parameters.  The table gives \<open>None\<close> where the source
  would call through \<^verbatim>\<open>nullptr\<close> or read past the array.
\<close>

definition ExecuteSyscall ::
  "(u32 \<Rightarrow> ExecuteSyscallFn option) \<Rightarrow> u32 \<Rightarrow> Context \<Rightarrow> Emu \<Rightarrow> error + (Context \<times> Emu)" where
  "ExecuteSyscall execute_syscall_fn SyscallCode_sigreturn this emu =
     (let code = eax (regs this) in
      case execute_syscall_fn code of
        None \<Rightarrow> Inl (InvalidCall ''ExecuteSyscall'')
      | Some fn \<Rightarrow>
          (case fn this emu of
             Inl e \<Rightarrow> Inl e
           | Inr (ret, this', emu') \<Rightarrow>
               if code \<noteq> SyscallCode_sigreturn \<and> \<not> getState this' ContextSuspended
               then Inr (setEax this' ret, emu')
               else Inr (this', emu')))"

subsection \<open>Unimplemented system calls\<close>

definition syscall_error_note :: string where
  "syscall_error_note =
     ''The most common Linux system calls are currently supported by '' @
     ''Multi2Sim, but your application might perform specific unsupported '' @
     ''system calls or unsupported combinations of its arguments. To request '' @
     ''support for a given system call, please report a bug in '' @
     ''www.multi2sim.org.''"

text \<open>
  The macro \<^verbatim>\<open>__UNIMPLEMENTED__\<close>: \<^verbatim>\<open>misc::fatal\<close> with the name of the function
  after its first 15 characters (\<^verbatim>\<open>__FUNCTION__ + 15\<close>).  The \<^verbatim>\<open>return 0\<close> that
  follows in the macro is never reached.
\<close>

definition UNIMPLEMENTED :: "string \<Rightarrow> ExecuteSyscallFn" where
  "UNIMPLEMENTED FUNCTION this emu =
     Inl (Fatal (drop 15 FUNCTION @ '': unimplemented system call.\<newline>\<newline>'' @ syscall_error_note))"

definition ExecuteSyscall_restart_syscall :: ExecuteSyscallFn where
  "ExecuteSyscall_restart_syscall = UNIMPLEMENTED ''ExecuteSyscall_restart_syscall''"

definition ExecuteSyscall_fork :: ExecuteSyscallFn where
  "ExecuteSyscall_fork = UNIMPLEMENTED ''ExecuteSyscall_fork''"

definition ExecuteSyscall_execve :: ExecuteSyscallFn where
  "ExecuteSyscall_execve = UNIMPLEMENTED ''ExecuteSyscall_execve''"

definition ExecuteSyscall_sigreturn :: ExecuteSyscallFn where
  "ExecuteSyscall_sigreturn = UNIMPLEMENTED ''ExecuteSyscall_sigreturn''"

subsection \<open>System call \<^verbatim>\<open>brk\<close>\<close>

text \<open>
  \<^verbatim>\<open>Context::ExecuteSyscall_brk\<close>.  \<open>memories emu (memory this)\<close> is the object
  behind the pointer \<^verbatim>\<open>memory\<close>; the comparisons are those of \<^verbatim>\<open>unsigned\<close>.
\<close>

definition ExecuteSyscall_brk :: ExecuteSyscallFn where
  "ExecuteSyscall_brk this emu =
     (let mem = memories emu (memory this);
          new_heap_break = ebx (regs this);
          old_heap_break = getHeapBreak mem;
          new_heap_break_aligned = RoundUp new_heap_break MemoryPageSize;
          old_heap_break_aligned = RoundUp old_heap_break MemoryPageSize
      in
        if new_heap_break = 0 then Inr (old_heap_break, this, emu)
        else if new_heap_break > old_heap_break then
          (let sz = new_heap_break_aligned - old_heap_break_aligned in
           if sz \<noteq> 0 \<and> MapSpace mem old_heap_break_aligned sz \<noteq> old_heap_break_aligned
           then Inl (Fatal ''ExecuteSyscall_brk: out of memory'')
           else
             (let mem1 = (if sz \<noteq> 0
                          then Map_pages mem old_heap_break_aligned sz
                                 {MemoryAccessRead, MemoryAccessWrite}
                          else mem);
                  mem2 = setHeapBreak mem1 new_heap_break
              in Inr (new_heap_break, this,
                      emu\<lparr>memories := (memories emu)(memory this := mem2)\<rparr>)))
        else if new_heap_break < old_heap_break then
          (let sz = old_heap_break_aligned - new_heap_break_aligned;
               mem1 = (if sz \<noteq> 0 then Unmap mem new_heap_break_aligned sz else mem);
               mem2 = setHeapBreak mem1 new_heap_break
           in Inr (new_heap_break, this,
                   emu\<lparr>memories := (memories emu)(memory this := mem2)\<rparr>))
        else Inr (0, this, emu))"

subsection \<open>System call \<^verbatim>\<open>futex\<close>\<close>

text \<open>
  Modelled from the spec: \<^verbatim>\<open>Context::FutexWake(futex, count, bitset)\<close> is missing
  from the sources.  The spec: wake up to \<open>count\<close> contexts suspended on the futex
  whose bitset intersects \<open>bitset\<close>, preferring lower sleep epochs, and return the
  number woken; a context woken from a futex gets 0 in its return register and is
  no longer suspended.

  \<open>futex_waiters\<close> lists the positions in \<open>context_list\<close> of the contexts that can
  be woken, \<open>least_sleep\<close> picks the one with the lowest sleep epoch.
\<close>

definition futex_waiting :: "u32 \<Rightarrow> u32 \<Rightarrow> Context \<Rightarrow> bool" where
  "futex_waiting futex bitset c =
     (getState c ContextSuspended \<and> getState c ContextFutex \<and> wakeup_futex c = futex
      \<and> wakeup_futex_bitset c AND bitset \<noteq> 0)"

definition futex_waiters :: "Context list \<Rightarrow> u32 \<Rightarrow> u32 \<Rightarrow> nat list" where
  "futex_waiters cs futex bitset = filter (\<lambda>i. futex_waiting futex bitset (cs ! i)) [0..<length cs]"

definition least_sleep :: "Context list \<Rightarrow> nat list \<Rightarrow> nat" where
  "least_sleep cs is = arg_min_list (\<lambda>i. wakeup_futex_sleep (cs ! i)) is"

definition futex_wakeup :: "Context \<Rightarrow> Context" where
  "futex_wakeup c = clearState (setEax c 0) {ContextSuspended, ContextFutex}"

fun FutexWake :: "nat \<Rightarrow> u32 \<Rightarrow> u32 \<Rightarrow> Emu \<Rightarrow> nat \<times> Emu" where
  "FutexWake 0 futex bitset emu = (0, emu)"
| "FutexWake (Suc count) futex bitset emu =
     (let cs = context_list emu; ws = futex_waiters cs futex bitset in
      if ws = [] then (0, emu)
      else
        (let i = least_sleep cs ws;
             emu1 = emu\<lparr>context_list := cs[i := futex_wakeup (cs ! i)]\<rparr>;
             (k, emu2) = FutexWake count futex bitset emu1
         in (Suc k, emu2)))"

text \<open>
  The loop of \<^verbatim>\<open>FUTEX_CMP_REQUEUE\<close> over the list of suspended contexts: each one
  in state \<^verbatim>\<open>ContextFutex\<close> that waits on \<open>addr1\<close> is moved to \<open>addr2\<close>.
\<close>

definition requeue :: "u32 \<Rightarrow> u32 \<Rightarrow> Context \<Rightarrow> Context" where
  "requeue addr1 addr2 c =
     (if getState c ContextSuspended \<and> getState c ContextFutex \<and> wakeup_futex c = addr1
      then c\<lparr>wakeup_futex := addr2\<rparr> else c)"

text \<open>
  The operation and the comparison of \<^verbatim>\<open>FUTEX_WAKE_OP\<close>; \<open>None\<close> is the
  \<^verbatim>\<open>default\<close> branch of the \<^verbatim>\<open>switch\<close>, which is fatal.  \<^verbatim>\<open>oldval\<close> and
  \<^verbatim>\<open>cmparg\<close> are \<^verbatim>\<open>int\<close>: they compare signed.
\<close>

definition futex_op :: "u32 \<Rightarrow> u32 \<Rightarrow> u32 \<Rightarrow> u32 option" where
  "futex_op op oldval oparg =
     (if op = 0 then Some oparg
      else if op = 1 then Some (oldval + oparg)
      else if op = 2 then Some (oldval OR oparg)
      else if op = 3 then Some (oldval AND oparg)
      else if op = 4 then Some (oldval XOR oparg)
      else None)"

definition futex_cmp :: "u32 \<Rightarrow> u32 \<Rightarrow> u32 \<Rightarrow> bool option" where
  "futex_cmp cmp oldval cmparg =
     (if cmp = 0 then Some (oldval = cmparg)
      else if cmp = 1 then Some (oldval \<noteq> cmparg)
      else if cmp = 2 then Some (sint oldval < sint cmparg)
      else if cmp = 3 then Some (sint oldval \<le> sint cmparg)
      else if cmp = 4 then Some (sint oldval > sint cmparg)
      else if cmp = 5 then Some (sint oldval \<ge> sint cmparg)
      else None)"

definition memory_fault :: error where
  "memory_fault = Fatal ''Memory: access to a page that is not mapped''"

text \<open>
  \<^verbatim>\<open>Context::ExecuteSyscall_futex\<close>.  The word at \<open>addr1\<close> is read before the
  \<^verbatim>\<open>switch\<close> on the command.  The shifts of \<^verbatim>\<open>FUTEX_WAKE_OP\<close> are those of an
  \<^verbatim>\<open>int\<close> (\<open>signed_drop_bit\<close>).
\<close>

definition ExecuteSyscall_futex :: ExecuteSyscallFn where
  "ExecuteSyscall_futex this emu =
     (let addr1 = ebx (regs this);
          op = ecx (regs this);
          val1 = edx (regs this);
          timeout_ptr = esi (regs this);
          addr2 = edi (regs this);
          val3 = ebp (regs this);
          cmd = op AND NOT (256 OR 128)
      in
      case Read4 (memories emu (memory this)) addr1 of
        None \<Rightarrow> Inl memory_fault
      | Some futex \<Rightarrow>
        if cmd = 0 \<or> cmd = 9 then
          (let bitset = (if cmd = 9 then val3 else 0xffffffff) in
           if futex \<noteq> val1 then Inr (- 11, this, emu)
           else if timeout_ptr \<noteq> 0
             then Inl (Fatal ''syscall futex: FUTEX_WAIT not supported with timeout'')
           else
             (let (sleep, emu1) = incFutexSleepCount emu;
                  this1 = this\<lparr>wakeup_futex := addr1,
                               wakeup_futex_bitset := bitset,
                               wakeup_futex_sleep := sleep\<rparr>;
                  this2 = setState this1 ContextSuspended;
                  this3 = setState this2 ContextFutex
              in Inr (0, this3, emu1)))
        else if cmd = 1 \<or> cmd = 10 then
          (let bitset = (if cmd = 10 then val3 else 0xffffffff);
               (ret, emu1) = FutexWake (unat val1) addr1 bitset emu
           in Inr (of_nat ret, this, emu1))
        else if cmd = 4 then
          (if timeout_ptr \<noteq> 0x7fffffff
             then Inl (Fatal ''ExecuteSyscall_futex: FUTEX_CMP_REQUEUE: only supported for ptimeout=INTMAX'')
           else if futex \<noteq> val3 then Inr (- 11, this, emu)
           else
             (let (ret, emu1) = FutexWake (unat val1) addr1 0xffffffff emu;
                  emu2 = emu1\<lparr>context_list := map (requeue addr1 addr2) (context_list emu1)\<rparr>
              in Inr (of_nat ret, this, emu2)))
        else if cmd = 5 then
          (let val2 = timeout_ptr;
               op = signed_drop_bit 28 val3 AND 0xf;
               cmp = signed_drop_bit 24 val3 AND 0xf;
               oparg = signed_drop_bit 12 val3 AND 0xfff;
               cmparg = val3 AND 0xfff
           in
           case Read4 (memories emu (memory this)) addr2 of
             None \<Rightarrow> Inl memory_fault
           | Some oldval \<Rightarrow>
             (case futex_op op oldval oparg of
                None \<Rightarrow> Inl (Fatal ''ExecuteSyscall_futex: FUTEX_WAKE_OP: invalid operation'')
              | Some newval \<Rightarrow>
                (case Write4 (memories emu (memory this)) addr2 newval of
                   None \<Rightarrow> Inl memory_fault
                 | Some mem1 \<Rightarrow>
                   (let emu1 = emu\<lparr>memories := (memories emu)(memory this := mem1)\<rparr>;
                        (ret, emu2) = FutexWake (unat val1) addr1 0xffffffff emu1
                    in
                    case futex_cmp cmp oldval cmparg of
                      None \<Rightarrow> Inl (Fatal ''ExecuteSyscall_futex: FUTEX_WAKE_OP: invalid condition'')
                    | Some cond \<Rightarrow>
                        if cond then
                          (let (ret2, emu3) = FutexWake (unat val2) addr2 0xffffffff emu2
                           in Inr (of_nat ret + of_nat ret2, this, emu3))
                        else Inr (of_nat ret, this, emu2)))))
        else Inl (Fatal ''ExecuteSyscall_futex: not implemented for cmd''))"

subsection \<open>System call \<^verbatim>\<open>clone\<close>\<close>

definition SIM_CLONE_VM :: u32 where "SIM_CLONE_VM = 0x00000100"
definition SIM_CLONE_FS :: u32 where "SIM_CLONE_FS = 0x00000200"
definition SIM_CLONE_FILES :: u32 where "SIM_CLONE_FILES = 0x00000400"
definition SIM_CLONE_SIGHAND :: u32 where "SIM_CLONE_SIGHAND = 0x00000800"
definition SIM_CLONE_THREAD :: u32 where "SIM_CLONE_THREAD = 0x00010000"
definition SIM_CLONE_SYSVSEM :: u32 where "SIM_CLONE_SYSVSEM = 0x00040000"
definition SIM_CLONE_SETTLS :: u32 where "SIM_CLONE_SETTLS = 0x00080000"
definition SIM_CLONE_PARENT_SETTID :: u32 where "SIM_CLONE_PARENT_SETTID = 0x00100000"
definition SIM_CLONE_CHILD_CLEARTID :: u32 where "SIM_CLONE_CHILD_CLEARTID = 0x00200000"
definition SIM_CLONE_CHILD_SETTID :: u32 where "SIM_CLONE_CHILD_SETTID = 0x01000000"

definition clone_supported_flags :: u32 where
  "clone_supported_flags =
     SIM_CLONE_VM OR SIM_CLONE_FS OR SIM_CLONE_FILES OR SIM_CLONE_SIGHAND OR
     SIM_CLONE_THREAD OR SIM_CLONE_SYSVSEM OR SIM_CLONE_SETTLS OR
     SIM_CLONE_PARENT_SETTID OR SIM_CLONE_CHILD_CLEARTID OR SIM_CLONE_CHILD_SETTID"

text \<open>
  Modelled from the spec: \<^verbatim>\<open>Emu::newContext\<close> is missing from the sources.  It
  creates a context with a process id of its own; the context joins the emulator's
  contexts (here: when the system call returns, see \<open>ExecuteSyscall_clone\<close>).
\<close>

definition newContext :: "Emu \<Rightarrow> Context \<times> Emu" where
  "newContext emu =
     (\<lparr>pid = next_pid emu, state = {},
       regs = \<lparr>eax = 0, ecx = 0, edx = 0, ebx = 0, esp = 0, ebp = 0, esi = 0, edi = 0\<rparr>,
       memory = 0, file_table = 0, signal_handler_table = 0,
       exit_signal = 0, group_parent = None, clear_child_tid = 0,
       glibc_segment_base = 0, glibc_segment_limit = 0,
       wakeup_fd = 0, wakeup_events = 0,
       wakeup_futex = 0, wakeup_futex_bitset = 0, wakeup_futex_sleep = 0\<rparr>,
      emu\<lparr>next_pid := next_pid emu + 1\<rparr>)"

text \<open>
  Modelled from the spec: \<^verbatim>\<open>Context::Clone(parent)\<close> is missing from the sources.
  The spec: with \<^verbatim>\<open>CLONE_VM\<close> the new context shares the memory, the file-descriptor
  table and the signal handlers of the caller; the register file is a context's own
  (a copy of the caller's); the new context can run.
\<close>

definition Clone :: "Context \<Rightarrow> Context \<Rightarrow> Context" where
  "Clone child parent =
     child\<lparr>regs := regs parent,
           memory := memory parent,
           file_table := file_table parent,
           signal_handler_table := signal_handler_table parent,
           glibc_segment_base := glibc_segment_base parent,
           glibc_segment_limit := glibc_segment_limit parent,
           state := {ContextRunning}\<rparr>"

text \<open>
  Modelled from the spec: \<^verbatim>\<open>Context::Fork(parent)\<close> is missing from the sources.
  The spec: without \<^verbatim>\<open>CLONE_VM\<close> the memory image is deep-cloned (the mapping
  structure and the pages are copied).  The copy is a new object of the store; the
  tables get new objects as well.
\<close>

definition Fork :: "Context \<Rightarrow> Context \<Rightarrow> Emu \<Rightarrow> Context \<times> Emu" where
  "Fork child parent emu =
     (let a = next_object emu in
      (child\<lparr>regs := regs parent,
             memory := a,
             file_table := a,
             signal_handler_table := a,
             glibc_segment_base := glibc_segment_base parent,
             glibc_segment_limit := glibc_segment_limit parent,
             state := {ContextRunning}\<rparr>,
       emu\<lparr>memories := (memories emu)(a := memories emu (memory parent)),
            next_object := Suc a\<rparr>))"

text \<open>
  \<^verbatim>\<open>struct sim_user_desc\<close>: three \<^verbatim>\<open>unsigned\<close> and a word of bit fields, of which
  \<^verbatim>\<open>seg_32bit\<close> is bit 0 and \<^verbatim>\<open>limit_in_pages\<close> bit 4.
\<close>

record sim_user_desc =
  entry_number :: u32
  base_addr :: u32
  limit :: u32
  bit_fields :: u32

definition seg_32bit :: "sim_user_desc \<Rightarrow> bool" where
  "seg_32bit uinfo = bit (bit_fields uinfo) 0"

definition limit_in_pages :: "sim_user_desc \<Rightarrow> bool" where
  "limit_in_pages uinfo = bit (bit_fields uinfo) 4"

definition Read_user_desc :: "Memory \<Rightarrow> u32 \<Rightarrow> sim_user_desc option" where
  "Read_user_desc m p =
     (case (Read4 m p, Read4 m (p + 4), Read4 m (p + 8), Read4 m (p + 12)) of
        (Some a, Some b, Some c, Some d) \<Rightarrow>
          Some \<lparr>entry_number = a, base_addr = b, limit = c, bit_fields = d\<rparr>
      | _ \<Rightarrow> None)"

text \<open>
  The flags of \<^verbatim>\<open>clone\<close> that are handled after the new context has its memory:
  \<^verbatim>\<open>CLONE_THREAD\<close>, \<^verbatim>\<open>CLONE_PARENT_SETTID\<close>, \<^verbatim>\<open>CLONE_CHILD_SETTID\<close>,
  \<^verbatim>\<open>CLONE_CHILD_CLEARTID\<close>, \<^verbatim>\<open>CLONE_SETTLS\<close>, then the stack pointer and the
  return register of the new context.  This is the second half of
  \<^verbatim>\<open>Context::ExecuteSyscall_clone\<close>, from the comment \<^verbatim>\<open>Flag CLONE_THREAD\<close> on.
\<close>

definition clone_flags ::
  "Context \<Rightarrow> u32 \<Rightarrow> u32 \<Rightarrow> u32 \<Rightarrow> Context \<Rightarrow> Emu \<Rightarrow> error + (u32 \<times> Context \<times> Emu)" where
  "clone_flags this flags exit_signal0 new_esp child0 emu0 =
     (let parent_tid_ptr = edx (regs this);
          child_tid_ptr = edi (regs this);
          child1 = (if flags AND SIM_CLONE_THREAD \<noteq> 0
                    then child0\<lparr>exit_signal := 0,
                               group_parent := (case group_parent this of
                                                  Some g \<Rightarrow> Some g
                                                | None \<Rightarrow> Some (pid this))\<rparr>
                    else child0\<lparr>exit_signal := exit_signal0, group_parent := None\<rparr>)
      in
      case (if flags AND SIM_CLONE_PARENT_SETTID \<noteq> 0
            then map_option (\<lambda>m. emu0\<lparr>memories := (memories emu0)(memory this := m)\<rparr>)
                   (Write4 (memories emu0 (memory this)) parent_tid_ptr (pid child1))
            else Some emu0) of
        None \<Rightarrow> Inl memory_fault
      | Some emu1 \<Rightarrow>
      case (if flags AND SIM_CLONE_CHILD_SETTID \<noteq> 0
            then map_option (\<lambda>m. emu1\<lparr>memories := (memories emu1)(memory child1 := m)\<rparr>)
                   (Write4 (memories emu1 (memory child1)) child_tid_ptr (pid child1))
            else Some emu1) of
        None \<Rightarrow> Inl memory_fault
      | Some emu2 \<Rightarrow>
      let child2 = (if flags AND SIM_CLONE_CHILD_CLEARTID \<noteq> 0
                    then child1\<lparr>clear_child_tid := child_tid_ptr\<rparr> else child1)
      in
      case (if flags AND SIM_CLONE_SETTLS \<noteq> 0 then
              (let uinfo_ptr = esi (regs this) in
               case Read_user_desc (memories emu2 (memory this)) uinfo_ptr of
                 None \<Rightarrow> Inl memory_fault
               | Some uinfo \<Rightarrow>
                   if \<not> seg_32bit uinfo
                   then Inl (Fatal ''ExecuteSyscall_clone: only 32-bit segments supported'')
                   else
                     (let uinfo1 = (if limit_in_pages uinfo
                                    then uinfo\<lparr>limit := push_bit 12 (limit uinfo)\<rparr>
                                    else uinfo);
                          uinfo2 = uinfo1\<lparr>entry_number := 6\<rparr>
                      in
                      case Write4 (memories emu2 (memory this)) uinfo_ptr (entry_number uinfo2) of
                        None \<Rightarrow> Inl memory_fault
                      | Some m \<Rightarrow>
                          Inr (child2\<lparr>glibc_segment_base := base_addr uinfo2,
                                      glibc_segment_limit := limit uinfo2\<rparr>,
                               emu2\<lparr>memories := (memories emu2)(memory this := m)\<rparr>)))
            else Inr (child2, emu2)) of
        Inl e \<Rightarrow> Inl e
      | Inr (child3, emu3) \<Rightarrow>
          (let child4 = child3\<lparr>regs := (regs child3)\<lparr>esp := new_esp\<rparr>\<rparr>;
               child5 = setEax child4 0
           in Inr (pid child5, this,
                   emu3\<lparr>context_list := context_list emu3 @ [child5]\<rparr>)))"

text \<open>
  \<^verbatim>\<open>Context::ExecuteSyscall_clone\<close>, up to the choice between
  \<^verbatim>\<open>context->Clone(this)\<close> and \<^verbatim>\<open>context->Fork(this)\<close>; \<open>clone_flags\<close> is the rest.
\<close>

definition ExecuteSyscall_clone :: ExecuteSyscallFn where
  "ExecuteSyscall_clone this emu =
     (let flags0 = ebx (regs this);
          new_esp0 = ecx (regs this);
          exit_signal0 = flags0 AND 0xff;
          flags = flags0 AND NOT 0xff;
          new_esp = (if new_esp0 = 0 then esp (regs this) else new_esp0)
      in
      if flags AND NOT clone_supported_flags \<noteq> 0
      then Inl (Fatal ''ExecuteSyscall_clone: not supported flags'')
      else
        (let (child, emu0) = newContext emu in
         if flags AND SIM_CLONE_VM \<noteq> 0 then
           (if flags AND (SIM_CLONE_FS OR SIM_CLONE_FILES OR SIM_CLONE_SIGHAND)
                 \<noteq> (SIM_CLONE_FS OR SIM_CLONE_FILES OR SIM_CLONE_SIGHAND)
            then Inl (Fatal ''ExecuteSyscall_clone: not supported flags with CLONE_VM.'')
            else clone_flags this flags exit_signal0 new_esp (Clone child this) emu0)
         else
           (if flags AND (SIM_CLONE_FS OR SIM_CLONE_FILES OR SIM_CLONE_SIGHAND) \<noteq> 0
            then Inl (Fatal ''ExecuteSyscall_clone: not supported flags with CLONE_VM.'')
            else
              (let (child1, emu1) = Fork child this emu0
               in clone_flags this flags exit_signal0 new_esp child1 emu1))))"

subsection \<open>Sequences of calls and example states\<close>

text \<open>
  The guest calls \<^verbatim>\<open>brk(x)\<close> and then \<^verbatim>\<open>brk(0)\<close>: the argument is in
  \<^verbatim>\<open>ebx\<close>; the result is what the second call returns.
\<close>

definition brk_then_brk0 :: "u32 \<Rightarrow> Context \<Rightarrow> Emu \<Rightarrow> error + u32" where
  "brk_then_brk0 x this emu =
     (case ExecuteSyscall_brk (this\<lparr>regs := (regs this)\<lparr>ebx := x\<rparr>\<rparr>) emu of
        Inl e \<Rightarrow> Inl e
      | Inr (r1, this1, emu1) \<Rightarrow>
          (case ExecuteSyscall_brk (this1\<lparr>regs := (regs this1)\<lparr>ebx := 0\<rparr>\<rparr>) emu1 of
             Inl e \<Rightarrow> Inl e
           | Inr (r2, this2, emu2) \<Rightarrow> Inr r2))"

text \<open>
  A running context with process id 100 whose registers hold a \<^verbatim>\<open>futex\<close> call
  (\<^verbatim>\<open>FUTEX_WAIT\<close> on address \<open>0x1000\<close> with value 7 and no timeout), in an emulator
  whose memory image has one page mapped at \<open>0x1000\<close>, the word 7 there, and the heap
  break at \<open>0x5000\<close>.
\<close>

definition example_regs :: Regs where
  "example_regs =
     \<lparr>eax = 240, ecx = 0, edx = 7, ebx = 0x1000, esp = 0x8000, ebp = 0, esi = 0, edi = 0\<rparr>"

definition example_context :: Context where
  "example_context =
     \<lparr>pid = 100, state = {ContextRunning}, regs = example_regs,
      memory = 0, file_table = 0, signal_handler_table = 0,
      exit_signal = 0, group_parent = None, clear_child_tid = 0,
      glibc_segment_base = 0, glibc_segment_limit = 0,
      wakeup_fd = 0, wakeup_events = 0,
      wakeup_futex = 0, wakeup_futex_bitset = 0, wakeup_futex_sleep = 0\<rparr>"

definition example_memory :: Memory where
  "example_memory =
     \<lparr>heap_break = 0x5000,
      pages = (\<lambda>t. if t = 0x1000 then Some {MemoryAccessRead, MemoryAccessWrite} else None),
      bytes = (\<lambda>a. if a = 0x1000 then 7 else 0)\<rparr>"

definition example_emu :: Emu where
  "example_emu =
     \<lparr>context_list = [], memories = (\<lambda>a. example_memory),
      futex_sleep_count = 41, next_pid = 101, next_object = 1\<rparr>"

text \<open>The system-call table with \<^verbatim>\<open>futex\<close> at its code of the i386 ABI, 240.\<close>

definition example_table :: "u32 \<Rightarrow> ExecuteSyscallFn option" where
  "example_table code =
     (if code = 240 then Some ExecuteSyscall_futex
      else if code = 2 then Some ExecuteSyscall_fork
      else None)"

text \<open>The example context once it waits on the futex at \<open>0x1000\<close>.\<close>

definition example_suspended :: Context where
  "example_suspended = example_context
     \<lparr>state := {ContextSuspended, ContextFutex},
      wakeup_futex := 0x1000, wakeup_futex_bitset := 0xffffffff, wakeup_futex_sleep := 42\<rparr>"

text \<open>
  Three contexts that wait on the futex at \<open>0x1000\<close> with sleep epochs 5, 3 and 9,
  and a context whose registers hold \<^verbatim>\<open>FUTEX_CMP_REQUEUE\<close> on \<open>0x1000\<close>: wake one,
  move the others to \<open>0x2000\<close>, expected value 7, the timeout register \<open>0x7fffffff\<close>.
\<close>

definition example_waiter :: "nat \<Rightarrow> Context" where
  "example_waiter e = example_suspended\<lparr>pid := 200 + of_nat e, wakeup_futex_sleep := e\<rparr>"

definition requeue_context :: Context where
  "requeue_context = example_context
     \<lparr>regs := example_regs\<lparr>ecx := 4, edx := 1, esi := 0x7fffffff, edi := 0x2000, ebp := 7\<rparr>\<rparr>"

definition requeue_emu :: Emu where
  "requeue_emu =
     example_emu\<lparr>context_list := [example_waiter 5, example_waiter 3, example_waiter 9]\<rparr>"

text \<open>
  The example context about to call \<^verbatim>\<open>clone\<close> with the flags given and no new
  stack; the child of \<^verbatim>\<open>clone(CLONE_VM | CLONE_FS | CLONE_FILES | CLONE_SIGHAND | 17)\<close>
  and the child of \<^verbatim>\<open>clone(17)\<close>.
\<close>

definition clone_context :: "u32 \<Rightarrow> Context" where
  "clone_context flags = example_context\<lparr>regs := example_regs\<lparr>ebx := flags, ecx := 0\<rparr>\<rparr>"

definition example_child :: Context where
  "example_child =
     \<lparr>pid = 101, state = {ContextRunning},
      regs = example_regs\<lparr>ebx := 0xf11, eax := 0\<rparr>,
      memory = 0, file_table = 0, signal_handler_table = 0,
      exit_signal = 0x11, group_parent = None, clear_child_tid = 0,
      glibc_segment_base = 0, glibc_segment_limit = 0,
      wakeup_fd = 0, wakeup_events = 0,
      wakeup_futex = 0, wakeup_futex_bitset = 0, wakeup_futex_sleep = 0\<rparr>"

definition example_child_deep :: Context where
  "example_child_deep =
     example_child\<lparr>regs := example_regs\<lparr>ebx := 0x11, eax := 0\<rparr>,
                   memory := 1, file_table := 1, signal_handler_table := 1\<rparr>"

section \<open>Coherent memory hierarchy: the MOESI protocol engine\<close>

text \<open>
  The file \<^verbatim>\<open>moesi.c\<close> holds the seven event handlers of the protocol.  What they
  call (\<^verbatim>\<open>cachesystem.h\<close>: the cache, the directory, the access stacks, the modules,
  the networks and the event queue) is missing from the sources and is modelled from
  the spec, each piece marked as such.
\<close>

subsection \<open>Events\<close>

datatype event =
    ESIM_EV_NONE
  | EV_MOD_FIND_AND_LOCK
  | EV_MOD_FIND_AND_LOCK_ACTION
  | EV_MOD_FIND_AND_LOCK_FINISH
  | EV_MOD_LOAD
  | EV_MOD_LOAD_LOCK
  | EV_MOD_LOAD_ACTION
  | EV_MOD_LOAD_MISS
  | EV_MOD_LOAD_FINISH
  | EV_MOD_STORE
  | EV_MOD_STORE_LOCK
  | EV_MOD_STORE_ACTION
  | EV_MOD_STORE_FINISH
  | EV_MOD_EVICT
  | EV_MOD_EVICT_INVALID
  | EV_MOD_EVICT_ACTION
  | EV_MOD_EVICT_RECEIVE
  | EV_MOD_EVICT_WRITEBACK
  | EV_MOD_EVICT_WRITEBACK_EXCLUSIVE
  | EV_MOD_EVICT_WRITEBACK_FINISH
  | EV_MOD_EVICT_PROCESS
  | EV_MOD_EVICT_REPLY
  | EV_MOD_EVICT_REPLY_RECEIVE
  | EV_MOD_EVICT_FINISH
  | EV_MOD_WRITE_REQUEST
  | EV_MOD_WRITE_REQUEST_RECEIVE
  | EV_MOD_WRITE_REQUEST_ACTION
  | EV_MOD_WRITE_REQUEST_EXCLUSIVE
  | EV_MOD_WRITE_REQUEST_UPDOWN
  | EV_MOD_WRITE_REQUEST_UPDOWN_FINISH
  | EV_MOD_WRITE_REQUEST_DOWNUP
  | EV_MOD_WRITE_REQUEST_REPLY
  | EV_MOD_WRITE_REQUEST_FINISH
  | EV_MOD_READ_REQUEST
  | EV_MOD_READ_REQUEST_RECEIVE
  | EV_MOD_READ_REQUEST_ACTION
  | EV_MOD_READ_REQUEST_UPDOWN
  | EV_MOD_READ_REQUEST_UPDOWN_MISS
  | EV_MOD_READ_REQUEST_UPDOWN_FINISH
  | EV_MOD_READ_REQUEST_DOWNUP
  | EV_MOD_READ_REQUEST_DOWNUP_FINISH
  | EV_MOD_READ_REQUEST_REPLY
  | EV_MOD_READ_REQUEST_FINISH
  | EV_MOD_INVALIDATE
  | EV_MOD_INVALIDATE_FINISH

subsection \<open>Cache, directory, access stack, module, network\<close>

text \<open>
  The state of a block.  The handlers test \<^verbatim>\<open>stack->state\<close> as a truth value and
  write 0 for \<^verbatim>\<open>cache_block_invalid\<close>: \<^verbatim>\<open>cache_block_invalid\<close> is 0 and every other
  state is not.
\<close>

datatype cache_block_state =
    cache_block_invalid
  | cache_block_modified
  | cache_block_owned
  | cache_block_exclusive
  | cache_block_shared

text \<open>
  Modelled from the spec: a cache is set-associative, with a tag, a transient tag
  (the tag of a fill in progress) and a state per block, and an LRU order per set;
  \<open>way_list\<close> lists the ways of a set from the most recently to the least recently
  accessed.
\<close>

record cache_blk_t =
  blk_tag :: u32
  blk_transient_tag :: u32
  blk_state :: cache_block_state

record cache_t =
  num_sets :: nat
  assoc :: nat
  blks :: "nat \<Rightarrow> nat \<Rightarrow> cache_blk_t"
  way_list :: "nat \<Rightarrow> nat list"

text \<open>
  Modelled from the spec: a directory has, for each set, way and sub-block, the
  sharers (a bitmap over the nodes of the upper network, here the set of the bits
  that are on, with their number kept beside it) and the owner (a node or none), and
  for each set and way a lock with its queue of waiters (an access stack and the
  event to run for it).
\<close>

record dir_entry_t =
  owner :: "nat option"
  num_sharers :: nat
  sharer :: "nat set"

record dir_lock_t =
  lock :: bool
  lock_queue :: "(nat \<times> event) list"

record dir_t =
  zsize :: nat
  dir_entries :: "nat \<Rightarrow> nat \<Rightarrow> nat \<Rightarrow> dir_entry_t"
  dir_locks :: "nat \<Rightarrow> nat \<Rightarrow> dir_lock_t"

datatype mod_kind_t = mod_kind_cache | mod_kind_main_memory

text \<open>
  The counters of a module that \<^verbatim>\<open>moesi.c\<close> increments.
\<close>

record mod_stats =
  accesses :: nat
  hits :: nat
  reads :: nat
  blocking_reads :: nat
  non_blocking_reads :: nat
  read_hits :: nat
  writes :: nat
  blocking_writes :: nat
  non_blocking_writes :: nat
  write_hits :: nat
  no_retry_accesses :: nat
  no_retry_hits :: nat
  no_retry_reads :: nat
  no_retry_read_hits :: nat
  no_retry_writes :: nat
  no_retry_write_hits :: nat
  read_retries :: nat
  write_retries :: nat
  evictions :: nat

text \<open>
  Modelled from the spec: a module has a kind, a block size, a latency, a cache
  (a null pointer is \<open>None\<close>), a directory, its upper and lower networks (addresses
  of the networks in the simulation, \<open>None\<close> for a null pointer), the index of its
  node in each, and the list of its accesses in flight.  \<open>low_mod\<close> is what
  \<^verbatim>\<open>__mod_get_low_mod\<close> returns: the single module directly below.
\<close>

record mod_t =
  kind :: mod_kind_t
  block_size :: nat
  latency :: nat
  cache :: "cache_t option"
  dir :: dir_t
  low_mod :: "nat option"
  low_net :: "nat option"
  high_net :: "nat option"
  low_net_node :: nat
  high_net_node :: nat
  access_list :: "nat list"
  stats :: mod_stats

text \<open>
  Modelled from the spec: a network has its nodes (\<open>node_list\<close> gives the module a
  node stands for, its \<^verbatim>\<open>user_data\<close>), the number of its end nodes, and the
  messages in flight.  A message is sent at once unless the network is congested;
  \<open>msg_latency\<close> is the time a message of a size takes, \<open>defer_delay\<close> the time
  after which a deferred send is tried again.
\<close>

record net_t =
  node_list :: "nat \<Rightarrow> nat option"
  end_node_count :: nat
  congested :: bool
  msg_latency :: "nat \<Rightarrow> int"
  defer_delay :: int
  msgs :: "nat list"
  next_msg :: nat

text \<open>
  The access stack, with the fields \<^verbatim>\<open>moesi.c\<close> uses.  Pointers to modules and to
  stacks are addresses in the stores of the simulation; \<open>dir_lock\<close> points to the
  lock of a module's directory at a set and way.
\<close>

record mod_stack_t =
  stack_id :: nat
  stack_mod :: nat
  target_mod :: "nat option"
  except_mod :: "nat option"
  addr :: u32
  tag :: u32
  stack_set :: nat
  way :: nat
  stack_state :: cache_block_state
  src_set :: nat
  src_way :: nat
  src_tag :: u32
  dir_lock :: "(nat \<times> nat \<times> nat) option"
  hit :: bool
  blocking :: bool
  read :: bool
  retry :: bool
  err :: bool
  shared :: bool
  eviction :: bool
  writeback :: bool
  pending :: nat
  reply_size :: nat
  msg :: "nat option"
  ret_event :: event
  ret_stack :: "nat option"

text \<open>
  The simulation: the stores of the modules, the access stacks and the networks,
  the events scheduled (event, stack, delay in cycles, in the order of the calls of
  \<^verbatim>\<open>esim_schedule_event\<close>), the global \<^verbatim>\<open>cache_min_block_size\<close>, and the values
  \<^verbatim>\<open>random()\<close> is going to return.
\<close>

record sim =
  mods :: "nat \<Rightarrow> mod_t"
  stacks :: "nat \<Rightarrow> mod_stack_t"
  live_stacks :: "nat set"
  next_stack :: nat
  nets :: "nat \<Rightarrow> net_t"
  events :: "(event \<times> nat option \<times> int) list"
  cache_min_block_size :: nat
  randoms :: "nat \<Rightarrow> nat"
  random_count :: nat


subsection \<open>Sequencing\<close>

text \<open>
  A statement is a function from the simulation to the simulation after it, or to
  the error that ends the run.  \<open>seq\<close> runs statements in order and stops at the
  first error; \<open>ok\<close> is a statement that cannot fail.
\<close>

type_synonym stmt = "sim \<Rightarrow> error + sim"

definition then_do :: "error + 'a \<Rightarrow> ('a \<Rightarrow> error + 'b) \<Rightarrow> error + 'b" where
  "then_do r f = (case r of Inl e \<Rightarrow> Inl e | Inr x \<Rightarrow> f x)"

fun seq :: "stmt list \<Rightarrow> stmt" where
  "seq [] s = Inr s"
| "seq (f # fs) s = then_do (f s) (seq fs)"

definition ok :: "(sim \<Rightarrow> sim) \<Rightarrow> stmt" where
  "ok f s = Inr (f s)"

definition assert :: "bool \<Rightarrow> string \<Rightarrow> stmt" where
  "assert b what s = (if b then Inr s else Inl (AssertFailed what))"

text \<open>A loop \<^verbatim>\<open>for (z = 0; z < n; z++)\<close> whose body is a statement.\<close>

definition for_loop :: "nat \<Rightarrow> (nat \<Rightarrow> stmt) \<Rightarrow> stmt" where
  "for_loop n body = seq (map body [0..<n])"

definition upd_stack :: "nat \<Rightarrow> (mod_stack_t \<Rightarrow> mod_stack_t) \<Rightarrow> sim \<Rightarrow> sim" where
  "upd_stack p f s = s\<lparr>stacks := (stacks s)(p := f (stacks s p))\<rparr>"

definition upd_mod :: "nat \<Rightarrow> (mod_t \<Rightarrow> mod_t) \<Rightarrow> sim \<Rightarrow> sim" where
  "upd_mod m f s = s\<lparr>mods := (mods s)(m := f (mods s m))\<rparr>"

definition upd_stats :: "nat \<Rightarrow> (mod_stats \<Rightarrow> mod_stats) \<Rightarrow> sim \<Rightarrow> sim" where
  "upd_stats m f s = upd_mod m (\<lambda>md. md\<lparr>stats := f (stats md)\<rparr>) s"

text \<open>
  A write through the pointer \<^verbatim>\<open>ret\<close> (\<^verbatim>\<open>stack->ret_stack\<close>), and a use of a module
  pointer that may be null.
\<close>

definition upd_ret :: "nat option \<Rightarrow> (mod_stack_t \<Rightarrow> mod_stack_t) \<Rightarrow> stmt" where
  "upd_ret ret f s =
     (case ret of None \<Rightarrow> Inl (NullPointer ''ret'') | Some p \<Rightarrow> Inr (upd_stack p f s))"

definition with_ptr :: "'a option \<Rightarrow> string \<Rightarrow> ('a \<Rightarrow> sim \<Rightarrow> error + 'b) \<Rightarrow> sim \<Rightarrow> error + 'b" where
  "with_ptr p what f s = (case p of None \<Rightarrow> Inl (NullPointer what) | Some x \<Rightarrow> f x s)"

subsection \<open>The event queue and the access stacks\<close>

text \<open>
  Modelled from the spec: \<^verbatim>\<open>esim_schedule_event(event, stack, delay)\<close> inserts the
  event at \<^verbatim>\<open>now + delay\<close>; events of equal time run in the order of insertion.
\<close>

definition esim_schedule_event :: "event \<Rightarrow> nat option \<Rightarrow> int \<Rightarrow> sim \<Rightarrow> sim" where
  "esim_schedule_event ev stack delay s = s\<lparr>events := events s @ [(ev, stack, delay)]\<rparr>"

text \<open>
  Modelled from the spec: \<^verbatim>\<open>mod_stack_create(id, mod, addr, ret_event, ret_stack)\<close>
  allocates an access stack with every other field zero.
\<close>

definition new_mod_stack :: "nat \<Rightarrow> nat \<Rightarrow> u32 \<Rightarrow> event \<Rightarrow> nat option \<Rightarrow> mod_stack_t" where
  "new_mod_stack i m a ev ret =
     \<lparr>stack_id = i, stack_mod = m, target_mod = None, except_mod = None,
      addr = a, tag = 0, stack_set = 0, way = 0, stack_state = cache_block_invalid,
      src_set = 0, src_way = 0, src_tag = 0, dir_lock = None,
      hit = False, blocking = False, read = False, retry = False, err = False,
      shared = False, eviction = False, writeback = False, pending = 0, reply_size = 0,
      msg = None, ret_event = ev, ret_stack = ret\<rparr>"

definition mod_stack_create ::
  "nat \<Rightarrow> nat \<Rightarrow> u32 \<Rightarrow> event \<Rightarrow> nat option \<Rightarrow> sim \<Rightarrow> nat \<times> sim" where
  "mod_stack_create i m a ev ret s =
     (next_stack s,
      s\<lparr>stacks := (stacks s)(next_stack s := new_mod_stack i m a ev ret),
        live_stacks := insert (next_stack s) (live_stacks s),
        next_stack := Suc (next_stack s)\<rparr>)"

text \<open>
  Modelled from the spec: \<^verbatim>\<open>mod_stack_return(stack)\<close> posts the result to the
  parent: it schedules the return event of the stack for the parent stack, now, and
  frees the stack.
\<close>

definition mod_stack_return :: "nat \<Rightarrow> sim \<Rightarrow> sim" where
  "mod_stack_return stack s =
     esim_schedule_event (ret_event (stacks s stack)) (ret_stack (stacks s stack)) 0
       (s\<lparr>live_stacks := live_stacks s - {stack}\<rparr>)"

text \<open>
  Modelled from the spec: the accesses in flight of a module
  (\<^verbatim>\<open>mod_access_insert\<close>, \<^verbatim>\<open>mod_access_extract\<close>).
\<close>

definition mod_access_insert :: "nat \<Rightarrow> nat \<Rightarrow> sim \<Rightarrow> sim" where
  "mod_access_insert m stack s = upd_mod m (\<lambda>md. md\<lparr>access_list := access_list md @ [stack]\<rparr>) s"

definition mod_access_extract :: "nat \<Rightarrow> nat \<Rightarrow> sim \<Rightarrow> sim" where
  "mod_access_extract m stack s =
     upd_mod m (\<lambda>md. md\<lparr>access_list := remove1 stack (access_list md)\<rparr>) s"

text \<open>
  \<^verbatim>\<open>random()\<close> returns the next of the values to come.  The macro
  \<^verbatim>\<open>RETRY_LATENCY\<close> is \<^verbatim>\<open>random() % mod->latency + mod->latency\<close>, a \<^verbatim>\<open>long\<close>
  that is stored in an \<^verbatim>\<open>int\<close> (\<open>signed_take_bit 31\<close>); the remainder by a zero
  latency ends the run.
\<close>

definition random :: "sim \<Rightarrow> nat \<times> sim" where
  "random s = (randoms s (random_count s), s\<lparr>random_count := Suc (random_count s)\<rparr>)"

definition RETRY_LATENCY :: "nat \<Rightarrow> sim \<Rightarrow> error + (int \<times> sim)" where
  "RETRY_LATENCY m s =
     (let (r, s1) = random s; lat = latency (mods s m) in
      if lat = 0 then Inl DivisionByZero
      else Inr (signed_take_bit 31 (int (r mod lat + lat)), s1))"

subsection \<open>The cache\<close>

text \<open>
  Modelled from the spec: \<^verbatim>\<open>cache_get_block\<close> reads the tag and the state of a
  block, \<^verbatim>\<open>cache_set_block\<close> writes them, \<^verbatim>\<open>cache_set_transient_tag\<close> writes the
  transient tag; \<^verbatim>\<open>cache_replace_block\<close> gives the least recently accessed way of
  a set and \<^verbatim>\<open>cache_access_block\<close> promotes the way accessed.  None of them
  sends a message.
\<close>

definition cache_get_block :: "cache_t \<Rightarrow> nat \<Rightarrow> nat \<Rightarrow> u32 \<times> cache_block_state" where
  "cache_get_block c st w = (blk_tag (blks c st w), blk_state (blks c st w))"

definition cache_set_block :: "nat \<Rightarrow> nat \<Rightarrow> u32 \<Rightarrow> cache_block_state \<Rightarrow> cache_t \<Rightarrow> cache_t" where
  "cache_set_block st w tg bs c =
     c\<lparr>blks := (blks c)(st := (blks c st)(w := (blks c st w)\<lparr>blk_tag := tg, blk_state := bs\<rparr>))\<rparr>"




text \<open>A call that writes the cache of a module, through the pointer \<^verbatim>\<open>mod->cache\<close>.\<close>

definition upd_cache :: "nat \<Rightarrow> (cache_t \<Rightarrow> cache_t) \<Rightarrow> stmt" where
  "upd_cache m f s =
     (case cache (mods s m) of
        None \<Rightarrow> Inl (NullPointer ''cache'')
      | Some c \<Rightarrow> Inr (upd_mod m (\<lambda>md. md\<lparr>cache := Some (f c)\<rparr>) s))"

text \<open>\<^verbatim>\<open>cache_get_block(mod->cache, set, way, &stack->tag, &stack->state)\<close>.\<close>

definition get_block_tag_state :: "nat \<Rightarrow> nat \<Rightarrow> stmt" where
  "get_block_tag_state m stack s =
     (case cache (mods s m) of
        None \<Rightarrow> Inl (NullPointer ''cache'')
      | Some c \<Rightarrow>
          (let (tg, bs) = cache_get_block c (stack_set (stacks s stack)) (way (stacks s stack))
           in Inr (upd_stack stack (\<lambda>k. k\<lparr>tag := tg, stack_state := bs\<rparr>) s)))"


subsection \<open>The directory\<close>

text \<open>
  Modelled from the spec: the sharers and the owner of a directory entry.
  \<^verbatim>\<open>DIR_ENTRY_OWNER_NONE\<close> is \<open>None\<close>, \<^verbatim>\<open>DIR_ENTRY_VALID_OWNER\<close> holds of every
  other owner.
\<close>

definition dir_entry_is_sharer :: "dir_entry_t \<Rightarrow> nat \<Rightarrow> bool" where
  "dir_entry_is_sharer e node = (node \<in> sharer e)"

definition dir_entry_set_sharer :: "nat \<Rightarrow> dir_entry_t \<Rightarrow> dir_entry_t" where
  "dir_entry_set_sharer node e =
     (if node \<in> sharer e then e
      else e\<lparr>sharer := insert node (sharer e), num_sharers := Suc (num_sharers e)\<rparr>)"

definition dir_entry_clear_sharer :: "nat \<Rightarrow> dir_entry_t \<Rightarrow> dir_entry_t" where
  "dir_entry_clear_sharer node e =
     (if node \<in> sharer e
      then e\<lparr>sharer := sharer e - {node}, num_sharers := num_sharers e - 1\<rparr>
      else e)"

definition DIR_ENTRY_VALID_OWNER :: "dir_entry_t \<Rightarrow> bool" where
  "DIR_ENTRY_VALID_OWNER e = (owner e \<noteq> None)"

definition dir_entry_get :: "dir_t \<Rightarrow> nat \<Rightarrow> nat \<Rightarrow> nat \<Rightarrow> dir_entry_t" where
  "dir_entry_get d st w z = dir_entries d st w z"

definition dir_entry_group_shared_or_owned :: "dir_t \<Rightarrow> nat \<Rightarrow> nat \<Rightarrow> bool" where
  "dir_entry_group_shared_or_owned d st w =
     list_ex (\<lambda>z. num_sharers (dir_entry_get d st w z) \<noteq> 0
                  \<or> DIR_ENTRY_VALID_OWNER (dir_entry_get d st w z)) [0..<zsize d]"

text \<open>A write to the directory entry of a module at a set, way and sub-block.\<close>

definition upd_dir_entry ::
  "nat \<Rightarrow> nat \<Rightarrow> nat \<Rightarrow> nat \<Rightarrow> (dir_entry_t \<Rightarrow> dir_entry_t) \<Rightarrow> sim \<Rightarrow> sim" where
  "upd_dir_entry m st w z f s =
     upd_mod m (\<lambda>md. md\<lparr>dir := (dir md)\<lparr>dir_entries :=
        (dir_entries (dir md))(st := (dir_entries (dir md) st)(w := (dir_entries (dir md) st w)
           (z := f (dir_entries (dir md) st w z))))\<rparr>\<rparr>) s"


definition the_dir_lock :: "sim \<Rightarrow> nat \<times> nat \<times> nat \<Rightarrow> dir_lock_t" where
  "the_dir_lock s l = (case l of (m, st, w) \<Rightarrow> dir_locks (dir (mods s m)) st w)"

definition upd_dir_lock :: "nat \<times> nat \<times> nat \<Rightarrow> (dir_lock_t \<Rightarrow> dir_lock_t) \<Rightarrow> sim \<Rightarrow> sim" where
  "upd_dir_lock l f s =
     (case l of (m, st, w) \<Rightarrow>
        upd_mod m (\<lambda>md. md\<lparr>dir := (dir md)\<lparr>dir_locks :=
          (dir_locks (dir md))(st := (dir_locks (dir md) st)(w := f (dir_locks (dir md) st w)))\<rparr>\<rparr>) s)"


definition schedule_waiters :: "(nat \<times> event) list \<Rightarrow> sim \<Rightarrow> sim" where
  "schedule_waiters ws s = foldl (\<lambda>t (stack, ev). esim_schedule_event ev (Some stack) 1 t) s ws"

definition dir_lock_unlock :: "(nat \<times> nat \<times> nat) option \<Rightarrow> stmt" where
  "dir_lock_unlock p s =
     (case p of
        None \<Rightarrow> Inl (NullPointer ''dir_lock'')
      | Some l \<Rightarrow>
          Inr (upd_dir_lock l (\<lambda>k. k\<lparr>lock := False, lock_queue := []\<rparr>)
                 (schedule_waiters (lock_queue (the_dir_lock s l)) s)))"

subsection \<open>Modules and networks\<close>

definition mod_get_low_mod :: "sim \<Rightarrow> nat \<Rightarrow> nat option" where
  "mod_get_low_mod s m = low_mod (mods s m)"



text \<open>
  Modelled from the spec: \<^verbatim>\<open>net_try_send_ev\<close> places a message; if the channel is
  congested it schedules the retry event for when there is space, else it schedules
  the receive event at the end of the transmission.  The message (or a null pointer)
  is stored in \<^verbatim>\<open>stack->msg\<close>.  \<^verbatim>\<open>net_receive\<close> takes the message off the network.
\<close>

definition upd_net :: "nat \<Rightarrow> (net_t \<Rightarrow> net_t) \<Rightarrow> sim \<Rightarrow> sim" where
  "upd_net n f s = s\<lparr>nets := (nets s)(n := f (nets s n))\<rparr>"

definition net_try_send_ev ::
  "nat option \<Rightarrow> nat \<Rightarrow> nat \<Rightarrow> nat \<Rightarrow> event \<Rightarrow> nat \<Rightarrow> event \<Rightarrow> nat \<Rightarrow> nat \<Rightarrow> stmt" where
  "net_try_send_ev net src_node dst_node sz receive_event receive_stack retry_event retry_stack
     stack s =
     (case net of
        None \<Rightarrow> Inl (NullPointer ''net'')
      | Some n \<Rightarrow>
          if congested (nets s n)
          then Inr (upd_stack stack (\<lambda>k. k\<lparr>msg := None\<rparr>)
                      (esim_schedule_event retry_event (Some retry_stack) (defer_delay (nets s n)) s))
          else Inr (upd_stack stack (\<lambda>k. k\<lparr>msg := Some (next_msg (nets s n))\<rparr>)
                      (esim_schedule_event receive_event (Some receive_stack)
                         (msg_latency (nets s n) sz)
                         (upd_net n (\<lambda>t. t\<lparr>msgs := msgs t @ [next_msg t],
                                           next_msg := Suc (next_msg t)\<rparr>) s))))"

definition net_receive :: "nat option \<Rightarrow> nat \<Rightarrow> nat option \<Rightarrow> stmt" where
  "net_receive net node m s =
     (case (net, m) of
        (Some n, Some i) \<Rightarrow> Inr (upd_net n (\<lambda>t. t\<lparr>msgs := remove1 i (msgs t)\<rparr>) s)
      | _ \<Rightarrow> Inl (NullPointer ''net_receive''))"

text \<open>The module a node of a network stands for (\<^verbatim>\<open>list_get(net->node_list, i)->user_data\<close>).\<close>

definition node_mod :: "sim \<Rightarrow> nat option \<Rightarrow> nat \<Rightarrow> nat option" where
  "node_mod s net i = (case net of None \<Rightarrow> None | Some n \<Rightarrow> node_list (nets s n) i)"


subsection \<open>The handlers of \<^verbatim>\<open>load\<close> and \<^verbatim>\<open>store\<close>\<close>

text \<open>
  A handler is called with an event and the stack the event was scheduled for.  It
  reads \<^verbatim>\<open>stack->mod\<close> first; \<open>k\<close> is the stack as the handler finds it.
\<close>

definition retry_after :: "nat \<Rightarrow> nat \<Rightarrow> event \<Rightarrow> stmt list \<Rightarrow> stmt" where
  "retry_after m stack ev before s =
     then_do (RETRY_LATENCY m s)
       (\<lambda>(retry_lat, s1).
          seq (before @
               [ok (upd_stack stack (\<lambda>n. n\<lparr>retry := True\<rparr>)),
                ok (esim_schedule_event ev (Some stack) retry_lat)]) s1)"

definition mod_handler_load :: "event \<Rightarrow> nat \<Rightarrow> stmt" where
  "mod_handler_load ev stack s =
     (let k = stacks s stack; m = stack_mod k in
      if ev = EV_MOD_LOAD then
        seq [ok (mod_access_insert m stack),
             ok (esim_schedule_event EV_MOD_LOAD_LOCK (Some stack) 0)] s
      else if ev = EV_MOD_LOAD_LOCK then
        (let (new_stack, s1) =
               mod_stack_create (stack_id k) m (addr k) EV_MOD_LOAD_ACTION (Some stack) s
         in seq [ok (upd_stack new_stack
                       (\<lambda>n. n\<lparr>blocking := False, read := True, retry := retry k\<rparr>)),
                 ok (esim_schedule_event EV_MOD_FIND_AND_LOCK (Some new_stack) 0)] s1)
      else if ev = EV_MOD_LOAD_ACTION then
        (if err k then
           seq [ok (upd_stats m (\<lambda>t. t\<lparr>read_retries := Suc (read_retries t)\<rparr>)),
                retry_after m stack EV_MOD_LOAD_LOCK []] s
         else if stack_state k \<noteq> cache_block_invalid then
           ok (esim_schedule_event EV_MOD_LOAD_FINISH (Some stack) 0) s
         else
           (let (new_stack, s1) =
                  mod_stack_create (stack_id k) m (tag k) EV_MOD_LOAD_MISS (Some stack) s
            in seq [ok (upd_stack new_stack (\<lambda>n. n\<lparr>target_mod := mod_get_low_mod s m\<rparr>)),
                    ok (esim_schedule_event EV_MOD_READ_REQUEST (Some new_stack) 0)] s1))
      else if ev = EV_MOD_LOAD_MISS then
        (if err k then
           seq [ok (upd_stats m (\<lambda>t. t\<lparr>read_retries := Suc (read_retries t)\<rparr>)),
                retry_after m stack EV_MOD_LOAD_LOCK [dir_lock_unlock (dir_lock k)]] s
         else
           seq [upd_cache m (cache_set_block (stack_set k) (way k) (tag k)
                               (if shared k then cache_block_shared else cache_block_exclusive)),
                ok (esim_schedule_event EV_MOD_LOAD_FINISH (Some stack) 0)] s)
      else if ev = EV_MOD_LOAD_FINISH then
        seq [dir_lock_unlock (dir_lock k),
             ok (mod_access_extract m stack),
             ok (mod_stack_return stack)] s
      else Inl Aborted)"


subsection \<open>The handler of \<^verbatim>\<open>find_and_lock\<close>\<close>






subsection \<open>The handlers of \<^verbatim>\<open>write_request\<close> and \<^verbatim>\<open>invalidate\<close>\<close>

text \<open>
  The address of sub-block \<open>z\<close> of the block with tag \<open>tg\<close>
  (\<^verbatim>\<open>stack->tag + z * cache_min_block_size\<close>, in \<^verbatim>\<open>uint32_t\<close>), and the test that
  skips the sub-blocks outside of the block of the requester
  (\<^verbatim>\<open>dir_entry_tag < stack->addr || dir_entry_tag >= stack->addr + mod->block_size\<close>).
\<close>

definition dir_entry_tag :: "sim \<Rightarrow> u32 \<Rightarrow> nat \<Rightarrow> u32" where
  "dir_entry_tag s tg z = tg + of_nat z * of_nat (cache_min_block_size s)"

definition outside :: "u32 \<Rightarrow> u32 \<Rightarrow> nat \<Rightarrow> bool" where
  "outside t a bsz = (t < a \<or> t \<ge> a + of_nat bsz)"

text \<open>
  The request goes down when the target is the module below the sender
  (\<^verbatim>\<open>__mod_get_low_mod(mod) == target_mod\<close>), up when the sender is the module below
  the target.
\<close>

definition updown :: "sim \<Rightarrow> nat \<Rightarrow> nat \<Rightarrow> bool" where
  "updown s m t = (mod_get_low_mod s m = Some t)"

definition downup :: "sim \<Rightarrow> nat \<Rightarrow> nat \<Rightarrow> bool" where
  "downup s m t = (mod_get_low_mod s t = Some m)"

text \<open>
  The sending of a request or of its reply, as the events \<^verbatim>\<open>EV_MOD_WRITE_REQUEST\<close>,
  \<^verbatim>\<open>EV_MOD_WRITE_REQUEST_REPLY\<close>, \<^verbatim>\<open>EV_MOD_READ_REQUEST\<close> and
  \<^verbatim>\<open>EV_MOD_READ_REQUEST_REPLY\<close> do it: the network is the lower one of \<open>m\<close> when
  the request goes down and its upper one when it goes up; a request travels from
  \<open>m\<close> to \<open>t\<close> and a reply from \<open>t\<close> to \<open>m\<close>.
\<close>

definition send_request :: "event \<Rightarrow> nat \<Rightarrow> nat \<Rightarrow> nat \<Rightarrow> nat \<Rightarrow> event \<Rightarrow> stmt" where
  "send_request ev stack m t sz receive_event s =
     seq [assert (updown s m t \<or> downup s m t)
            ''__mod_get_low_mod(mod) == target_mod || __mod_get_low_mod(target_mod) == mod'',
          net_try_send_ev
            (if updown s m t then low_net (mods s m) else high_net (mods s m))
            (if updown s m t then low_net_node (mods s m) else high_net_node (mods s m))
            (if updown s m t then high_net_node (mods s t) else low_net_node (mods s t))
            sz receive_event stack ev stack stack] s"

definition send_reply :: "event \<Rightarrow> nat \<Rightarrow> nat \<Rightarrow> nat \<Rightarrow> event \<Rightarrow> stmt" where
  "send_reply ev stack m t receive_event s =
     seq [assert (reply_size (stacks s stack) \<noteq> 0) ''stack->reply_size'',
          assert (updown s m t \<or> downup s m t)
            ''__mod_get_low_mod(mod) == target_mod || __mod_get_low_mod(target_mod) == mod'',
          net_try_send_ev
            (if updown s m t then low_net (mods s m) else high_net (mods s m))
            (if updown s m t then high_net_node (mods s t) else low_net_node (mods s t))
            (if updown s m t then low_net_node (mods s m) else high_net_node (mods s m))
            (reply_size (stacks s stack)) receive_event stack ev stack stack] s"

text \<open>
  The receipt of a request at the target (\<open>at_target\<close>) and of the reply at the
  sender.
\<close>

definition receive_request :: "nat \<Rightarrow> nat \<Rightarrow> nat \<Rightarrow> stmt" where
  "receive_request stack m t s =
     (if updown s m t
      then net_receive (high_net (mods s t)) (high_net_node (mods s t)) (msg (stacks s stack)) s
      else net_receive (low_net (mods s t)) (low_net_node (mods s t)) (msg (stacks s stack)) s)"

definition receive_reply :: "nat \<Rightarrow> nat \<Rightarrow> nat \<Rightarrow> stmt" where
  "receive_reply stack m t s =
     (if updown s m t
      then net_receive (low_net (mods s m)) (low_net_node (mods s m)) (msg (stacks s stack)) s
      else net_receive (high_net (mods s m)) (high_net_node (mods s m)) (msg (stacks s stack)) s)"

text \<open>
  The body of the loop of \<^verbatim>\<open>EV_MOD_WRITE_REQUEST_UPDOWN_FINISH\<close>: the requester
  \<open>m\<close> becomes sharer and owner of sub-block \<open>z\<close> of the block of \<open>t\<close>.
\<close>

definition write_request_set_owner :: "nat \<Rightarrow> nat \<Rightarrow> nat \<Rightarrow> nat \<Rightarrow> stmt" where
  "write_request_set_owner stack m t z s =
     (let k = stacks s stack in
      seq [(if block_size (mods s m) = 0 then (\<lambda>u. Inl DivisionByZero)
            else assert (addr k mod of_nat (block_size (mods s m)) = 0)
                   ''stack->addr % mod->block_size == 0''),
           (if outside (dir_entry_tag s (tag k) z) (addr k) (block_size (mods s m)) then ok id
            else
              seq [ok (upd_dir_entry t (stack_set k) (way k) z
                         (\<lambda>e. (dir_entry_set_sharer (low_net_node (mods s m)) e)
                                 \<lparr>owner := Some (low_net_node (mods s m))\<rparr>)),
                   (\<lambda>u. assert (num_sharers (dir_entry_get (dir (mods u t))
                                                (stack_set k) (way k) z) = 1)
                           ''dir_entry->num_sharers == 1'' u)])] s)"

definition mod_handler_write_request :: "event \<Rightarrow> nat \<Rightarrow> stmt" where
  "mod_handler_write_request ev stack s =
     (let k = stacks s stack; ret = ret_stack k; m = stack_mod k in
      with_ptr (target_mod k) ''target_mod''
       (\<lambda>t s.
        if ev = EV_MOD_WRITE_REQUEST then
          seq [upd_ret ret (\<lambda>r. r\<lparr>err := False\<rparr>),
               send_request ev stack m t 8 EV_MOD_WRITE_REQUEST_RECEIVE] s
        else if ev = EV_MOD_WRITE_REQUEST_RECEIVE then
          seq [receive_request stack m t,
               (\<lambda>u. let (new_stack, u1) =
                          mod_stack_create (stack_id k) t (addr k)
                            EV_MOD_WRITE_REQUEST_ACTION (Some stack) u
                     in seq [ok (upd_stack new_stack
                                   (\<lambda>n. n\<lparr>blocking := downup u m t,
                                          read := False, retry := False\<rparr>)),
                             ok (esim_schedule_event EV_MOD_FIND_AND_LOCK (Some new_stack) 0)]
                          u1)] s
        else if ev = EV_MOD_WRITE_REQUEST_ACTION then
          (if err k then
             seq [assert (updown s m t) ''__mod_get_low_mod(mod) == target_mod'',
                  upd_ret ret (\<lambda>r. r\<lparr>err := True\<rparr>),
                  ok (upd_stack stack (\<lambda>n. n\<lparr>reply_size := 8\<rparr>)),
                  ok (esim_schedule_event EV_MOD_WRITE_REQUEST_REPLY (Some stack) 0)] s
           else
             (let (new_stack, s1) =
                    mod_stack_create (stack_id k) t 0 EV_MOD_WRITE_REQUEST_EXCLUSIVE (Some stack) s
              in seq [ok (upd_stack new_stack
                            (\<lambda>n. n\<lparr>except_mod := Some m, stack_set := stack_set k,
                                   way := way k\<rparr>)),
                      ok (esim_schedule_event EV_MOD_INVALIDATE (Some new_stack) 0)] s1))
        else if ev = EV_MOD_WRITE_REQUEST_EXCLUSIVE then
          (if updown s m t
           then ok (esim_schedule_event EV_MOD_WRITE_REQUEST_UPDOWN (Some stack) 0) s
           else ok (esim_schedule_event EV_MOD_WRITE_REQUEST_DOWNUP (Some stack) 0) s)
        else if ev = EV_MOD_WRITE_REQUEST_UPDOWN then
          (if stack_state k = cache_block_modified \<or> stack_state k = cache_block_exclusive then
             ok (esim_schedule_event EV_MOD_WRITE_REQUEST_UPDOWN_FINISH (Some stack) 0) s
           else
             (let (new_stack, s1) =
                    mod_stack_create (stack_id k) t (tag k)
                      EV_MOD_WRITE_REQUEST_UPDOWN_FINISH (Some stack) s
              in seq [ok (upd_stack new_stack (\<lambda>n. n\<lparr>target_mod := mod_get_low_mod s t\<rparr>)),
                      ok (esim_schedule_event EV_MOD_WRITE_REQUEST (Some new_stack) 0)] s1))
        else if ev = EV_MOD_WRITE_REQUEST_UPDOWN_FINISH then
          (if err k then
             seq [upd_ret ret (\<lambda>r. r\<lparr>err := True\<rparr>),
                  ok (upd_stack stack (\<lambda>n. n\<lparr>reply_size := 8\<rparr>)),
                  dir_lock_unlock (dir_lock k),
                  ok (esim_schedule_event EV_MOD_WRITE_REQUEST_REPLY (Some stack) 0)] s
           else
             seq [for_loop (zsize (dir (mods s t))) (write_request_set_owner stack m t),
                  (if cache (mods s t) \<noteq> None \<and> stack_state k \<noteq> cache_block_modified
                   then upd_cache t (cache_set_block (stack_set k) (way k) (tag k)
                                       cache_block_exclusive)
                   else ok id),
                  dir_lock_unlock (dir_lock k),
                  ok (upd_stack stack (\<lambda>n. n\<lparr>reply_size := block_size (mods s m) + 8\<rparr>)),
                  ok (esim_schedule_event EV_MOD_WRITE_REQUEST_REPLY (Some stack) 0)] s)
        else if ev = EV_MOD_WRITE_REQUEST_DOWNUP then
          seq [assert (stack_state k \<noteq> cache_block_invalid)
                 ''stack->state != cache_block_invalid'',
               assert (\<not> dir_entry_group_shared_or_owned (dir (mods s t)) (stack_set k) (way k))
                 ''!dir_entry_group_shared_or_owned'',
               ok (upd_stack stack
                     (\<lambda>n. n\<lparr>reply_size :=
                              (if stack_state k = cache_block_modified
                                  \<or> stack_state k = cache_block_owned
                               then block_size (mods s t) + 8 else 8)\<rparr>)),
               upd_cache t (cache_set_block (stack_set k) (way k) 0 cache_block_invalid),
               dir_lock_unlock (dir_lock k),
               ok (esim_schedule_event EV_MOD_WRITE_REQUEST_REPLY (Some stack) 0)] s
        else if ev = EV_MOD_WRITE_REQUEST_REPLY then
          send_reply ev stack m t EV_MOD_WRITE_REQUEST_FINISH s
        else if ev = EV_MOD_WRITE_REQUEST_FINISH then
          seq [receive_reply stack m t,
               ok (mod_stack_return stack)] s
        else Inl Aborted) s)"

text \<open>
  The body of the inner loop of \<^verbatim>\<open>EV_MOD_INVALIDATE\<close>, for sub-block \<open>z\<close> and
  node \<open>i\<close> of the upper network.
\<close>

definition invalidate_sharer :: "nat \<Rightarrow> nat \<Rightarrow> nat \<Rightarrow> nat \<Rightarrow> stmt" where
  "invalidate_sharer stack m z i s =
     (let k = stacks s stack;
          e = dir_entry_get (dir (mods s m)) (stack_set k) (way k) z
      in
      if \<not> dir_entry_is_sharer e i then Inr s
      else
        with_ptr (node_mod s (high_net (mods s m)) i) ''node->user_data''
          (\<lambda>sharer_mod s.
             if Some sharer_mod = except_mod k then Inr s
             else
               (let s1 = upd_dir_entry m (stack_set k) (way k) z
                           (\<lambda>e. (dir_entry_clear_sharer i e)
                                   \<lparr>owner := (if owner e = Some i then None else owner e)\<rparr>) s
                in
                if block_size (mods s1 sharer_mod) = 0 then Inl DivisionByZero
                else if dir_entry_tag s1 (tag k) z mod of_nat (block_size (mods s1 sharer_mod)) \<noteq> 0
                then Inr s1
                else
                  (let (new_stack, s2) =
                         mod_stack_create (stack_id k) m (dir_entry_tag s1 (tag k) z)
                           EV_MOD_INVALIDATE_FINISH (Some stack) s1
                   in seq [ok (upd_stack new_stack (\<lambda>n. n\<lparr>target_mod := Some sharer_mod\<rparr>)),
                           ok (esim_schedule_event EV_MOD_WRITE_REQUEST (Some new_stack) 0),
                           ok (upd_stack stack (\<lambda>n. n\<lparr>pending := Suc (pending n)\<rparr>))] s2))) s)"

definition node_count :: "sim \<Rightarrow> nat \<Rightarrow> nat" where
  "node_count s m =
     (case high_net (mods s m) of None \<Rightarrow> 0 | Some n \<Rightarrow> end_node_count (nets s n))"

definition mod_handler_invalidate :: "event \<Rightarrow> nat \<Rightarrow> stmt" where
  "mod_handler_invalidate ev stack s =
     (let k = stacks s stack; m = stack_mod k in
      if ev = EV_MOD_INVALIDATE then
        seq [get_block_tag_state m stack,
             ok (upd_stack stack (\<lambda>n. n\<lparr>pending := 1\<rparr>)),
             for_loop (zsize (dir (mods s m)))
               (\<lambda>z. seq (map (invalidate_sharer stack m z) [1..<node_count s m])),
             ok (esim_schedule_event EV_MOD_INVALIDATE_FINISH (Some stack) 0)] s
      else if ev = EV_MOD_INVALIDATE_FINISH then
        seq [assert (pending k > 0) ''stack->pending > 0'',
             ok (upd_stack stack (\<lambda>n. n\<lparr>pending := pending n - 1\<rparr>)),
             (\<lambda>t. if pending (stacks t stack) \<noteq> 0 then Inr t
                   else ok (mod_stack_return stack) t)] s
      else Inl Aborted)"


subsection \<open>The handler of \<^verbatim>\<open>read_request\<close>\<close>

text \<open>
  The bodies of the two loops of \<^verbatim>\<open>EV_MOD_READ_REQUEST_UPDOWN\<close> for a valid
  block: the check that the requester owns no sub-block it asks for, and the read
  request to the owner of a sub-block when that is another module.
\<close>

definition read_request_check_owner :: "nat \<Rightarrow> nat \<Rightarrow> nat \<Rightarrow> nat \<Rightarrow> stmt" where
  "read_request_check_owner stack m t z s =
     (let k = stacks s stack in
      if outside (dir_entry_tag s (tag k) z) (addr k) (block_size (mods s m)) then Inr s
      else assert (owner (dir_entry_get (dir (mods s t)) (stack_set k) (way k) z)
                     \<noteq> Some (low_net_node (mods s m)))
             ''dir_entry->owner != mod->low_net_node->index'' s)"

text \<open>
  A read request from \<open>t\<close> to the owner of sub-block \<open>z\<close>, which returns with the
  event \<open>ret_ev\<close>; the loops of \<^verbatim>\<open>EV_MOD_READ_REQUEST_UPDOWN\<close> (which skips the
  requester, \<open>skip\<close>) and of \<^verbatim>\<open>EV_MOD_READ_REQUEST_DOWNUP\<close> (which skips nobody and
  sets the reply size) share it.
\<close>

definition read_request_to_owner ::
  "nat \<Rightarrow> nat \<Rightarrow> nat option \<Rightarrow> event \<Rightarrow> (mod_stack_t \<Rightarrow> mod_stack_t) \<Rightarrow> nat \<Rightarrow> stmt" where
  "read_request_to_owner stack t skip ret_ev f z s =
     (let k = stacks s stack;
          e = dir_entry_get (dir (mods s t)) (stack_set k) (way k) z
      in
      case owner e of
        None \<Rightarrow> Inr s
      | Some ow \<Rightarrow>
          if Some ow = skip then Inr s
          else
            with_ptr (node_mod s (high_net (mods s t)) ow) ''node->user_data''
              (\<lambda>owner_mod s.
                 if block_size (mods s owner_mod) = 0 then Inl DivisionByZero
                 else if dir_entry_tag s (tag k) z mod of_nat (block_size (mods s owner_mod)) \<noteq> 0
                 then Inr s
                 else
                   (let s0 = upd_stack stack (\<lambda>n. f (n\<lparr>pending := Suc (pending n)\<rparr>)) s;
                        (new_stack, s1) =
                          mod_stack_create (stack_id k) t (dir_entry_tag s (tag k) z)
                            ret_ev (Some stack) s0
                    in seq [ok (upd_stack new_stack (\<lambda>n. n\<lparr>target_mod := Some owner_mod\<rparr>)),
                            ok (esim_schedule_event EV_MOD_READ_REQUEST (Some new_stack) 0)]
                         s1)) s)"

text \<open>
  The loops of \<^verbatim>\<open>EV_MOD_READ_REQUEST_UPDOWN_FINISH\<close>: the owners other than the
  requester are dropped; the requester becomes a sharer of the sub-blocks it asked
  for, and \<open>shared\<close> tells whether one of them has another sharer; if none has, the
  requester becomes their owner.
\<close>

definition drop_other_owner :: "nat \<Rightarrow> nat \<Rightarrow> nat \<Rightarrow> nat \<Rightarrow> stmt" where
  "drop_other_owner stack m t z s =
     (let k = stacks s stack in
      ok (upd_dir_entry t (stack_set k) (way k) z
            (\<lambda>e. if owner e \<noteq> Some (low_net_node (mods s m)) then e\<lparr>owner := None\<rparr> else e)) s)"

definition add_sharer :: "nat \<Rightarrow> nat \<Rightarrow> nat \<Rightarrow> bool \<times> sim \<Rightarrow> nat \<Rightarrow> bool \<times> sim" where
  "add_sharer stack m t acc z =
     (case acc of (sh, s) \<Rightarrow>
        (let k = stacks s stack in
         if outside (dir_entry_tag s (tag k) z) (addr k) (block_size (mods s m)) then (sh, s)
         else
           (let s1 = upd_dir_entry t (stack_set k) (way k) z
                       (dir_entry_set_sharer (low_net_node (mods s m))) s
            in (sh \<or> num_sharers (dir_entry_get (dir (mods s1 t)) (stack_set k) (way k) z) > 1,
                s1))))"

definition set_owner :: "nat \<Rightarrow> nat \<Rightarrow> nat \<Rightarrow> nat \<Rightarrow> stmt" where
  "set_owner stack m t z s =
     (let k = stacks s stack in
      if outside (dir_entry_tag s (tag k) z) (addr k) (block_size (mods s m)) then Inr s
      else ok (upd_dir_entry t (stack_set k) (way k) z
                 (\<lambda>e. e\<lparr>owner := Some (low_net_node (mods s m))\<rparr>)) s)"

text \<open>
  In \<^verbatim>\<open>EV_MOD_READ_REQUEST_UPDOWN_FINISH\<close> the loop that adds the sharer runs with
  the local variable \<^verbatim>\<open>shared\<close>, which starts at 0: \<open>add_sharer\<close> takes it and the
  simulation and returns both.
\<close>

definition mod_handler_read_request :: "event \<Rightarrow> nat \<Rightarrow> stmt" where
  "mod_handler_read_request ev stack s =
     (let k = stacks s stack; ret = ret_stack k; m = stack_mod k in
      with_ptr (target_mod k) ''target_mod''
       (\<lambda>t s.
        if ev = EV_MOD_READ_REQUEST then
          seq [upd_ret ret (\<lambda>r. r\<lparr>shared := False, err := False\<rparr>),
               send_request ev stack m t 8 EV_MOD_READ_REQUEST_RECEIVE] s
        else if ev = EV_MOD_READ_REQUEST_RECEIVE then
          seq [receive_request stack m t,
               (\<lambda>u. let (new_stack, u1) =
                          mod_stack_create (stack_id k) t (addr k)
                            EV_MOD_READ_REQUEST_ACTION (Some stack) u
                     in seq [ok (upd_stack new_stack
                                   (\<lambda>n. n\<lparr>blocking := downup u m t,
                                          read := True, retry := False\<rparr>)),
                             ok (esim_schedule_event EV_MOD_FIND_AND_LOCK (Some new_stack) 0)]
                          u1)] s
        else if ev = EV_MOD_READ_REQUEST_ACTION then
          (if err k then
             seq [assert (updown s m t) ''__mod_get_low_mod(mod) == target_mod'',
                  upd_ret ret (\<lambda>r. r\<lparr>err := True\<rparr>),
                  ok (upd_stack stack (\<lambda>n. n\<lparr>reply_size := 8\<rparr>)),
                  ok (esim_schedule_event EV_MOD_READ_REQUEST_REPLY (Some stack) 0)] s
           else
             ok (esim_schedule_event
                   (if updown s m t then EV_MOD_READ_REQUEST_UPDOWN
                    else EV_MOD_READ_REQUEST_DOWNUP) (Some stack) 0) s)
        else if ev = EV_MOD_READ_REQUEST_UPDOWN then
          seq [ok (upd_stack stack (\<lambda>n. n\<lparr>pending := 1\<rparr>)),
               (if stack_state k \<noteq> cache_block_invalid then
                  seq [(if block_size (mods s m) = 0 then (\<lambda>u. Inl DivisionByZero)
                        else assert (addr k mod of_nat (block_size (mods s m)) = 0)
                               ''stack->addr % mod->block_size == 0''),
                       for_loop (zsize (dir (mods s t))) (read_request_check_owner stack m t),
                       for_loop (zsize (dir (mods s t)))
                         (read_request_to_owner stack t (Some (low_net_node (mods s m)))
                            EV_MOD_READ_REQUEST_UPDOWN_FINISH id),
                       ok (esim_schedule_event EV_MOD_READ_REQUEST_UPDOWN_FINISH (Some stack) 0)]
                else
                  seq [assert (\<not> dir_entry_group_shared_or_owned (dir (mods s t))
                                   (stack_set k) (way k))
                         ''!dir_entry_group_shared_or_owned'',
                       (\<lambda>u. let (new_stack, u1) =
                                  mod_stack_create (stack_id k) t (tag k)
                                    EV_MOD_READ_REQUEST_UPDOWN_MISS (Some stack) u
                             in seq [ok (upd_stack new_stack
                                           (\<lambda>n. n\<lparr>target_mod := mod_get_low_mod u t\<rparr>)),
                                     ok (esim_schedule_event EV_MOD_READ_REQUEST
                                           (Some new_stack) 0)] u1)])] s
        else if ev = EV_MOD_READ_REQUEST_UPDOWN_MISS then
          (if err k then
             seq [dir_lock_unlock (dir_lock k),
                  upd_ret ret (\<lambda>r. r\<lparr>err := True\<rparr>),
                  ok (upd_stack stack (\<lambda>n. n\<lparr>reply_size := 8\<rparr>)),
                  ok (esim_schedule_event EV_MOD_READ_REQUEST_REPLY (Some stack) 0)] s
           else
             seq [upd_cache t (cache_set_block (stack_set k) (way k) (tag k)
                                 (if shared k then cache_block_shared else cache_block_exclusive)),
                  ok (esim_schedule_event EV_MOD_READ_REQUEST_UPDOWN_FINISH (Some stack) 0)] s)
        else if ev = EV_MOD_READ_REQUEST_UPDOWN_FINISH then
          seq [assert (pending k > 0) ''stack->pending > 0'',
               ok (upd_stack stack (\<lambda>n. n\<lparr>pending := pending n - 1\<rparr>)),
               (\<lambda>u. if pending (stacks u stack) \<noteq> 0 then Inr u
                     else
                       seq [for_loop (zsize (dir (mods u t))) (drop_other_owner stack m t),
                            (\<lambda>v. case foldl (add_sharer stack m t) (False, v)
                                         [0..<zsize (dir (mods u t))] of
                                   (sh, v1) \<Rightarrow>
                                     seq [upd_ret ret (\<lambda>r. r\<lparr>shared := sh\<rparr>),
                                          (if \<not> sh
                                           then for_loop (zsize (dir (mods u t)))
                                                  (set_owner stack m t)
                                           else ok id)] v1),
                            ok (upd_stack stack
                                  (\<lambda>n. n\<lparr>reply_size := block_size (mods u m) + 8\<rparr>)),
                            dir_lock_unlock (dir_lock k),
                            ok (esim_schedule_event EV_MOD_READ_REQUEST_REPLY (Some stack) 0)]
                         u)] s
        else if ev = EV_MOD_READ_REQUEST_DOWNUP then
          seq [assert (stack_state k \<noteq> cache_block_invalid)
                 ''stack->state != cache_block_invalid'',
               ok (upd_stack stack
                     (\<lambda>n. n\<lparr>pending := 1,
                            reply_size :=
                              (if stack_state k = cache_block_exclusive
                                  \<or> stack_state k = cache_block_shared
                               then 8 else block_size (mods s t) + 8)\<rparr>)),
               for_loop (zsize (dir (mods s t)))
                 (read_request_to_owner stack t None EV_MOD_READ_REQUEST_DOWNUP_FINISH
                    (\<lambda>n. n\<lparr>reply_size := block_size (mods s t) + 8\<rparr>)),
               ok (esim_schedule_event EV_MOD_READ_REQUEST_DOWNUP_FINISH (Some stack) 0)] s
        else if ev = EV_MOD_READ_REQUEST_DOWNUP_FINISH then
          seq [assert (pending k > 0) ''stack->pending > 0'',
               ok (upd_stack stack (\<lambda>n. n\<lparr>pending := pending n - 1\<rparr>)),
               (\<lambda>u. if pending (stacks u stack) \<noteq> 0 then Inr u
                     else
                       seq [for_loop (zsize (dir (mods u t)))
                              (\<lambda>z. ok (upd_dir_entry t (stack_set k) (way k) z
                                          (\<lambda>e. e\<lparr>owner := None\<rparr>))),
                            upd_cache t (cache_set_block (stack_set k) (way k) (tag k)
                                           cache_block_shared),
                            dir_lock_unlock (dir_lock k),
                            ok (esim_schedule_event EV_MOD_READ_REQUEST_REPLY (Some stack) 0)]
                         u)] s
        else if ev = EV_MOD_READ_REQUEST_REPLY then
          send_reply ev stack m t EV_MOD_READ_REQUEST_FINISH s
        else if ev = EV_MOD_READ_REQUEST_FINISH then
          seq [receive_reply stack m t,
               ok (mod_stack_return stack)] s
        else Inl Aborted) s)"

subsection \<open>The handler of \<^verbatim>\<open>evict\<close>\<close>

text \<open>
  The body of the loop of \<^verbatim>\<open>EV_MOD_EVICT_PROCESS\<close>: the evicting module \<open>m\<close> is
  no longer sharer or owner of sub-block \<open>z\<close> at the module below.
\<close>

definition evict_remove_sharer :: "nat \<Rightarrow> nat \<Rightarrow> nat \<Rightarrow> nat \<Rightarrow> stmt" where
  "evict_remove_sharer stack m t z s =
     (let k = stacks s stack in
      if outside (dir_entry_tag s (tag k) z) (src_tag k) (block_size (mods s m)) then Inr s
      else ok (upd_dir_entry t (stack_set k) (way k) z
                 (\<lambda>e. (dir_entry_clear_sharer (low_net_node (mods s m)) e)
                         \<lparr>owner := (if owner e = Some (low_net_node (mods s m))
                                    then None else owner e)\<rparr>)) s)"

definition mod_handler_evict :: "event \<Rightarrow> nat \<Rightarrow> stmt" where
  "mod_handler_evict ev stack s =
     (let k = stacks s stack; ret = ret_stack k; m = stack_mod k in
      if ev = EV_MOD_EVICT then
        seq [upd_ret ret (\<lambda>r. r\<lparr>err := False\<rparr>),
             get_block_tag_state m stack,
             (\<lambda>u. assert (stack_state (stacks u stack) \<noteq> cache_block_invalid
                          \<or> \<not> dir_entry_group_shared_or_owned (dir (mods u m))
                                 (stack_set k) (way k))
                     ''stack->state || !dir_entry_group_shared_or_owned'' u),
             (\<lambda>u. ok (upd_stack stack
                         (\<lambda>n. n\<lparr>src_set := stack_set n, src_way := way n, src_tag := tag n,
                                target_mod := mod_get_low_mod u m\<rparr>)) u),
             (\<lambda>u. let (new_stack, u1) =
                        mod_stack_create (stack_id k) m 0 EV_MOD_EVICT_INVALID (Some stack) u
                   in seq [ok (upd_stack new_stack
                                 (\<lambda>n. n\<lparr>except_mod := None, stack_set := stack_set k,
                                        way := way k\<rparr>)),
                           ok (esim_schedule_event EV_MOD_INVALIDATE (Some new_stack) 0)] u1)] s
      else if ev = EV_MOD_EVICT_INVALID then
        (if kind (mods s m) = mod_kind_main_memory then
           seq [upd_cache m (cache_set_block (src_set k) (src_way k) 0 cache_block_invalid),
                ok (esim_schedule_event EV_MOD_EVICT_FINISH (Some stack) 0)] s
         else ok (esim_schedule_event EV_MOD_EVICT_ACTION (Some stack) 0) s)
      else if ev = EV_MOD_EVICT_ACTION then
        seq [assert (node_mod s (low_net (mods s m)) 0 \<noteq> None)
               ''lower_node && lower_node->user_data'',
             (if stack_state k = cache_block_invalid then
                ok (esim_schedule_event EV_MOD_EVICT_FINISH (Some stack) 0)
              else if stack_state k = cache_block_modified \<or> stack_state k = cache_block_owned then
                seq [net_try_send_ev (low_net (mods s m)) (low_net_node (mods s m)) 0
                       (block_size (mods s m) + 8) EV_MOD_EVICT_RECEIVE stack ev stack stack,
                     ok (upd_stack stack (\<lambda>n. n\<lparr>writeback := True\<rparr>))]
              else if stack_state k = cache_block_shared \<or> stack_state k = cache_block_exclusive then
                net_try_send_ev (low_net (mods s m)) (low_net_node (mods s m)) 0
                  8 EV_MOD_EVICT_RECEIVE stack ev stack stack
              else (\<lambda>u. Inl (Panic ''mod_handler_evict: invalid moesi state'')))] s
      else
        with_ptr (target_mod k) ''target_mod''
         (\<lambda>t s.
          if ev = EV_MOD_EVICT_RECEIVE then
            seq [net_receive (high_net (mods s t)) (high_net_node (mods s t)) (msg k),
                 (\<lambda>u. let (new_stack, u1) =
                            mod_stack_create (stack_id k) t (src_tag k)
                              EV_MOD_EVICT_WRITEBACK (Some stack) u
                       in seq [ok (upd_stack new_stack
                                     (\<lambda>n. n\<lparr>blocking := False, read := False, retry := False\<rparr>)),
                               ok (esim_schedule_event EV_MOD_FIND_AND_LOCK (Some new_stack) 0)]
                            u1)] s
          else if ev = EV_MOD_EVICT_WRITEBACK then
            (if err k then
               seq [upd_ret ret (\<lambda>r. r\<lparr>err := True\<rparr>),
                    ok (esim_schedule_event EV_MOD_EVICT_REPLY (Some stack) 0)] s
             else if \<not> writeback k then
               ok (esim_schedule_event EV_MOD_EVICT_PROCESS (Some stack) 0) s
             else
               (let (new_stack, s1) =
                      mod_stack_create (stack_id k) t 0
                        EV_MOD_EVICT_WRITEBACK_EXCLUSIVE (Some stack) s
                in seq [ok (upd_stack new_stack
                              (\<lambda>n. n\<lparr>except_mod := Some m, stack_set := stack_set k,
                                     way := way k\<rparr>)),
                        ok (esim_schedule_event EV_MOD_INVALIDATE (Some new_stack) 0)] s1))
          else if ev = EV_MOD_EVICT_WRITEBACK_EXCLUSIVE then
            seq [assert (stack_state k \<noteq> cache_block_invalid)
                   ''stack->state != cache_block_invalid'',
                 (if stack_state k = cache_block_owned \<or> stack_state k = cache_block_shared then
                    (\<lambda>u. let (new_stack, u1) =
                               mod_stack_create (stack_id k) t (tag k)
                                 EV_MOD_EVICT_WRITEBACK_FINISH (Some stack) u
                          in seq [ok (upd_stack new_stack
                                        (\<lambda>n. n\<lparr>target_mod := mod_get_low_mod u t\<rparr>)),
                                  ok (esim_schedule_event EV_MOD_WRITE_REQUEST
                                        (Some new_stack) 0)] u1)
                  else ok (esim_schedule_event EV_MOD_EVICT_WRITEBACK_FINISH (Some stack) 0))] s
          else if ev = EV_MOD_EVICT_WRITEBACK_FINISH then
            (if err k then
               seq [upd_ret ret (\<lambda>r. r\<lparr>err := True\<rparr>),
                    dir_lock_unlock (dir_lock k),
                    ok (esim_schedule_event EV_MOD_EVICT_REPLY (Some stack) 0)] s
             else
               seq [(if cache (mods s t) \<noteq> None
                     then upd_cache t (cache_set_block (stack_set k) (way k) (tag k)
                                         cache_block_modified)
                     else ok id),
                    ok (esim_schedule_event EV_MOD_EVICT_PROCESS (Some stack) 0)] s)
          else if ev = EV_MOD_EVICT_PROCESS then
            seq [for_loop (zsize (dir (mods s t))) (evict_remove_sharer stack m t),
                 dir_lock_unlock (dir_lock k),
                 ok (esim_schedule_event EV_MOD_EVICT_REPLY (Some stack) 0)] s
          else if ev = EV_MOD_EVICT_REPLY then
            net_try_send_ev (high_net (mods s t)) (high_net_node (mods s t))
              (low_net_node (mods s m)) 8 EV_MOD_EVICT_REPLY_RECEIVE stack ev stack stack s
          else if ev = EV_MOD_EVICT_REPLY_RECEIVE then
            seq [net_receive (low_net (mods s m)) (low_net_node (mods s m)) (msg k),
                 (if \<not> err k
                  then upd_cache m (cache_set_block (src_set k) (src_way k) 0 cache_block_invalid)
                  else ok id),
                 assert (\<not> dir_entry_group_shared_or_owned (dir (mods s m))
                             (src_set k) (src_way k))
                   ''!dir_entry_group_shared_or_owned'',
                 ok (esim_schedule_event EV_MOD_EVICT_FINISH (Some stack) 0)] s
          else if ev = EV_MOD_EVICT_FINISH then
            ok (mod_stack_return stack) s
          else Inl Aborted) s)"


subsection \<open>The loop that sets the owner, in closed form\<close>

text \<open>
  The body of the loop of \<^verbatim>\<open>EV_MOD_WRITE_REQUEST_UPDOWN_FINISH\<close> makes the requester
  sharer and owner of a sub-block.  \<open>aligned\<close> is the condition of its first assert,
  \<open>requested\<close> the negation of the test before \<^verbatim>\<open>continue\<close>, and
  \<open>owner_loop_result\<close> the state after the first \<open>n\<close> rounds when no assert fails.
\<close>

definition set_owner_entry :: "nat \<Rightarrow> dir_entry_t \<Rightarrow> dir_entry_t" where
  "set_owner_entry i e = (dir_entry_set_sharer i e)\<lparr>owner := Some i\<rparr>"

definition aligned :: "u32 \<Rightarrow> nat \<Rightarrow> bool" where
  "aligned a bsz = (a mod of_nat bsz = 0)"

definition requested :: "sim \<Rightarrow> nat \<Rightarrow> nat \<Rightarrow> nat \<Rightarrow> bool" where
  "requested s stack m z =
     (\<not> outside (dir_entry_tag s (tag (stacks s stack)) z) (addr (stacks s stack))
          (block_size (mods s m)))"

definition owner_loop_result :: "nat \<Rightarrow> nat \<Rightarrow> nat \<Rightarrow> nat \<Rightarrow> sim \<Rightarrow> sim" where
  "owner_loop_result stack m t n s =
     upd_mod t (\<lambda>md. md\<lparr>dir := (dir md)\<lparr>dir_entries :=
        (dir_entries (dir md))(stack_set (stacks s stack) :=
           (dir_entries (dir md) (stack_set (stacks s stack)))(way (stacks s stack) :=
              (\<lambda>z. if z < n \<and> requested s stack m z
                    then set_owner_entry (low_net_node (mods s m))
                           (dir_entries (dir md) (stack_set (stacks s stack)) (way (stacks s stack)) z)
                    else dir_entries (dir md) (stack_set (stacks s stack)) (way (stacks s stack)) z)))\<rparr>\<rparr>) s"

text \<open>The conditions under which the loop runs to its end: the asserts of its body.\<close>

definition owner_loop_ok :: "nat \<Rightarrow> nat \<Rightarrow> nat \<Rightarrow> nat \<Rightarrow> sim \<Rightarrow> bool" where
  "owner_loop_ok stack m t n s =
     ((0 < n \<longrightarrow> block_size (mods s m) \<noteq> 0
                \<and> aligned (addr (stacks s stack)) (block_size (mods s m)))
      \<and> (\<forall>z < n. requested s stack m z \<longrightarrow>
            num_sharers (dir_entry_set_sharer (low_net_node (mods s m))
               (dir_entries (dir (mods s t)) (stack_set (stacks s stack)) (way (stacks s stack)) z)) = 1))"


subsection \<open>Observations of a result, and an example hierarchy\<close>

text \<open>
  The state of a block and a directory entry in the result of a handler; \<open>None\<close> when
  the handler ended the simulation, or the module has no cache.
\<close>

definition result_block_state :: "error + sim \<Rightarrow> nat \<Rightarrow> nat \<Rightarrow> nat \<Rightarrow> cache_block_state option" where
  "result_block_state r m st w =
     (case r of
        Inl e \<Rightarrow> None
      | Inr s \<Rightarrow> (case cache (mods s m) of None \<Rightarrow> None | Some c \<Rightarrow> Some (blk_state (blks c st w))))"

definition result_entry :: "error + sim \<Rightarrow> nat \<Rightarrow> nat \<Rightarrow> nat \<Rightarrow> nat \<Rightarrow> dir_entry_t option" where
  "result_entry r m st w z =
     (case r of Inl e \<Rightarrow> None | Inr s \<Rightarrow> Some (dir_entries (dir (mods s m)) st w z))"

text \<open>
  Two cache modules: module 2 (blocks of 64 bytes, node 2 of network 0) above module 3
  (blocks of 128 bytes, two sub-blocks per block).  Stack 2 is an access of module 2 to
  address \<open>0x40\<close> that holds the lock of its block; stack 3 is the request it sent down
  to module 3, which found the block of tag 0 in state E and holds its lock.
\<close>

definition example_blk :: cache_blk_t where
  "example_blk = \<lparr>blk_tag = 0, blk_transient_tag = 0, blk_state = cache_block_invalid\<rparr>"

definition example_cache :: cache_t where
  "example_cache =
     \<lparr>num_sets = 2, assoc = 1, blks = (\<lambda>st w. example_blk), way_list = (\<lambda>st. [0])\<rparr>"

definition example_entry :: dir_entry_t where
  "example_entry = \<lparr>owner = None, num_sharers = 0, sharer = {}\<rparr>"

definition example_dir :: "nat \<Rightarrow> (nat \<Rightarrow> nat \<Rightarrow> bool) \<Rightarrow> dir_t" where
  "example_dir n locked =
     \<lparr>zsize = n, dir_entries = (\<lambda>st w z. example_entry),
      dir_locks = (\<lambda>st w. \<lparr>lock = locked st w, lock_queue = []\<rparr>)\<rparr>"

definition example_stats :: mod_stats where
  "example_stats =
     \<lparr>accesses = 0, hits = 0, reads = 0, blocking_reads = 0, non_blocking_reads = 0,
      read_hits = 0, writes = 0, blocking_writes = 0, non_blocking_writes = 0, write_hits = 0,
      no_retry_accesses = 0, no_retry_hits = 0, no_retry_reads = 0, no_retry_read_hits = 0,
      no_retry_writes = 0, no_retry_write_hits = 0, read_retries = 0, write_retries = 0,
      evictions = 0\<rparr>"

definition example_L1 :: mod_t where
  "example_L1 =
     \<lparr>kind = mod_kind_cache, block_size = 64, latency = 2, cache = Some example_cache,
      dir = example_dir 1 (\<lambda>st w. st = 1 \<and> w = 0),
      low_mod = Some 3, low_net = Some 0, high_net = None,
      low_net_node = 2, high_net_node = 0, access_list = [2], stats = example_stats\<rparr>"

definition example_L2 :: mod_t where
  "example_L2 =
     \<lparr>kind = mod_kind_cache, block_size = 128, latency = 10,
      cache = Some (cache_set_block 0 0 0 cache_block_exclusive example_cache),
      dir = example_dir 2 (\<lambda>st w. st = 0 \<and> w = 0),
      low_mod = None, low_net = None, high_net = Some 0,
      low_net_node = 0, high_net_node = 3, access_list = [], stats = example_stats\<rparr>"

definition example_net :: net_t where
  "example_net =
     \<lparr>node_list = (\<lambda>i. if i = 2 then Some 2 else if i = 3 then Some 3 else None),
      end_node_count = 4, congested = False, msg_latency = (\<lambda>sz. int sz), defer_delay = 1,
      msgs = [], next_msg = 0\<rparr>"

definition example_access :: mod_stack_t where
  "example_access =
     (new_mod_stack 7 2 0x40 ESIM_EV_NONE None)
       \<lparr>tag := 0x40, stack_set := 1, way := 0, dir_lock := Some (2, 1, 0)\<rparr>"

definition example_request :: mod_stack_t where
  "example_request =
     (new_mod_stack 7 2 0x40 EV_MOD_STORE_FINISH (Some 2))
       \<lparr>target_mod := Some 3, tag := 0, stack_set := 0, way := 0,
        stack_state := cache_block_exclusive, dir_lock := Some (3, 0, 0)\<rparr>"

definition example_sim :: sim where
  "example_sim =
     \<lparr>mods = (\<lambda>i. if i = 2 then example_L1 else example_L2),
      stacks = (\<lambda>p. if p = 2 then example_access else example_request),
      live_stacks = {2, 3}, next_stack = 4,
      nets = (\<lambda>n. example_net),
      events = [], cache_min_block_size = 64,
      randoms = (\<lambda>n. 5), random_count = 0\<rparr>"


subsection \<open>The retry delay, the lookup of \<^verbatim>\<open>find_and_lock\<close>, and more examples\<close>

text \<open>
  The value of \<^verbatim>\<open>RETRY_LATENCY\<close> in a state: the next random number modulo the
  latency of the module, plus the latency, as an \<^verbatim>\<open>int\<close>.
\<close>

definition retry_delay :: "sim \<Rightarrow> nat \<Rightarrow> int" where
  "retry_delay s m =
     signed_take_bit 31
       (int (randoms s (random_count s) mod latency (mods s m) + latency (mods s m)))"



text \<open>The events scheduled in the result of a handler.\<close>

definition result_events :: "error + sim \<Rightarrow> (event \<times> nat option \<times> int) list option" where
  "result_events r = (case r of Inl e \<Rightarrow> None | Inr s \<Rightarrow> Some (events s))"

text \<open>
  The example hierarchy when the request of stack 2 has come back with an error; and
  with stack 5, a write request of another module that arrives at module 3 and looks
  for the block of address 0, whose lock the request of stack 3 holds.
\<close>

definition example_failed :: sim where
  "example_failed = upd_stack 2 (\<lambda>k. k\<lparr>err := True\<rparr>) example_sim"







subsection \<open>The agreement of a cache with the directory below it\<close>

text \<open>
  The block of a module that holds an address: its tag and its set as
  \<open>mod_find_block\<close> computes them, and the first way of the set with the tag and a
  valid state.  \<open>mod_block_state\<close> is the state of that block, invalid when there is
  none; \<open>lower_entry\<close> is the directory entry of the sub-block of the address in a
  module.
\<close>

definition block_tag :: "mod_t \<Rightarrow> u32 \<Rightarrow> u32" where
  "block_tag md a = a - (a mod of_nat (block_size md))"

definition block_set :: "mod_t \<Rightarrow> cache_t \<Rightarrow> u32 \<Rightarrow> nat" where
  "block_set md c a = (unat (block_tag md a) div block_size md) mod num_sets c"









section \<open>Properties of the system-call translator\<close>

subsection \<open>The return register\<close>

lemma Read4_example: "Read4 example_memory 0x1000 = Some 7"
  by (simp add: Read4_def example_memory_def page_tag_def MemoryPageSize_def word_rcat_def)

lemma futex_example:
  "ExecuteSyscall_futex example_context example_emu =
     Inr (0, example_suspended, example_emu\<lparr>futex_sleep_count := 42\<rparr>)"
  by (auto simp: ExecuteSyscall_futex_def example_context_def example_emu_def example_regs_def
      example_suspended_def Read4_example incFutexSleepCount_def setState_def UpdateState_def
      Let_def)

lemma futex_example_mismatch:
  "ExecuteSyscall_futex (example_context\<lparr>regs := example_regs\<lparr>edx := 8\<rparr>\<rparr>) example_emu =
     Inr (- 11, example_context\<lparr>regs := example_regs\<lparr>edx := 8\<rparr>\<rparr>, example_emu)"
  by (simp add: ExecuteSyscall_futex_def example_context_def example_emu_def example_regs_def
      Read4_example Let_def)

text \<open>
  C4.  A system call other than \<^verbatim>\<open>sigreturn\<close> whose handler returns \<open>ret\<close> and
  leaves the context as \<open>this'\<close>: when \<open>this'\<close> is suspended the dispatcher hands
  \<open>this'\<close> on as it is, so \<^verbatim>\<open>eax\<close> keeps the value the handler left and \<open>ret\<close> is
  not written to it; when \<open>this'\<close> is not suspended, \<^verbatim>\<open>eax\<close> is set to \<open>ret\<close> and
  nothing else changes.
\<close>

theorem ExecuteSyscall_return_register:
  assumes "execute_syscall_fn (eax (regs this)) = Some fn"
      and "fn this emu = Inr (ret, this', emu')"
      and "eax (regs this) \<noteq> SyscallCode_sigreturn"
  shows "ExecuteSyscall execute_syscall_fn SyscallCode_sigreturn this emu =
           Inr (if getState this' ContextSuspended then this' else setEax this' ret, emu')
         \<and> eax (regs (if getState this' ContextSuspended then this' else setEax this' ret)) =
             (if getState this' ContextSuspended then eax (regs this') else ret)"
  using assms by (simp add: ExecuteSyscall_def setEax_def)

theorem ExecuteSyscall_return_register_witness:
  "ExecuteSyscall example_table 119 example_context example_emu =
      Inr (example_suspended, example_emu\<lparr>futex_sleep_count := 42\<rparr>)
   \<and> eax (regs example_suspended) = 240
   \<and> ExecuteSyscall example_table 119 (example_context\<lparr>regs := example_regs\<lparr>edx := 8\<rparr>\<rparr>)
        example_emu =
      Inr (example_context\<lparr>regs := example_regs\<lparr>edx := 8, eax := - 11\<rparr>\<rparr>, example_emu)"
proof -
  have t: "example_table (eax (regs example_context)) = Some ExecuteSyscall_futex"
    by (simp add: example_table_def example_context_def example_regs_def)
  have n: "eax (regs example_context) \<noteq> 119"
    by (simp add: example_context_def example_regs_def)
  have s: "getState example_suspended ContextSuspended"
    by (simp add: getState_def example_suspended_def)
  have e: "eax (regs example_suspended) = 240"
    by (simp add: example_suspended_def example_context_def example_regs_def)
  let ?c = "example_context\<lparr>regs := example_regs\<lparr>edx := 8\<rparr>\<rparr>"
  have t2: "example_table (eax (regs ?c)) = Some ExecuteSyscall_futex"
    by (simp add: example_table_def example_regs_def)
  have n2: "eax (regs ?c) \<noteq> 119"
    by (simp add: example_regs_def)
  have s2: "\<not> getState ?c ContextSuspended"
    by (simp add: getState_def example_context_def)
  from ExecuteSyscall_return_register
         [of example_table example_context ExecuteSyscall_futex example_emu 0 example_suspended
             "example_emu\<lparr>futex_sleep_count := 42\<rparr>" 119]
       t futex_example n s e
  have 1: "ExecuteSyscall example_table 119 example_context example_emu =
      Inr (example_suspended, example_emu\<lparr>futex_sleep_count := 42\<rparr>)"
    by simp
  from ExecuteSyscall_return_register
         [of example_table ?c ExecuteSyscall_futex example_emu "- 11" ?c example_emu 119]
       t2 futex_example_mismatch n2 s2
  have 2: "ExecuteSyscall example_table 119 ?c example_emu =
      Inr (example_context\<lparr>regs := example_regs\<lparr>edx := 8, eax := - 11\<rparr>\<rparr>, example_emu)"
    by (simp add: setEax_def)
  from 1 2 e show ?thesis by simp
qed

subsection \<open>Unimplemented system calls\<close>

text \<open>
  C9.  A handler whose body is \<^verbatim>\<open>__UNIMPLEMENTED__\<close> ends the simulation with a
  fatal diagnostic that starts with the name of the system call (the name of the
  function without \<^verbatim>\<open>ExecuteSyscall_\<close>); so do \<^verbatim>\<open>fork\<close>, \<^verbatim>\<open>execve\<close>,
  \<^verbatim>\<open>sigreturn\<close> and \<^verbatim>\<open>restart_syscall\<close>.  The result is never a return value, and
  the dispatcher that calls such a handler ends the same way, without writing a
  register.
\<close>

theorem unimplemented_is_fatal:
  "UNIMPLEMENTED FUNCTION this emu =
     Inl (Fatal (drop 15 FUNCTION @ '': unimplemented system call.\<newline>\<newline>'' @ syscall_error_note))
   \<and> ExecuteSyscall_fork this emu =
     Inl (Fatal (''fork: unimplemented system call.\<newline>\<newline>'' @ syscall_error_note))
   \<and> ExecuteSyscall_execve this emu =
     Inl (Fatal (''execve: unimplemented system call.\<newline>\<newline>'' @ syscall_error_note))
   \<and> ExecuteSyscall_sigreturn this emu =
     Inl (Fatal (''sigreturn: unimplemented system call.\<newline>\<newline>'' @ syscall_error_note))
   \<and> ExecuteSyscall_restart_syscall this emu =
     Inl (Fatal (''restart_syscall: unimplemented system call.\<newline>\<newline>'' @ syscall_error_note))
   \<and> UNIMPLEMENTED FUNCTION this emu \<noteq> Inr (ret, this', emu')
   \<and> (execute_syscall_fn (eax (regs this)) = Some (UNIMPLEMENTED FUNCTION) \<longrightarrow>
        ExecuteSyscall execute_syscall_fn SyscallCode_sigreturn this emu =
          Inl (Fatal (drop 15 FUNCTION @ '': unimplemented system call.\<newline>\<newline>'' @ syscall_error_note)))"
  by (simp add: UNIMPLEMENTED_def ExecuteSyscall_fork_def ExecuteSyscall_execve_def
      ExecuteSyscall_sigreturn_def ExecuteSyscall_restart_syscall_def ExecuteSyscall_def)

theorem unimplemented_is_fatal_witness:
  "example_table (eax (regs (example_context\<lparr>regs := example_regs\<lparr>eax := 2\<rparr>\<rparr>))) =
      Some (UNIMPLEMENTED ''ExecuteSyscall_fork'')
   \<and> ExecuteSyscall example_table 119 (example_context\<lparr>regs := example_regs\<lparr>eax := 2\<rparr>\<rparr>)
        example_emu =
      Inl (Fatal (''fork: unimplemented system call.\<newline>\<newline>'' @ syscall_error_note))"
proof -
  let ?c = "example_context\<lparr>regs := example_regs\<lparr>eax := 2\<rparr>\<rparr>"
  have t: "example_table (eax (regs ?c)) = Some (UNIMPLEMENTED ''ExecuteSyscall_fork'')"
    by (simp add: example_table_def ExecuteSyscall_fork_def)
  from unimplemented_is_fatal
         [of "''ExecuteSyscall_fork''" ?c example_emu 0 ?c example_emu example_table 119] t
  show ?thesis by simp
qed

subsection \<open>The heap break\<close>

lemma brk_heap_break:
  assumes "ExecuteSyscall_brk this emu = Inr (r, this', emu')" "ebx (regs this) \<noteq> 0"
  shows "heap_break (memories emu' (memory this')) = ebx (regs this)"
  using assms
  by (auto simp: ExecuteSyscall_brk_def Let_def setHeapBreak_def getHeapBreak_def
      split: if_splits)

lemma brk0:
  "ebx (regs this) = 0 \<Longrightarrow>
   ExecuteSyscall_brk this emu = Inr (heap_break (memories emu (memory this)), this, emu)"
  by (simp add: ExecuteSyscall_brk_def Let_def getHeapBreak_def)

lemma RoundUp_aligned: "x AND 0xfff = 0 \<Longrightarrow> RoundUp x MemoryPageSize = x"
proof -
  assume a: "x AND 0xfff = 0"
  have "x + 0xfff = x OR 0xfff"
    by (rule disjunctive_add_eq_or) (rule a)
  moreover have "(x OR 0xfff) AND NOT 0xfff = x AND NOT 0xfff"
    by (rule bit_eqI) (auto simp: bit_simps)
  moreover have "x AND NOT 0xfff = (x AND NOT 0xfff) OR (x AND 0xfff)"
    using a by simp
  moreover have "(x AND NOT 0xfff) OR (x AND 0xfff) = x"
    by (rule bit_eqI) (auto simp: bit_simps)
  ultimately show ?thesis by (simp add: RoundUp_def MemoryPageSize_def)
qed

lemma RoundUp_low: "RoundUp x MemoryPageSize AND 0xfff = 0"
  unfolding RoundUp_def MemoryPageSize_def
  by (rule bit_eqI) (auto simp: bit_simps)

lemma example_brk: "brk_then_brk0 0x5001 example_context example_emu = Inr 0x5001"
  by (simp add: brk_then_brk0_def ExecuteSyscall_brk_def example_context_def example_emu_def
      example_memory_def example_regs_def getHeapBreak_def setHeapBreak_def RoundUp_def
      MemoryPageSize_def MapSpace_def Map_pages_def Let_def)

text \<open>
  C3, as the claim states it, fails: after \<^verbatim>\<open>brk(0x5001)\<close> on a heap that ends at
  \<open>0x5000\<close>, \<^verbatim>\<open>brk(0)\<close> returns \<open>0x5001\<close>, not that value rounded up to the page
  size, \<open>0x6000\<close>.
\<close>

theorem brk_then_brk0_counterexample:
  "brk_then_brk0 0x5001 example_context example_emu = Inr 0x5001
   \<and> RoundUp 0x5001 MemoryPageSize = 0x6000
   \<and> brk_then_brk0 0x5001 example_context example_emu \<noteq> Inr (RoundUp 0x5001 MemoryPageSize)"
  by (simp add: example_brk) (simp add: RoundUp_def MemoryPageSize_def)

text \<open>
  C3, amended.  For every context and every nonzero \<open>x\<close>: when \<^verbatim>\<open>brk(x)\<close> and the
  \<^verbatim>\<open>brk(0)\<close> after it return, the second call returns \<open>x\<close> itself, the heap break
  as it was asked for.  That is the break rounded up to the page size exactly when
  \<open>x\<close> is a multiple of the page size.
\<close>

theorem brk_then_brk0_returns_request:
  assumes "x \<noteq> 0" "brk_then_brk0 x this emu = Inr r"
  shows "r = x \<and> (r = RoundUp x MemoryPageSize \<longleftrightarrow> x AND 0xfff = 0)"
proof -
  let ?c = "this\<lparr>regs := (regs this)\<lparr>ebx := x\<rparr>\<rparr>"
  from assms(2) obtain r1 this1 emu1 where
    1: "ExecuteSyscall_brk ?c emu = Inr (r1, this1, emu1)"
    by (auto simp: brk_then_brk0_def split: sum.splits)
  from brk_heap_break[OF 1] assms(1) have
    2: "heap_break (memories emu1 (memory this1)) = x" by simp
  from assms(2) 1 2 have rx: "r = x"
    by (simp add: brk_then_brk0_def brk0)
  have "x = RoundUp x MemoryPageSize \<longleftrightarrow> x AND 0xfff = 0"
  proof
    assume "x = RoundUp x MemoryPageSize"
    then have "x AND 0xfff = RoundUp x MemoryPageSize AND 0xfff" by simp
    then show "x AND 0xfff = 0" by (simp only: RoundUp_low)
  next
    assume "x AND 0xfff = 0"
    then show "x = RoundUp x MemoryPageSize" by (simp only: RoundUp_aligned)
  qed
  with rx show ?thesis by simp
qed

theorem brk_then_brk0_witness:
  "(0x5001 :: u32) \<noteq> 0 \<and> brk_then_brk0 0x5001 example_context example_emu = Inr 0x5001
   \<and> (0x5001 :: u32) AND 0xfff \<noteq> 0"
  using brk_then_brk0_returns_request [of "0x5001" example_context example_emu "0x5001"]
  by (simp add: example_brk)

subsection \<open>Futex: waiting\<close>


text \<open>
  C2.  A \<^verbatim>\<open>futex\<close> call whose command is \<^verbatim>\<open>FUTEX_WAIT\<close> (0) or
  \<^verbatim>\<open>FUTEX_WAIT_BITSET\<close> (9), the word at \<open>addr1\<close> (\<^verbatim>\<open>ebx\<close>) being \<open>futex\<close>:
  if the word differs from \<open>val1\<close> (\<^verbatim>\<open>edx\<close>) the call returns \<^verbatim>\<open>-EAGAIN\<close> and the
  context and the emulator are as before (whatever the timeout pointer is: the
  comparison comes first); if the word equals \<open>val1\<close> and the timeout pointer
  (\<^verbatim>\<open>esi\<close>) is null, the context is suspended in the futex with the address
  \<open>addr1\<close>, the bitset \<open>val3\<close> (\<^verbatim>\<open>ebp\<close>) for \<^verbatim>\<open>FUTEX_WAIT_BITSET\<close> and all ones for
  \<^verbatim>\<open>FUTEX_WAIT\<close>, and the global sleep counter after its increment; if the word
  equals \<open>val1\<close> and the timeout pointer is not null, the call is fatal.
\<close>

theorem futex_wait:
  assumes cmd: "cmd = ecx (regs this) AND NOT (256 OR 128)" "cmd = 0 \<or> cmd = 9"
      and rd: "Read4 (memories emu (memory this)) (ebx (regs this)) = Some futex"
  shows "(futex \<noteq> edx (regs this) \<longrightarrow>
            ExecuteSyscall_futex this emu = Inr (- 11, this, emu))
       \<and> (futex = edx (regs this) \<and> esi (regs this) = 0 \<longrightarrow>
            (\<exists>this'. ExecuteSyscall_futex this emu =
                 Inr (0, this', emu\<lparr>futex_sleep_count := Suc (futex_sleep_count emu)\<rparr>)
               \<and> getState this' ContextSuspended \<and> getState this' ContextFutex
               \<and> \<not> getState this' ContextRunning
               \<and> wakeup_futex this' = ebx (regs this)
               \<and> wakeup_futex_bitset this' = (if cmd = 9 then ebp (regs this) else 0xffffffff)
               \<and> wakeup_futex_sleep this' = Suc (futex_sleep_count emu)
               \<and> regs this' = regs this))
       \<and> (futex = edx (regs this) \<and> esi (regs this) \<noteq> 0 \<longrightarrow>
            ExecuteSyscall_futex this emu =
              Inl (Fatal ''syscall futex: FUTEX_WAIT not supported with timeout''))"
  using cmd rd
  by (auto simp: ExecuteSyscall_futex_def Let_def incFutexSleepCount_def setState_def
      UpdateState_def getState_def)

theorem futex_wait_witness:
  "ExecuteSyscall_futex example_context example_emu =
     Inr (0, example_suspended, example_emu\<lparr>futex_sleep_count := 42\<rparr>)
   \<and> ExecuteSyscall_futex (example_context\<lparr>regs := example_regs\<lparr>edx := 8\<rparr>\<rparr>) example_emu =
     Inr (- 11, example_context\<lparr>regs := example_regs\<lparr>edx := 8\<rparr>\<rparr>, example_emu)
   \<and> ExecuteSyscall_futex (example_context\<lparr>regs := example_regs\<lparr>esi := 0x2000\<rparr>\<rparr>) example_emu =
     Inl (Fatal ''syscall futex: FUTEX_WAIT not supported with timeout'')"
proof -
  let ?c2 = "example_context\<lparr>regs := example_regs\<lparr>edx := 8\<rparr>\<rparr>"
  let ?c3 = "example_context\<lparr>regs := example_regs\<lparr>esi := 0x2000\<rparr>\<rparr>"
  have m: "memories example_emu a = example_memory" for a
    by (simp add: example_emu_def)
  have 2: "ExecuteSyscall_futex ?c2 example_emu = Inr (- 11, ?c2, example_emu)"
    using futex_wait [of 0 ?c2 example_emu 7]
    by (simp add: example_regs_def m Read4_example)
  have 3: "ExecuteSyscall_futex ?c3 example_emu =
     Inl (Fatal ''syscall futex: FUTEX_WAIT not supported with timeout'')"
    using futex_wait [of 0 ?c3 example_emu 7]
    by (simp add: example_regs_def m Read4_example)
  from 2 3 futex_example show ?thesis by simp
qed

subsection \<open>Futex: compare and requeue\<close>


lemma not_waiting_futex_wakeup: "\<not> futex_waiting futex bitset (futex_wakeup c)"
  by (simp add: futex_waiting_def futex_wakeup_def clearState_def UpdateState_def getState_def
      setEax_def)

lemma futex_waiters_bound: "i \<in> set (futex_waiters cs futex bitset) \<Longrightarrow> i < length cs"
  by (simp add: futex_waiters_def)

lemma least_sleep_in: "ws \<noteq> [] \<Longrightarrow> least_sleep cs ws \<in> set ws"
  by (simp add: least_sleep_def arg_min_list_in)

lemma futex_waiters_update:
  assumes "i \<in> set (futex_waiters cs futex bitset)"
  shows "futex_waiters (cs[i := futex_wakeup (cs ! i)]) futex bitset =
           remove1 i (futex_waiters cs futex bitset)"
proof -
  have d: "distinct (futex_waiters cs futex bitset)"
    by (simp add: futex_waiters_def)
  have "futex_waiters (cs[i := futex_wakeup (cs ! i)]) futex bitset =
          filter (\<lambda>j. i \<noteq> j) (futex_waiters cs futex bitset)"
  proof -
    have "futex_waiting futex bitset (cs[i := futex_wakeup (cs ! i)] ! j) \<longleftrightarrow>
            (futex_waiting futex bitset (cs ! j) \<and> i \<noteq> j)" if "j < length cs" for j
      using that by (cases "i = j") (simp_all add: not_waiting_futex_wakeup)
    then show ?thesis
      unfolding futex_waiters_def filter_filter
      by (intro filter_cong) simp_all
  qed
  also have "\<dots> = removeAll i (futex_waiters cs futex bitset)"
    by (simp add: removeAll_filter_not_eq)
  also have "\<dots> = remove1 i (futex_waiters cs futex bitset)"
    using d by (simp add: distinct_remove1_removeAll)
  finally show ?thesis .
qed

lemma FutexWake_count:
  "fst (FutexWake count futex bitset emu) =
     min count (length (futex_waiters (context_list emu) futex bitset))"
proof (induction count arbitrary: emu)
  case 0
  then show ?case by simp
next
  case (Suc count)
  let ?cs = "context_list emu"
  let ?ws = "futex_waiters ?cs futex bitset"
  show ?case
  proof (cases "?ws = []")
    case True
    then show ?thesis by (simp add: Let_def)
  next
    case False
    let ?i = "least_sleep ?cs ?ws"
    let ?emu1 = "emu\<lparr>context_list := ?cs[?i := futex_wakeup (?cs ! ?i)]\<rparr>"
    have i: "?i \<in> set ?ws" using False by (rule least_sleep_in)
    have l: "length (futex_waiters (context_list ?emu1) futex bitset) = length ?ws - 1"
      using i by (simp add: futex_waiters_update length_remove1)
    have p: "0 < length ?ws" using False by simp
    have "fst (FutexWake (Suc count) futex bitset emu) =
            Suc (fst (FutexWake count futex bitset ?emu1))"
      using False by (simp add: Let_def split_def)
    also have "\<dots> = Suc (min count (length ?ws - 1))"
      using Suc.IH [of ?emu1] l by simp
    also have "\<dots> = min (Suc count) (length ?ws)"
      using p by arith
    finally show ?thesis .
  qed
qed

lemma requeue_moves:
  assumes "c \<in> set (map (requeue addr1 addr2) cs)" "getState c ContextSuspended"
      "getState c ContextFutex" "addr1 \<noteq> addr2"
  shows "wakeup_futex c \<noteq> addr1"
  using assms by (auto simp: requeue_def getState_def split: if_splits)

text \<open>
  C10.  A \<^verbatim>\<open>futex\<close> call whose command is \<^verbatim>\<open>FUTEX_CMP_REQUEUE\<close> (4): unless the
  timeout register (\<^verbatim>\<open>esi\<close>) is \<open>0x7fffffff\<close> the call ends the simulation.  With
  that value, the word at \<open>addr1\<close> is compared with \<open>val3\<close> (\<^verbatim>\<open>ebp\<close>) and the call
  returns \<^verbatim>\<open>-EAGAIN\<close> when they differ; when they are equal, up to \<open>val1\<close> waiters on
  \<open>addr1\<close> are woken (as many as there are, at most \<open>val1\<close>), that number is
  returned, and every context still suspended in a futex on \<open>addr1\<close> is moved to
  \<open>addr2\<close> (\<^verbatim>\<open>edi\<close>): none is left on \<open>addr1\<close> when the addresses differ.
\<close>

theorem futex_cmp_requeue:
  assumes cmd: "ecx (regs this) AND NOT (256 OR 128) = 4"
  shows "(esi (regs this) \<noteq> 0x7fffffff \<longrightarrow> (\<exists>e. ExecuteSyscall_futex this emu = Inl e))
       \<and> (esi (regs this) = 0x7fffffff
            \<and> Read4 (memories emu (memory this)) (ebx (regs this)) = Some futex
            \<and> futex \<noteq> ebp (regs this) \<longrightarrow>
              ExecuteSyscall_futex this emu = Inr (- 11, this, emu))
       \<and> (esi (regs this) = 0x7fffffff
            \<and> Read4 (memories emu (memory this)) (ebx (regs this)) = Some futex
            \<and> futex = ebp (regs this) \<longrightarrow>
              (\<exists>k emu1 emu2.
                  FutexWake (unat (edx (regs this))) (ebx (regs this)) 0xffffffff emu = (k, emu1)
                \<and> emu2 = emu1\<lparr>context_list :=
                             map (requeue (ebx (regs this)) (edi (regs this))) (context_list emu1)\<rparr>
                \<and> ExecuteSyscall_futex this emu = Inr (of_nat k, this, emu2)
                \<and> k = min (unat (edx (regs this)))
                          (length (futex_waiters (context_list emu) (ebx (regs this)) 0xffffffff))
                \<and> (\<forall>c \<in> set (getContextList emu2 ContextListSuspended).
                      getState c ContextFutex \<and> ebx (regs this) \<noteq> edi (regs this) \<longrightarrow>
                      wakeup_futex c \<noteq> ebx (regs this))))"
proof (intro conjI impI)
  assume "esi (regs this) \<noteq> 0x7fffffff"
  then show "\<exists>e. ExecuteSyscall_futex this emu = Inl e"
    using cmd by (simp add: ExecuteSyscall_futex_def Let_def split: option.splits)
next
  assume "esi (regs this) = 0x7fffffff
            \<and> Read4 (memories emu (memory this)) (ebx (regs this)) = Some futex
            \<and> futex \<noteq> ebp (regs this)"
  then show "ExecuteSyscall_futex this emu = Inr (- 11, this, emu)"
    using cmd by (simp add: ExecuteSyscall_futex_def Let_def)
next
  assume a: "esi (regs this) = 0x7fffffff
            \<and> Read4 (memories emu (memory this)) (ebx (regs this)) = Some futex
            \<and> futex = ebp (regs this)"
  obtain k emu1 where w:
    "FutexWake (unat (edx (regs this))) (ebx (regs this)) 0xffffffff emu = (k, emu1)"
    by (cases "FutexWake (unat (edx (regs this))) (ebx (regs this)) 0xffffffff emu")
  let ?emu2 = "emu1\<lparr>context_list :=
                   map (requeue (ebx (regs this)) (edi (regs this))) (context_list emu1)\<rparr>"
  have r: "ExecuteSyscall_futex this emu = Inr (of_nat k, this, ?emu2)"
    using cmd a w by (simp add: ExecuteSyscall_futex_def Let_def)
  have k: "k = min (unat (edx (regs this)))
                  (length (futex_waiters (context_list emu) (ebx (regs this)) 0xffffffff))"
    using FutexWake_count [of "unat (edx (regs this))" "ebx (regs this)" "0xffffffff" emu] w
    by simp
  have q: "\<forall>c \<in> set (getContextList ?emu2 ContextListSuspended).
             getState c ContextFutex \<and> ebx (regs this) \<noteq> edi (regs this) \<longrightarrow>
             wakeup_futex c \<noteq> ebx (regs this)"
  proof (intro ballI impI)
    fix c
    assume c: "c \<in> set (getContextList ?emu2 ContextListSuspended)"
       and f: "getState c ContextFutex \<and> ebx (regs this) \<noteq> edi (regs this)"
    from c have "c \<in> set (map (requeue (ebx (regs this)) (edi (regs this))) (context_list emu1))"
      and "getState c ContextSuspended"
      by (simp_all add: getContextList_def list_flag_def)
    with f show "wakeup_futex c \<noteq> ebx (regs this)"
      using requeue_moves by blast
  qed
  from w r k q show "\<exists>k emu1 emu2.
      FutexWake (unat (edx (regs this))) (ebx (regs this)) 0xffffffff emu = (k, emu1)
    \<and> emu2 = emu1\<lparr>context_list :=
                 map (requeue (ebx (regs this)) (edi (regs this))) (context_list emu1)\<rparr>
    \<and> ExecuteSyscall_futex this emu = Inr (of_nat k, this, emu2)
    \<and> k = min (unat (edx (regs this)))
              (length (futex_waiters (context_list emu) (ebx (regs this)) 0xffffffff))
    \<and> (\<forall>c \<in> set (getContextList emu2 ContextListSuspended).
          getState c ContextFutex \<and> ebx (regs this) \<noteq> edi (regs this) \<longrightarrow>
          wakeup_futex c \<noteq> ebx (regs this))"
    by blast
qed




lemma waiting_example: "futex_waiting 0x1000 0xffffffff (example_waiter e)"
  by (simp add: futex_waiting_def example_waiter_def example_suspended_def getState_def)

lemma waiters_example:
  "futex_waiters [example_waiter 5, example_waiter 3, example_waiter 9] 0x1000 0xffffffff = [0, Suc 0, 2]"
  by (simp add: futex_waiters_def waiting_example upt_rec_numeral)

lemma least_example:
  "least_sleep [example_waiter 5, example_waiter 3, example_waiter 9] [0, Suc 0, 2] = Suc 0"
  by (simp add: least_sleep_def example_waiter_def Let_def)

lemma FutexWake_example:
  "FutexWake (unat (1 :: u32)) 0x1000 0xffffffff requeue_emu =
     (1, requeue_emu\<lparr>context_list := [example_waiter 5, futex_wakeup (example_waiter 3), example_waiter 9]\<rparr>)"
  by (simp add: requeue_emu_def waiters_example least_example Let_def)

theorem futex_cmp_requeue_witness:
  "ExecuteSyscall_futex requeue_context requeue_emu =
     Inr (1, requeue_context,
          requeue_emu\<lparr>context_list :=
            [(example_waiter 5)\<lparr>wakeup_futex := 0x2000\<rparr>,
             futex_wakeup (example_waiter 3),
             (example_waiter 9)\<lparr>wakeup_futex := 0x2000\<rparr>]\<rparr>)
   \<and> (\<exists>e. ExecuteSyscall_futex (requeue_context\<lparr>regs := (regs requeue_context)\<lparr>esi := 0\<rparr>\<rparr>) requeue_emu = Inl e)
   \<and> ExecuteSyscall_futex (requeue_context\<lparr>regs := (regs requeue_context)\<lparr>ebp := 8\<rparr>\<rparr>) requeue_emu =
       Inr (- 11, requeue_context\<lparr>regs := (regs requeue_context)\<lparr>ebp := 8\<rparr>\<rparr>, requeue_emu)"
proof -
  let ?c2 = "requeue_context\<lparr>regs := (regs requeue_context)\<lparr>esi := 0\<rparr>\<rparr>"
  let ?c3 = "requeue_context\<lparr>regs := (regs requeue_context)\<lparr>ebp := 8\<rparr>\<rparr>"
  have m: "memories requeue_emu a = example_memory" for a
    by (simp add: requeue_emu_def example_emu_def)
  have q5: "requeue 0x1000 0x2000 (example_waiter e) = (example_waiter e)\<lparr>wakeup_futex := 0x2000\<rparr>" for e
    by (simp add: requeue_def example_waiter_def example_suspended_def getState_def)
  have q3: "requeue 0x1000 0x2000 (futex_wakeup c) = futex_wakeup c" for c
    by (simp add: requeue_def futex_wakeup_def clearState_def UpdateState_def getState_def)
  have 1: "ExecuteSyscall_futex requeue_context requeue_emu =
     Inr (1, requeue_context,
          requeue_emu\<lparr>context_list :=
            [(example_waiter 5)\<lparr>wakeup_futex := 0x2000\<rparr>,
             futex_wakeup (example_waiter 3),
             (example_waiter 9)\<lparr>wakeup_futex := 0x2000\<rparr>]\<rparr>)"
    using futex_cmp_requeue [where this = requeue_context and futex = 7 and emu = requeue_emu] FutexWake_example
    by (auto simp: requeue_context_def example_context_def example_regs_def m Read4_example q5 q3)
  have 2: "\<exists>e. ExecuteSyscall_futex ?c2 requeue_emu = Inl e"
    using futex_cmp_requeue [where this = ?c2 and futex = 7 and emu = requeue_emu]
    by (simp add: requeue_context_def example_context_def example_regs_def)
  have 3: "ExecuteSyscall_futex ?c3 requeue_emu = Inr (- 11, ?c3, requeue_emu)"
    using futex_cmp_requeue [where this = ?c3 and futex = 7 and emu = requeue_emu]
    by (simp add: requeue_context_def example_context_def example_regs_def m Read4_example)
  from 1 2 3 show ?thesis by simp
qed

subsection \<open>Clone\<close>




lemma clone_flags_result:
  assumes "clone_flags this flags es new_esp child0 emu0 = Inr (ret, this', emu')"
  shows "\<exists>child. context_list emu' = context_list emu0 @ [child]
           \<and> ret = pid child0 \<and> pid child = pid child0 \<and> this' = this
           \<and> eax (regs child) = 0 \<and> esp (regs child) = new_esp
           \<and> memory child = memory child0 \<and> file_table child = file_table child0
           \<and> signal_handler_table child = signal_handler_table child0
           \<and> (memory child0 \<noteq> memory this \<longrightarrow>
                (if flags AND SIM_CLONE_CHILD_SETTID \<noteq> 0
                 then Write4 (memories emu0 (memory child0)) (edi (regs this)) (pid child0)
                 else Some (memories emu0 (memory child0))) = Some (memories emu' (memory child0)))"
  using assms
  unfolding clone_flags_def Let_def
  by (auto simp: setEax_def split: if_splits option.splits sum.splits prod.splits)

lemma clone_fatal_VM:
  assumes "(ebx (regs this) AND NOT 0xff) AND SIM_CLONE_VM \<noteq> 0"
      and "(ebx (regs this) AND NOT 0xff) AND (SIM_CLONE_FS OR SIM_CLONE_FILES OR SIM_CLONE_SIGHAND)
             \<noteq> (SIM_CLONE_FS OR SIM_CLONE_FILES OR SIM_CLONE_SIGHAND)"
  shows "\<exists>msg. ExecuteSyscall_clone this emu = Inl (Fatal msg)"
  using assms unfolding ExecuteSyscall_clone_def Let_def
  by (cases "newContext emu") auto

lemma clone_fatal_no_VM:
  assumes "(ebx (regs this) AND NOT 0xff) AND SIM_CLONE_VM = 0"
      and "(ebx (regs this) AND NOT 0xff) AND (SIM_CLONE_FS OR SIM_CLONE_FILES OR SIM_CLONE_SIGHAND) \<noteq> 0"
  shows "\<exists>msg. ExecuteSyscall_clone this emu = Inl (Fatal msg)"
  using assms unfolding ExecuteSyscall_clone_def Let_def
  by (cases "newContext emu") auto

lemma clone_shares:
  assumes "ExecuteSyscall_clone this emu = Inr (ret, this', emu')"
      and "(ebx (regs this) AND NOT 0xff) AND SIM_CLONE_VM \<noteq> 0"
  shows "\<exists>child. context_list emu' = context_list emu @ [child] \<and> pid child = ret
           \<and> eax (regs child) = 0
           \<and> memory child = memory this \<and> file_table child = file_table this
           \<and> signal_handler_table child = signal_handler_table this"
proof -
  let ?flags = "ebx (regs this) AND NOT 0xff"
  from assms have
    "clone_flags this ?flags (ebx (regs this) AND 0xff)
       (if ecx (regs this) = 0 then esp (regs this) else ecx (regs this))
       (Clone (fst (newContext emu)) this) (snd (newContext emu))
       = Inr (ret, this', emu')"
    unfolding ExecuteSyscall_clone_def Let_def split_def
    by (simp split: if_splits)
  from clone_flags_result [OF this] show ?thesis
    by (auto simp: Clone_def newContext_def)
qed

lemma clone_deep:
  assumes "ExecuteSyscall_clone this emu = Inr (ret, this', emu')"
      and "(ebx (regs this) AND NOT 0xff) AND SIM_CLONE_VM = 0"
      and "memory this < next_object emu"
  shows "\<exists>child. context_list emu' = context_list emu @ [child] \<and> pid child = ret
           \<and> eax (regs child) = 0
           \<and> memory child = next_object emu \<and> memory child \<noteq> memory this
           \<and> (if (ebx (regs this) AND NOT 0xff) AND SIM_CLONE_CHILD_SETTID \<noteq> 0
               then Write4 (memories emu (memory this)) (edi (regs this)) ret
               else Some (memories emu (memory this))) = Some (memories emu' (memory child))"
proof -
  let ?flags = "ebx (regs this) AND NOT 0xff"
  let ?f = "Fork (fst (newContext emu)) this (snd (newContext emu))"
  from assms have
    "clone_flags this ?flags (ebx (regs this) AND 0xff)
       (if ecx (regs this) = 0 then esp (regs this) else ecx (regs this))
       (fst ?f) (snd ?f) = Inr (ret, this', emu')"
    unfolding ExecuteSyscall_clone_def Let_def split_def
    by (simp split: if_splits)
  from clone_flags_result [OF this] assms(3) show ?thesis
    by (auto simp: Fork_def newContext_def Let_def)
qed

text \<open>
  C5, amended.  With \<^verbatim>\<open>CLONE_VM\<close> and without one of \<^verbatim>\<open>CLONE_FS\<close>,
  \<^verbatim>\<open>CLONE_FILES\<close>, \<^verbatim>\<open>CLONE_SIGHAND\<close> the call is fatal; without \<^verbatim>\<open>CLONE_VM\<close> and with
  one of the three it is fatal too.  When the call returns and \<^verbatim>\<open>CLONE_VM\<close> is set,
  the new context (the last of the emulator's, with the process id returned) shares
  the memory image, the file-descriptor table and the signal-handler table of the
  caller.  When the call returns and \<^verbatim>\<open>CLONE_VM\<close> is not set, the memory image of the
  new context is a new object, which holds the caller's image as it was at the call
  (with the process id written at \<open>child_tid_ptr\<close> under \<^verbatim>\<open>CLONE_CHILD_SETTID\<close>).
\<close>

theorem clone_memory:
  "((ebx (regs this) AND NOT 0xff) AND SIM_CLONE_VM \<noteq> 0
      \<and> (ebx (regs this) AND NOT 0xff) AND (SIM_CLONE_FS OR SIM_CLONE_FILES OR SIM_CLONE_SIGHAND)
           \<noteq> (SIM_CLONE_FS OR SIM_CLONE_FILES OR SIM_CLONE_SIGHAND)
      \<longrightarrow> (\<exists>msg. ExecuteSyscall_clone this emu = Inl (Fatal msg)))
   \<and> ((ebx (regs this) AND NOT 0xff) AND SIM_CLONE_VM = 0
      \<and> (ebx (regs this) AND NOT 0xff) AND (SIM_CLONE_FS OR SIM_CLONE_FILES OR SIM_CLONE_SIGHAND) \<noteq> 0
      \<longrightarrow> (\<exists>msg. ExecuteSyscall_clone this emu = Inl (Fatal msg)))
   \<and> (ExecuteSyscall_clone this emu = Inr (ret, this', emu')
      \<and> (ebx (regs this) AND NOT 0xff) AND SIM_CLONE_VM \<noteq> 0
      \<longrightarrow> (\<exists>child. context_list emu' = context_list emu @ [child] \<and> pid child = ret
             \<and> eax (regs child) = 0
             \<and> memory child = memory this \<and> file_table child = file_table this
             \<and> signal_handler_table child = signal_handler_table this))
   \<and> (ExecuteSyscall_clone this emu = Inr (ret, this', emu')
      \<and> (ebx (regs this) AND NOT 0xff) AND SIM_CLONE_VM = 0
      \<and> memory this < next_object emu
      \<longrightarrow> (\<exists>child. context_list emu' = context_list emu @ [child] \<and> pid child = ret
             \<and> eax (regs child) = 0
             \<and> memory child = next_object emu \<and> memory child \<noteq> memory this
             \<and> (if (ebx (regs this) AND NOT 0xff) AND SIM_CLONE_CHILD_SETTID \<noteq> 0
                 then Write4 (memories emu (memory this)) (edi (regs this)) ret
                 else Some (memories emu (memory this))) = Some (memories emu' (memory child))))"
  using clone_fatal_VM [of this emu] clone_fatal_no_VM [of this emu]
    clone_shares [of this emu ret this' emu'] clone_deep [of this emu ret this' emu']
  by blast

lemma clone_example_fatal:
  "ExecuteSyscall_clone (clone_context 0x200) example_emu =
     Inl (Fatal ''ExecuteSyscall_clone: not supported flags with CLONE_VM.'')"
  by (simp add: ExecuteSyscall_clone_def clone_context_def example_regs_def Let_def split_def
      clone_supported_flags_def SIM_CLONE_VM_def SIM_CLONE_FS_def SIM_CLONE_FILES_def
      SIM_CLONE_SIGHAND_def SIM_CLONE_THREAD_def SIM_CLONE_SYSVSEM_def SIM_CLONE_SETTLS_def
      SIM_CLONE_PARENT_SETTID_def SIM_CLONE_CHILD_CLEARTID_def SIM_CLONE_CHILD_SETTID_def)

text \<open>
  C5, as the claim states it, fails: without \<^verbatim>\<open>CLONE_VM\<close> but with \<^verbatim>\<open>CLONE_FS\<close>
  the call is fatal, and no context gets a copy of the memory image.
\<close>

theorem clone_memory_counterexample:
  "(ebx (regs (clone_context 0x200)) AND NOT 0xff) AND SIM_CLONE_VM = 0
   \<and> ExecuteSyscall_clone (clone_context 0x200) example_emu =
       Inl (Fatal ''ExecuteSyscall_clone: not supported flags with CLONE_VM.'')"
  by (simp add: clone_example_fatal) (simp add: clone_context_def example_regs_def SIM_CLONE_VM_def)

lemmas clone_consts = clone_supported_flags_def SIM_CLONE_VM_def SIM_CLONE_FS_def SIM_CLONE_FILES_def
      SIM_CLONE_SIGHAND_def SIM_CLONE_THREAD_def SIM_CLONE_SYSVSEM_def SIM_CLONE_SETTLS_def
      SIM_CLONE_PARENT_SETTID_def SIM_CLONE_CHILD_CLEARTID_def SIM_CLONE_CHILD_SETTID_def

lemma clone_example_share:
  "ExecuteSyscall_clone (clone_context 0xf11) example_emu =
     Inr (101, clone_context 0xf11,
          example_emu\<lparr>next_pid := 102, context_list := [example_child]\<rparr>)"
  by (simp add: ExecuteSyscall_clone_def clone_flags_def clone_context_def example_regs_def Let_def split_def
      clone_consts newContext_def Clone_def example_emu_def example_context_def example_child_def setEax_def)

lemma clone_example_deep:
  "ExecuteSyscall_clone (clone_context 0x11) example_emu =
     Inr (101, clone_context 0x11,
          example_emu\<lparr>next_pid := 102, next_object := 2,
             memories := (memories example_emu)(1 := example_memory),
             context_list := [example_child\<lparr>regs := example_regs\<lparr>ebx := 0x11, eax := 0\<rparr>,
                                 memory := 1, file_table := 1, signal_handler_table := 1\<rparr>]\<rparr>)"
  by (simp add: ExecuteSyscall_clone_def clone_flags_def clone_context_def example_regs_def Let_def split_def
      clone_consts newContext_def Fork_def example_emu_def example_context_def example_child_def setEax_def)


theorem clone_memory_witness:
  "ExecuteSyscall_clone (clone_context 0xf11) example_emu =
     Inr (101, clone_context 0xf11, example_emu\<lparr>next_pid := 102, context_list := [example_child]\<rparr>)
   \<and> memory example_child = memory (clone_context 0xf11)
   \<and> file_table example_child = file_table (clone_context 0xf11)
   \<and> signal_handler_table example_child = signal_handler_table (clone_context 0xf11)
   \<and> ExecuteSyscall_clone (clone_context 0x11) example_emu =
     Inr (101, clone_context 0x11,
          example_emu\<lparr>next_pid := 102, next_object := 2,
             memories := (memories example_emu)(1 := example_memory),
             context_list := [example_child_deep]\<rparr>)
   \<and> memory example_child_deep = 1 \<and> memory (clone_context 0x11) = 0
   \<and> (\<exists>msg. ExecuteSyscall_clone (clone_context 0x100) example_emu = Inl (Fatal msg))
   \<and> (\<exists>msg. ExecuteSyscall_clone (clone_context 0x200) example_emu = Inl (Fatal msg))"
proof -
  let ?e1 = "example_emu\<lparr>next_pid := 102, context_list := [example_child]\<rparr>"
  let ?e2 = "example_emu\<lparr>next_pid := 102, next_object := 2,
             memories := (memories example_emu)(1 := example_memory),
             context_list := [example_child_deep]\<rparr>"
  have s: "ExecuteSyscall_clone (clone_context 0xf11) example_emu =
             Inr (101, clone_context 0xf11, ?e1)"
    by (rule clone_example_share)
  have d: "ExecuteSyscall_clone (clone_context 0x11) example_emu =
             Inr (101, clone_context 0x11, ?e2)"
    using clone_example_deep by (simp add: example_child_deep_def)
  have f1: "(ebx (regs (clone_context 0xf11)) AND NOT 0xff) AND SIM_CLONE_VM \<noteq> 0"
    by (simp add: clone_context_def example_regs_def SIM_CLONE_VM_def)
  have f2: "(ebx (regs (clone_context 0x11)) AND NOT 0xff) AND SIM_CLONE_VM = 0"
    by (simp add: clone_context_def example_regs_def SIM_CLONE_VM_def)
  have f3: "(ebx (regs (clone_context 0x100)) AND NOT 0xff) AND SIM_CLONE_VM \<noteq> 0
     \<and> (ebx (regs (clone_context 0x100)) AND NOT 0xff) AND (SIM_CLONE_FS OR SIM_CLONE_FILES OR SIM_CLONE_SIGHAND)
           \<noteq> (SIM_CLONE_FS OR SIM_CLONE_FILES OR SIM_CLONE_SIGHAND)"
    by (simp add: clone_context_def example_regs_def clone_consts)
  have f4: "(ebx (regs (clone_context 0x200)) AND NOT 0xff) AND SIM_CLONE_VM = 0
     \<and> (ebx (regs (clone_context 0x200)) AND NOT 0xff) AND (SIM_CLONE_FS OR SIM_CLONE_FILES OR SIM_CLONE_SIGHAND) \<noteq> 0"
    by (simp add: clone_context_def example_regs_def clone_consts)
  have m: "memory (clone_context 0x11) < next_object example_emu"
    by (simp add: clone_context_def example_context_def example_emu_def)
  from clone_memory [of "clone_context 0xf11" example_emu 101 "clone_context 0xf11" ?e1] s f1
  have 1: "memory example_child = memory (clone_context 0xf11)
         \<and> file_table example_child = file_table (clone_context 0xf11)
         \<and> signal_handler_table example_child = signal_handler_table (clone_context 0xf11)"
    by (simp add: example_emu_def)
  from clone_memory [of "clone_context 0x11" example_emu 101 "clone_context 0x11" ?e2] d f2 m
  have 2: "memory example_child_deep = 1 \<and> memory (clone_context 0x11) = 0"
    by (simp add: example_emu_def clone_context_def example_context_def)
  from clone_memory [of "clone_context 0x100" example_emu] f3
  have 3: "\<exists>msg. ExecuteSyscall_clone (clone_context 0x100) example_emu = Inl (Fatal msg)"
    by blast
  from clone_memory [of "clone_context 0x200" example_emu] f4
  have 4: "\<exists>msg. ExecuteSyscall_clone (clone_context 0x200) example_emu = Inl (Fatal msg)"
    by blast
  from s d 1 2 3 4 show ?thesis by simp
qed


section \<open>Properties of the MOESI protocol engine\<close>

subsection \<open>Sequencing, locks and the owner loop\<close>

lemma seq_append: "seq (fs @ gs) s = then_do (seq fs s) (seq gs)"
  by (induction fs arbitrary: s) (auto simp: then_do_def split: sum.splits)

lemma seq_single: "seq [f] s = f s"
  by (simp add: then_do_def split: sum.splits)

lemma owner_loop_0: "owner_loop_result stack m t 0 s = s"
  by (simp add: owner_loop_result_def upd_mod_def)

lemma olr_stacks [simp]: "stacks (owner_loop_result stack m t n s) = stacks s"
  by (simp add: owner_loop_result_def upd_mod_def)

lemma olr_cmbs [simp]: "cache_min_block_size (owner_loop_result stack m t n s) = cache_min_block_size s"
  by (simp add: owner_loop_result_def upd_mod_def)

lemma olr_block_size [simp]: "block_size (mods (owner_loop_result stack m t n s) m') = block_size (mods s m')"
  by (simp add: owner_loop_result_def upd_mod_def)

lemma olr_node [simp]: "low_net_node (mods (owner_loop_result stack m t n s) m') = low_net_node (mods s m')"
  by (simp add: owner_loop_result_def upd_mod_def)

lemma olr_requested [simp]: "requested (owner_loop_result stack m t n s) stack m z = requested s stack m z"
  by (simp add: requested_def dir_entry_tag_def)

lemma olr_entry:
  "dir_entries (dir (mods (owner_loop_result stack m t n s) t)) (stack_set (stacks s stack)) (way (stacks s stack)) z =
     (if z < n \<and> requested s stack m z
      then set_owner_entry (low_net_node (mods s m))
             (dir_entries (dir (mods s t)) (stack_set (stacks s stack)) (way (stacks s stack)) z)
      else dir_entries (dir (mods s t)) (stack_set (stacks s stack)) (way (stacks s stack)) z)"
  by (simp add: owner_loop_result_def upd_mod_def)

lemma olr_Suc_requested:
  assumes "requested s stack m n"
  shows "upd_dir_entry t (stack_set (stacks s stack)) (way (stacks s stack)) n
           (set_owner_entry (low_net_node (mods s m))) (owner_loop_result stack m t n s) =
         owner_loop_result stack m t (Suc n) s"
  using assms
  by (auto simp: owner_loop_result_def upd_mod_def upd_dir_entry_def fun_eq_iff less_Suc_eq)

lemma olr_Suc_not_requested:
  assumes "\<not> requested s stack m n"
  shows "owner_loop_result stack m t (Suc n) s = owner_loop_result stack m t n s"
proof -
  have "(z < Suc n \<and> requested s stack m z) = (z < n \<and> requested s stack m z)" for z
    using assms by (auto simp: less_Suc_eq)
  then show ?thesis by (simp add: owner_loop_result_def)
qed

lemma write_request_set_owner_eq:
  "write_request_set_owner stack m t z s =
     (if block_size (mods s m) = 0 then Inl DivisionByZero
      else if \<not> aligned (addr (stacks s stack)) (block_size (mods s m))
        then Inl (AssertFailed ''stack->addr % mod->block_size == 0'')
      else if \<not> requested s stack m z then Inr s
      else if num_sharers (dir_entry_set_sharer (low_net_node (mods s m))
                (dir_entries (dir (mods s t)) (stack_set (stacks s stack)) (way (stacks s stack)) z)) = 1
        then Inr (upd_dir_entry t (stack_set (stacks s stack)) (way (stacks s stack)) z
                    (set_owner_entry (low_net_node (mods s m))) s)
      else Inl (AssertFailed ''dir_entry->num_sharers == 1''))"
  unfolding aligned_def
  by (simp add: write_request_set_owner_def Let_def then_do_def ok_def assert_def requested_def
      set_owner_entry_def dir_entry_get_def upd_dir_entry_def upd_mod_def
      del: mod_eq_0_iff_dvd)

lemma owner_loop:
  "(seq (map (write_request_set_owner stack m t) [0..<n]) s = Inr s') \<longleftrightarrow>
     (owner_loop_ok stack m t n s \<and> s' = owner_loop_result stack m t n s)"
proof (induction n arbitrary: s')
  case 0
  show ?case by (auto simp: owner_loop_ok_def owner_loop_0)
next
  case (Suc n)
  let ?body = "write_request_set_owner stack m t"
  let ?s1 = "owner_loop_result stack m t n s"
  have ok_Suc: "owner_loop_ok stack m t (Suc n) s \<longleftrightarrow>
      owner_loop_ok stack m t n s
      \<and> block_size (mods s m) \<noteq> 0
      \<and> aligned (addr (stacks s stack)) (block_size (mods s m))
      \<and> (requested s stack m n \<longrightarrow>
            num_sharers (dir_entry_set_sharer (low_net_node (mods s m))
               (dir_entries (dir (mods s t)) (stack_set (stacks s stack)) (way (stacks s stack)) n)) = 1)"
    by (auto simp: owner_loop_ok_def less_Suc_eq)
  have step: "?body n ?s1 = Inr s' \<longleftrightarrow>
      block_size (mods s m) \<noteq> 0
      \<and> aligned (addr (stacks s stack)) (block_size (mods s m))
      \<and> (requested s stack m n \<longrightarrow>
            num_sharers (dir_entry_set_sharer (low_net_node (mods s m))
               (dir_entries (dir (mods s t)) (stack_set (stacks s stack)) (way (stacks s stack)) n)) = 1)
      \<and> s' = owner_loop_result stack m t (Suc n) s"
    by (auto simp: write_request_set_owner_eq olr_entry olr_Suc_requested olr_Suc_not_requested)
  show ?case
  proof (cases "seq (map ?body [0..<n]) s")
    case (Inl e)
    then have "\<not> owner_loop_ok stack m t n s" using Suc.IH by auto
    with Inl show ?thesis
      by (simp add: seq_append then_do_def ok_Suc)
  next
    case (Inr s1)
    then have 1: "owner_loop_ok stack m t n s" and 2: "s1 = ?s1" using Suc.IH by auto
    have "seq (map ?body [0..<Suc n]) s = ?body n ?s1"
      using Inr 2 by (simp add: seq_append then_do_def split: sum.splits)
    then show ?thesis using step 1 ok_Suc by auto
  qed
qed

lemmas stmt_simps = then_do_def ok_def assert_def upd_stack_def upd_mod_def upd_stats_def
  esim_schedule_event_def

lemma schedule_waiters_eq:
  "schedule_waiters ws s = s\<lparr>events := events s @ map (\<lambda>(st, ev). (ev, Some st, 1)) ws\<rparr>"
proof (induction ws arbitrary: s)
  case Nil
  show ?case by (simp add: schedule_waiters_def)
next
  case (Cons w ws)
  have "schedule_waiters (w # ws) s =
          schedule_waiters ws (esim_schedule_event (snd w) (Some (fst w)) 1 s)"
    by (simp add: schedule_waiters_def split_def)
  then show ?case
    by (simp add: Cons.IH esim_schedule_event_def split_def)
qed

lemma dir_lock_unlock_eq:
  "dir_lock_unlock (Some (m, st, w)) s =
     Inr (s\<lparr>events := events s @
                map (\<lambda>(k, ev). (ev, Some k, 1)) (lock_queue (dir_locks (dir (mods s m)) st w)),
            mods := (mods s)(m := (mods s m)\<lparr>dir := (dir (mods s m))\<lparr>dir_locks :=
               (dir_locks (dir (mods s m)))(st := (dir_locks (dir (mods s m)) st)
                  (w := (dir_locks (dir (mods s m)) st w)\<lparr>lock := False, lock_queue := []\<rparr>))\<rparr>\<rparr>)\<rparr>)"
  by (simp add: dir_lock_unlock_def upd_dir_lock_def the_dir_lock_def schedule_waiters_eq
      upd_mod_def)


lemma olr_cache [simp]: "cache (mods (owner_loop_result stack m t n s) m') = cache (mods s m')"
  by (simp add: owner_loop_result_def upd_mod_def)

lemma olr_locks [simp]:
  "dir_locks (dir (mods (owner_loop_result stack m t n s) m')) = dir_locks (dir (mods s m'))"
  by (simp add: owner_loop_result_def upd_mod_def)

lemma olr_events [simp]: "events (owner_loop_result stack m t n s) = events s"
  by (simp add: owner_loop_result_def upd_mod_def)

lemma write_request_updown_hit:
  assumes "target_mod (stacks s stack) = Some t"
      and "stack_state (stacks s stack) = cache_block_modified
           \<or> stack_state (stacks s stack) = cache_block_exclusive"
  shows "mod_handler_write_request EV_MOD_WRITE_REQUEST_UPDOWN stack s =
           Inr (s\<lparr>events := events s @ [(EV_MOD_WRITE_REQUEST_UPDOWN_FINISH, Some stack, 0)]\<rparr>)"
  using assms
  by (auto simp: mod_handler_write_request_def with_ptr_def Let_def stmt_simps)

lemma write_request_updown_miss:
  assumes "target_mod (stacks s stack) = Some t"
      and "stack_state (stacks s stack) \<noteq> cache_block_modified"
      and "stack_state (stacks s stack) \<noteq> cache_block_exclusive"
  shows "mod_handler_write_request EV_MOD_WRITE_REQUEST_UPDOWN stack s =
           Inr (s\<lparr>stacks := (stacks s)(next_stack s :=
                      (new_mod_stack (stack_id (stacks s stack)) t (tag (stacks s stack))
                         EV_MOD_WRITE_REQUEST_UPDOWN_FINISH (Some stack))
                      \<lparr>target_mod := low_mod (mods s t)\<rparr>),
                  live_stacks := insert (next_stack s) (live_stacks s),
                  next_stack := Suc (next_stack s),
                  events := events s @ [(EV_MOD_WRITE_REQUEST, Some (next_stack s), 0)]\<rparr>)"
  using assms
  by (simp add: mod_handler_write_request_def with_ptr_def Let_def stmt_simps
      mod_stack_create_def mod_get_low_mod_def)

lemma write_request_updown_finish:
  assumes t: "target_mod (stacks s stack) = Some t"
      and e: "\<not> err (stacks s stack)"
      and l: "dir_lock (stacks s stack) = Some (t, stack_set (stacks s stack), way (stacks s stack))"
      and c: "cache (mods s t) = Some c"
      and r: "mod_handler_write_request EV_MOD_WRITE_REQUEST_UPDOWN_FINISH stack s = Inr s'"
  shows "owner_loop_ok stack (stack_mod (stacks s stack)) t (zsize (dir (mods s t))) s"
    and "dir_entries (dir (mods s' t)) =
           dir_entries (dir (mods (owner_loop_result stack (stack_mod (stacks s stack)) t
                                     (zsize (dir (mods s t))) s) t))"
    and "cache (mods s' t) =
           Some (if stack_state (stacks s stack) \<noteq> cache_block_modified
                 then cache_set_block (stack_set (stacks s stack)) (way (stacks s stack))
                        (tag (stacks s stack)) cache_block_exclusive c
                 else c)"
    and "reply_size (stacks s' stack) = block_size (mods s (stack_mod (stacks s stack))) + 8"
    and "\<not> lock (dir_locks (dir (mods s' t)) (stack_set (stacks s stack)) (way (stacks s stack)))"
    and "events s' = events s @
           map (\<lambda>(k, ev). (ev, Some k, 1))
             (lock_queue (dir_locks (dir (mods s t)) (stack_set (stacks s stack)) (way (stacks s stack))))
           @ [(EV_MOD_WRITE_REQUEST_REPLY, Some stack, 0)]"
proof -
  let ?k = "stacks s stack"
  let ?m = "stack_mod ?k"
  let ?n = "zsize (dir (mods s t))"
  let ?rest = "seq [(if cache (mods s t) \<noteq> None \<and> stack_state ?k \<noteq> cache_block_modified
                   then upd_cache t (cache_set_block (stack_set ?k) (way ?k) (tag ?k)
                                       cache_block_exclusive)
                   else ok id),
                  dir_lock_unlock (dir_lock ?k),
                  ok (upd_stack stack (\<lambda>n. n\<lparr>reply_size := block_size (mods s ?m) + 8\<rparr>)),
                  ok (esim_schedule_event EV_MOD_WRITE_REQUEST_REPLY (Some stack) 0)]"
  have u: "mod_handler_write_request EV_MOD_WRITE_REQUEST_UPDOWN_FINISH stack s =
             then_do (seq (map (write_request_set_owner stack ?m t) [0..<?n]) s) ?rest"
    using t e by (simp add: mod_handler_write_request_def with_ptr_def Let_def for_loop_def)
  from r u obtain s1 where
    1: "seq (map (write_request_set_owner stack ?m t) [0..<?n]) s = Inr s1"
    and 2: "?rest s1 = Inr s'"
    by (auto simp: then_do_def split: sum.splits)
  from 1 have ok: "owner_loop_ok stack ?m t ?n s"
    and s1: "s1 = owner_loop_result stack ?m t ?n s"
    by (simp_all add: owner_loop)
  show "owner_loop_ok stack ?m t ?n s" by (rule ok)
  have s': "s' = esim_schedule_event EV_MOD_WRITE_REQUEST_REPLY (Some stack) 0
              (upd_stack stack (\<lambda>n. n\<lparr>reply_size := block_size (mods s ?m) + 8\<rparr>)
                 (projr (dir_lock_unlock (Some (t, stack_set ?k, way ?k))
                    (if stack_state ?k \<noteq> cache_block_modified
                     then upd_mod t (\<lambda>md. md\<lparr>cache := Some (cache_set_block (stack_set ?k)
                            (way ?k) (tag ?k) cache_block_exclusive c)\<rparr>) s1
                     else s1))))"
    using 2 c l unfolding s1
    by (cases "stack_state ?k = cache_block_modified")
       (simp_all add: then_do_def ok_def upd_cache_def dir_lock_unlock_eq)
  show "dir_entries (dir (mods s' t)) =
          dir_entries (dir (mods (owner_loop_result stack ?m t ?n s) t))"
    unfolding s' s1
    by (simp add: dir_lock_unlock_eq upd_mod_def upd_stack_def esim_schedule_event_def)
  show "cache (mods s' t) =
           Some (if stack_state ?k \<noteq> cache_block_modified
                 then cache_set_block (stack_set ?k) (way ?k) (tag ?k) cache_block_exclusive c
                 else c)"
    unfolding s' s1 using c
    by (simp add: dir_lock_unlock_eq upd_mod_def upd_stack_def esim_schedule_event_def)
  show "reply_size (stacks s' stack) = block_size (mods s ?m) + 8"
    unfolding s' s1
    by (simp add: dir_lock_unlock_eq upd_mod_def upd_stack_def esim_schedule_event_def)
  show "\<not> lock (dir_locks (dir (mods s' t)) (stack_set ?k) (way ?k))"
    unfolding s' s1
    by (simp add: dir_lock_unlock_eq upd_mod_def upd_stack_def esim_schedule_event_def)
  show "events s' = events s @
           map (\<lambda>(k, ev). (ev, Some k, 1))
             (lock_queue (dir_locks (dir (mods s t)) (stack_set ?k) (way ?k)))
           @ [(EV_MOD_WRITE_REQUEST_REPLY, Some stack, 0)]"
    unfolding s' s1
    by (simp add: dir_lock_unlock_eq upd_mod_def upd_stack_def esim_schedule_event_def)
qed

lemma write_request_updown_finish_total:
  assumes t: "target_mod (stacks s stack) = Some t"
      and e: "\<not> err (stacks s stack)"
      and l: "dir_lock (stacks s stack) = Some l"
      and c: "cache (mods s t) = Some c"
      and ok: "owner_loop_ok stack (stack_mod (stacks s stack)) t (zsize (dir (mods s t))) s"
  shows "\<exists>s'. mod_handler_write_request EV_MOD_WRITE_REQUEST_UPDOWN_FINISH stack s = Inr s'"
proof -
  let ?k = "stacks s stack"
  let ?m = "stack_mod ?k"
  let ?n = "zsize (dir (mods s t))"
  obtain lm ls lw where lt: "l = (lm, ls, lw)" by (cases l)
  have 1: "seq (map (write_request_set_owner stack ?m t) [0..<?n]) s =
             Inr (owner_loop_result stack ?m t ?n s)"
    using ok by (simp add: owner_loop)
  show ?thesis
    using t e l c 1 unfolding lt
    by (cases "stack_state ?k = cache_block_modified")
       (simp_all add: mod_handler_write_request_def with_ptr_def Let_def for_loop_def then_do_def
          ok_def upd_cache_def dir_lock_unlock_eq)
qed

lemma set_sharer_sole:
  assumes "finite (sharer e)" "card (sharer e) = num_sharers e"
      and "num_sharers (dir_entry_set_sharer i e) = 1"
  shows "sharer (dir_entry_set_sharer i e) = {i}"
proof -
  let ?e = "dir_entry_set_sharer i e"
  have i: "i \<in> sharer ?e" by (simp add: dir_entry_set_sharer_def)
  have "finite (sharer ?e)" "card (sharer ?e) = num_sharers ?e"
    using assms(1,2) by (auto simp: dir_entry_set_sharer_def)
  with assms(3) have "card (sharer ?e) = 1" by simp
  then obtain x where "sharer ?e = {x}" by (auto simp: card_1_singleton_iff)
  with i show ?thesis by auto
qed


subsection \<open>The example hierarchy\<close>

lemma example_sim_simps:
  "stacks example_sim 3 = example_request"
  "stacks example_sim 2 = example_access"
  "mods example_sim 2 = example_L1"
  "mods example_sim 3 = example_L2"
  "cache_min_block_size example_sim = 64"
  "events example_sim = []"
  "next_stack example_sim = 4"
  by (simp_all add: example_sim_def)

lemma example_request_simps:
  "stack_mod example_request = 2"
  "target_mod example_request = Some 3"
  "addr example_request = 0x40"
  "tag example_request = 0"
  "stack_set example_request = 0"
  "way example_request = 0"
  "stack_state example_request = cache_block_exclusive"
  "dir_lock example_request = Some (3, 0, 0)"
  "\<not> err example_request"
  "stack_id example_request = 7"
  by (simp_all add: example_request_def new_mod_stack_def)

lemma example_L1_simps:
  "block_size example_L1 = 64"
  "low_net_node example_L1 = 2"
  "cache example_L1 = Some example_cache"
  "low_mod example_L1 = Some 3"
  "latency example_L1 = 2"
  by (simp_all add: example_L1_def)

lemma example_L2_simps:
  "block_size example_L2 = 128"
  "cache example_L2 = Some (cache_set_block 0 0 0 cache_block_exclusive example_cache)"
  "zsize (dir example_L2) = 2"
  "dir_entries (dir example_L2) st w z = example_entry"
  "low_mod example_L2 = None"
  by (simp_all add: example_L2_def example_dir_def)

lemmas example_simps =
  example_sim_simps example_request_simps example_L1_simps example_L2_simps

lemma example_requested_1: "requested example_sim 3 2 (Suc 0)"
  by (simp add: requested_def outside_def dir_entry_tag_def example_simps)

lemma example_requested_0: "\<not> requested example_sim 3 2 0"
  by (simp add: requested_def outside_def dir_entry_tag_def example_simps)

lemma example_loop_ok: "owner_loop_ok 3 2 3 2 example_sim"
proof -
  have "z = 0 \<or> z = Suc 0" if "z < 2" for z :: nat using that by arith
  then show ?thesis
    using example_requested_0
    by (auto simp: owner_loop_ok_def aligned_def example_simps example_entry_def
                   dir_entry_set_sharer_def dir_entry_is_sharer_def)
qed

lemma example_block_state:
  "result_block_state (Inr example_sim) 3 0 0 = Some cache_block_exclusive"
  by (simp add: result_block_state_def example_simps cache_set_block_def)


subsection \<open>Write requests, up-down\<close>

text \<open>
  Claim C1, as the code has it.  For a write request of module \<open>stack_mod\<close> to the
  module \<open>t\<close> it names as target:
  \<^item> at \<^verbatim>\<open>EV_MOD_WRITE_REQUEST_UPDOWN\<close>, a block found in state M or E schedules
    \<^verbatim>\<open>EV_MOD_WRITE_REQUEST_UPDOWN_FINISH\<close> for the same stack and changes nothing else;
  \<^item> in any other state a new stack is created for a write request of \<open>t\<close> to the module
    below \<open>t\<close>, which returns to \<^verbatim>\<open>EV_MOD_WRITE_REQUEST_UPDOWN_FINISH\<close>;
  \<^item> \<^verbatim>\<open>EV_MOD_WRITE_REQUEST_UPDOWN_FINISH\<close> without error returns whenever the asserts
    of its loop hold;
  \<^item> and when it returns, every requested sub-block has the node of the requester as
    owner and as a sharer, with a sharer count of one (the only sharer, when the count
    of the entry agreed with its sharer set before); the block of \<open>t\<close> keeps its state
    if the request found it in M and is in state E otherwise; the reply size is the
    block size of the requester plus 8; the lock of the block is released; and
    \<^verbatim>\<open>EV_MOD_WRITE_REQUEST_REPLY\<close> is scheduled last.
\<close>

theorem write_request_updown:
  assumes t: "target_mod (stacks s stack) = Some t"
  shows "((stack_state (stacks s stack) = cache_block_modified
           \<or> stack_state (stacks s stack) = cache_block_exclusive) \<longrightarrow>
            mod_handler_write_request EV_MOD_WRITE_REQUEST_UPDOWN stack s =
              Inr (s\<lparr>events := events s @ [(EV_MOD_WRITE_REQUEST_UPDOWN_FINISH, Some stack, 0)]\<rparr>))
       \<and> (stack_state (stacks s stack) \<noteq> cache_block_modified
           \<and> stack_state (stacks s stack) \<noteq> cache_block_exclusive \<longrightarrow>
            mod_handler_write_request EV_MOD_WRITE_REQUEST_UPDOWN stack s =
              Inr (s\<lparr>stacks := (stacks s)(next_stack s :=
                         (new_mod_stack (stack_id (stacks s stack)) t (tag (stacks s stack))
                            EV_MOD_WRITE_REQUEST_UPDOWN_FINISH (Some stack))
                         \<lparr>target_mod := low_mod (mods s t)\<rparr>),
                     live_stacks := insert (next_stack s) (live_stacks s),
                     next_stack := Suc (next_stack s),
                     events := events s @ [(EV_MOD_WRITE_REQUEST, Some (next_stack s), 0)]\<rparr>))
       \<and> (\<not> err (stacks s stack)
           \<and> dir_lock (stacks s stack) = Some (t, stack_set (stacks s stack), way (stacks s stack))
           \<and> cache (mods s t) = Some c
           \<and> owner_loop_ok stack (stack_mod (stacks s stack)) t (zsize (dir (mods s t))) s \<longrightarrow>
            (\<exists>s'. mod_handler_write_request EV_MOD_WRITE_REQUEST_UPDOWN_FINISH stack s = Inr s'))
       \<and> (\<not> err (stacks s stack)
           \<and> dir_lock (stacks s stack) = Some (t, stack_set (stacks s stack), way (stacks s stack))
           \<and> cache (mods s t) = Some c
           \<and> mod_handler_write_request EV_MOD_WRITE_REQUEST_UPDOWN_FINISH stack s = Inr s' \<longrightarrow>
            (\<forall>z < zsize (dir (mods s t)).
               requested s stack (stack_mod (stacks s stack)) z \<longrightarrow>
                 owner (dir_entries (dir (mods s' t)) (stack_set (stacks s stack))
                          (way (stacks s stack)) z)
                   = Some (low_net_node (mods s (stack_mod (stacks s stack))))
               \<and> low_net_node (mods s (stack_mod (stacks s stack)))
                   \<in> sharer (dir_entries (dir (mods s' t)) (stack_set (stacks s stack))
                               (way (stacks s stack)) z)
               \<and> num_sharers (dir_entries (dir (mods s' t)) (stack_set (stacks s stack))
                                (way (stacks s stack)) z) = 1
               \<and> (finite (sharer (dir_entries (dir (mods s t)) (stack_set (stacks s stack))
                                    (way (stacks s stack)) z))
                  \<and> card (sharer (dir_entries (dir (mods s t)) (stack_set (stacks s stack))
                                    (way (stacks s stack)) z))
                      = num_sharers (dir_entries (dir (mods s t)) (stack_set (stacks s stack))
                                       (way (stacks s stack)) z) \<longrightarrow>
                    sharer (dir_entries (dir (mods s' t)) (stack_set (stacks s stack))
                              (way (stacks s stack)) z)
                      = {low_net_node (mods s (stack_mod (stacks s stack)))}))
          \<and> result_block_state (Inr s') t (stack_set (stacks s stack)) (way (stacks s stack)) =
              Some (if stack_state (stacks s stack) = cache_block_modified
                    then blk_state (blks c (stack_set (stacks s stack)) (way (stacks s stack)))
                    else cache_block_exclusive)
          \<and> reply_size (stacks s' stack) = block_size (mods s (stack_mod (stacks s stack))) + 8
          \<and> \<not> lock (dir_locks (dir (mods s' t)) (stack_set (stacks s stack)) (way (stacks s stack)))
          \<and> last (events s') = (EV_MOD_WRITE_REQUEST_REPLY, Some stack, 0))"
proof (intro conjI impI)
  assume "stack_state (stacks s stack) = cache_block_modified
           \<or> stack_state (stacks s stack) = cache_block_exclusive"
  then show "mod_handler_write_request EV_MOD_WRITE_REQUEST_UPDOWN stack s =
              Inr (s\<lparr>events := events s @ [(EV_MOD_WRITE_REQUEST_UPDOWN_FINISH, Some stack, 0)]\<rparr>)"
    using t by (rule write_request_updown_hit [rotated])
next
  assume "stack_state (stacks s stack) \<noteq> cache_block_modified
           \<and> stack_state (stacks s stack) \<noteq> cache_block_exclusive"
  then show "mod_handler_write_request EV_MOD_WRITE_REQUEST_UPDOWN stack s =
              Inr (s\<lparr>stacks := (stacks s)(next_stack s :=
                         (new_mod_stack (stack_id (stacks s stack)) t (tag (stacks s stack))
                            EV_MOD_WRITE_REQUEST_UPDOWN_FINISH (Some stack))
                         \<lparr>target_mod := low_mod (mods s t)\<rparr>),
                     live_stacks := insert (next_stack s) (live_stacks s),
                     next_stack := Suc (next_stack s),
                     events := events s @ [(EV_MOD_WRITE_REQUEST, Some (next_stack s), 0)]\<rparr>)"
    using t by (simp add: write_request_updown_miss)
next
  assume "\<not> err (stacks s stack)
           \<and> dir_lock (stacks s stack) = Some (t, stack_set (stacks s stack), way (stacks s stack))
           \<and> cache (mods s t) = Some c
           \<and> owner_loop_ok stack (stack_mod (stacks s stack)) t (zsize (dir (mods s t))) s"
  then show "\<exists>s'. mod_handler_write_request EV_MOD_WRITE_REQUEST_UPDOWN_FINISH stack s = Inr s'"
    using t write_request_updown_finish_total by blast
next
  let ?k = "stacks s stack"
  let ?m = "stack_mod ?k"
  let ?i = "low_net_node (mods s ?m)"
  let ?n = "zsize (dir (mods s t))"
  assume a: "\<not> err ?k
           \<and> dir_lock ?k = Some (t, stack_set ?k, way ?k)
           \<and> cache (mods s t) = Some c
           \<and> mod_handler_write_request EV_MOD_WRITE_REQUEST_UPDOWN_FINISH stack s = Inr s'"
  then have e: "\<not> err ?k" and l: "dir_lock ?k = Some (t, stack_set ?k, way ?k)"
    and c: "cache (mods s t) = Some c"
    and r: "mod_handler_write_request EV_MOD_WRITE_REQUEST_UPDOWN_FINISH stack s = Inr s'"
    by simp_all
  note f = write_request_updown_finish [OF t e l c r]
  have ent: "dir_entries (dir (mods s' t)) (stack_set ?k) (way ?k) z =
               set_owner_entry ?i (dir_entries (dir (mods s t)) (stack_set ?k) (way ?k) z)"
    if "z < ?n" "requested s stack ?m z" for z
    using that by (simp add: f(2) olr_entry)
  have one: "num_sharers (dir_entry_set_sharer ?i
                (dir_entries (dir (mods s t)) (stack_set ?k) (way ?k) z)) = 1"
    if "z < ?n" "requested s stack ?m z" for z
    using f(1) that by (simp add: owner_loop_ok_def)
  show "\<forall>z < ?n. requested s stack ?m z \<longrightarrow>
          owner (dir_entries (dir (mods s' t)) (stack_set ?k) (way ?k) z) = Some ?i
        \<and> ?i \<in> sharer (dir_entries (dir (mods s' t)) (stack_set ?k) (way ?k) z)
        \<and> num_sharers (dir_entries (dir (mods s' t)) (stack_set ?k) (way ?k) z) = 1
        \<and> (finite (sharer (dir_entries (dir (mods s t)) (stack_set ?k) (way ?k) z))
            \<and> card (sharer (dir_entries (dir (mods s t)) (stack_set ?k) (way ?k) z))
                = num_sharers (dir_entries (dir (mods s t)) (stack_set ?k) (way ?k) z) \<longrightarrow>
              sharer (dir_entries (dir (mods s' t)) (stack_set ?k) (way ?k) z) = {?i})"
  proof (intro allI impI conjI)
    fix z assume z: "z < ?n" "requested s stack ?m z"
    show "owner (dir_entries (dir (mods s' t)) (stack_set ?k) (way ?k) z) = Some ?i"
      using z by (simp add: ent set_owner_entry_def)
    show "?i \<in> sharer (dir_entries (dir (mods s' t)) (stack_set ?k) (way ?k) z)"
      using z by (simp add: ent set_owner_entry_def dir_entry_set_sharer_def)
    show "num_sharers (dir_entries (dir (mods s' t)) (stack_set ?k) (way ?k) z) = 1"
      using z one by (simp add: ent set_owner_entry_def)
    assume "finite (sharer (dir_entries (dir (mods s t)) (stack_set ?k) (way ?k) z))
            \<and> card (sharer (dir_entries (dir (mods s t)) (stack_set ?k) (way ?k) z))
                = num_sharers (dir_entries (dir (mods s t)) (stack_set ?k) (way ?k) z)"
    then show "sharer (dir_entries (dir (mods s' t)) (stack_set ?k) (way ?k) z) = {?i}"
      using z one set_sharer_sole by (simp add: ent set_owner_entry_def)
  qed
  show "result_block_state (Inr s') t (stack_set ?k) (way ?k) =
          Some (if stack_state ?k = cache_block_modified
                then blk_state (blks c (stack_set ?k) (way ?k))
                else cache_block_exclusive)"
    by (simp add: result_block_state_def f(3) cache_set_block_def)
  show "reply_size (stacks s' stack) = block_size (mods s ?m) + 8"
    by (rule f(4))
  show "\<not> lock (dir_locks (dir (mods s' t)) (stack_set ?k) (way ?k))"
    by (rule f(5))
  show "last (events s') = (EV_MOD_WRITE_REQUEST_REPLY, Some stack, 0)"
    by (simp add: f(6))
qed

text \<open>
  The theorem at the example hierarchy: the request of module 2 found the block in
  state E; sub-block 1 is the requested one.
\<close>

theorem write_request_updown_witness:
  "mod_handler_write_request EV_MOD_WRITE_REQUEST_UPDOWN 3 example_sim =
     Inr (example_sim\<lparr>events := [(EV_MOD_WRITE_REQUEST_UPDOWN_FINISH, Some 3, 0)]\<rparr>)
   \<and> result_entry
        (mod_handler_write_request EV_MOD_WRITE_REQUEST_UPDOWN_FINISH 3 example_sim) 3 0 0 1
       = Some \<lparr>owner = Some 2, num_sharers = 1, sharer = {2}\<rparr>
   \<and> result_block_state
        (mod_handler_write_request EV_MOD_WRITE_REQUEST_UPDOWN_FINISH 3 example_sim) 3 0 0
       = Some cache_block_exclusive"
proof -
  let ?c = "cache_set_block 0 0 0 cache_block_exclusive example_cache"
  have t: "target_mod (stacks example_sim 3) = Some 3"
    by (simp add: example_simps)
  note w = write_request_updown [OF t, where c = ?c]
  have ok: "owner_loop_ok 3 (stack_mod (stacks example_sim 3)) 3
              (zsize (dir (mods example_sim 3))) example_sim"
    using example_loop_ok by (simp add: example_simps)
  have a: "mod_handler_write_request EV_MOD_WRITE_REQUEST_UPDOWN 3 example_sim =
     Inr (example_sim\<lparr>events := [(EV_MOD_WRITE_REQUEST_UPDOWN_FINISH, Some 3, 0)]\<rparr>)"
    using w [where s' = example_sim] by (simp add: example_simps)
  have "\<exists>s'. mod_handler_write_request EV_MOD_WRITE_REQUEST_UPDOWN_FINISH 3 example_sim = Inr s'"
    using w [where s' = example_sim] ok by (simp add: example_simps)
  then obtain s' where
    r: "mod_handler_write_request EV_MOD_WRITE_REQUEST_UPDOWN_FINISH 3 example_sim = Inr s'"
    by blast
  have c: "result_block_state (Inr s') 3 0 0 = Some cache_block_exclusive"
    using w [where s' = s'] r by (simp add: example_simps)
  have "(1::nat) < 2 \<and> requested example_sim 3 2 1"
    using example_requested_1 by simp
  then have "owner (dir_entries (dir (mods s' 3)) 0 0 1) = Some 2
      \<and> num_sharers (dir_entries (dir (mods s' 3)) 0 0 1) = 1
      \<and> sharer (dir_entries (dir (mods s' 3)) 0 0 1) = {2}"
    using w [where s' = s'] r by (simp add: example_simps example_entry_def)
  then have "dir_entries (dir (mods s' 3)) 0 0 1 = \<lparr>owner = Some 2, num_sharers = 1, sharer = {2}\<rparr>"
    by simp
  then show ?thesis using a c r by (simp add: result_entry_def)
qed

text \<open>
  The block is not marked M: the request found it in state E, completes without
  error, and leaves it in state E.
\<close>

theorem write_request_updown_counterexample:
  "result_block_state (Inr example_sim) 3 0 0 = Some cache_block_exclusive
   \<and> \<not> err (stacks example_sim 3)
   \<and> result_block_state
        (mod_handler_write_request EV_MOD_WRITE_REQUEST_UPDOWN_FINISH 3 example_sim) 3 0 0
       = Some cache_block_exclusive
   \<and> result_block_state
        (mod_handler_write_request EV_MOD_WRITE_REQUEST_UPDOWN_FINISH 3 example_sim) 3 0 0
       \<noteq> Some cache_block_modified"
proof -
  let ?c = "cache_set_block 0 0 0 cache_block_exclusive example_cache"
  have t: "target_mod (stacks example_sim 3) = Some 3"
    and e: "\<not> err (stacks example_sim 3)"
    and l: "dir_lock (stacks example_sim 3) =
              Some (3, stack_set (stacks example_sim 3), way (stacks example_sim 3))"
    and c: "cache (mods example_sim 3) = Some ?c"
    by (simp_all add: example_simps)
  have ok: "owner_loop_ok 3 (stack_mod (stacks example_sim 3)) 3
              (zsize (dir (mods example_sim 3))) example_sim"
    using example_loop_ok by (simp add: example_simps)
  obtain s' where
    r: "mod_handler_write_request EV_MOD_WRITE_REQUEST_UPDOWN_FINISH 3 example_sim = Inr s'"
    using write_request_updown_finish_total [OF t e l c ok] by blast
  have "cache (mods s' 3) = Some ?c"
    using write_request_updown_finish(3) [OF t e l c r]
    by (simp add: example_simps cache_set_block_def)
  then have "result_block_state (Inr s') 3 0 0 = Some cache_block_exclusive"
    by (simp add: result_block_state_def cache_set_block_def)
  with r e example_block_state show ?thesis by simp
qed


subsection \<open>The retry delay\<close>


lemma RETRY_LATENCY_eq:
  "0 < latency (mods s m) \<Longrightarrow>
   RETRY_LATENCY m s = Inr (retry_delay s m, s\<lparr>random_count := Suc (random_count s)\<rparr>)"
  by (simp add: RETRY_LATENCY_def random_def retry_delay_def Let_def)


lemma retry_after_unlock:
  assumes "0 < latency (mods s m)"
  shows "retry_after m stack ev [dir_lock_unlock (Some (a, b, c))] s =
           Inr (s\<lparr>random_count := Suc (random_count s),
                  mods := (mods s)(a := (mods s a)\<lparr>dir := (dir (mods s a))\<lparr>dir_locks :=
                     (dir_locks (dir (mods s a)))(b := (dir_locks (dir (mods s a)) b)
                        (c := (dir_locks (dir (mods s a)) b c)\<lparr>lock := False, lock_queue := []\<rparr>))\<rparr>\<rparr>),
                  stacks := (stacks s)(stack := (stacks s stack)\<lparr>retry := True\<rparr>),
                  events := events s
                     @ map (\<lambda>(k, ev). (ev, Some k, 1)) (lock_queue (dir_locks (dir (mods s a)) b c))
                     @ [(ev, Some stack, retry_delay s m)]\<rparr>)"
  using assms by (simp add: retry_after_def RETRY_LATENCY_eq stmt_simps dir_lock_unlock_eq)

lemma retry_delay_stats [simp]:
  "retry_delay (upd_stats m' f s) m = retry_delay s m"
  by (simp add: retry_delay_def upd_stats_def upd_mod_def)



lemma load_miss_retry:
  assumes "err (stacks s stack)" "0 < latency (mods s (stack_mod (stacks s stack)))"
      and "dir_lock (stacks s stack) = Some (a, b, c)"
  shows "mod_handler_load EV_MOD_LOAD_MISS stack s =
           retry_after (stack_mod (stacks s stack)) stack EV_MOD_LOAD_LOCK
             [dir_lock_unlock (Some (a, b, c))]
             (upd_stats (stack_mod (stacks s stack))
                (\<lambda>t. t\<lparr>read_retries := Suc (read_retries t)\<rparr>) s)"
  using assms by (simp add: mod_handler_load_def Let_def then_do_def ok_def split: sum.splits)




lemma load_miss_retry_result:
  assumes e: "err (stacks s stack)" and l: "0 < latency (mods s (stack_mod (stacks s stack)))"
      and d: "dir_lock (stacks s stack) = Some (a, b, c)"
  shows "\<exists>s'. mod_handler_load EV_MOD_LOAD_MISS stack s = Inr s'
           \<and> (\<forall>m'. cache (mods s' m') = cache (mods s m'))
           \<and> \<not> lock (dir_locks (dir (mods s' a)) b c)
           \<and> retry (stacks s' stack)
           \<and> read_retries (stats (mods s' (stack_mod (stacks s stack)))) =
               Suc (read_retries (stats (mods s (stack_mod (stacks s stack)))))
           \<and> last (events s') =
               (EV_MOD_LOAD_LOCK, Some stack, retry_delay s (stack_mod (stacks s stack)))"
proof -
  let ?m = "stack_mod (stacks s stack)"
  let ?s1 = "upd_stats ?m (\<lambda>t. t\<lparr>read_retries := Suc (read_retries t)\<rparr>) s"
  have l1: "0 < latency (mods ?s1 ?m)" using l by (simp add: upd_stats_def upd_mod_def)
  show ?thesis
    unfolding load_miss_retry [OF e l d] retry_after_unlock [OF l1]
    by (cases "?m = a") (simp_all add: upd_stats_def upd_mod_def retry_delay_def)
qed



subsection \<open>The lookup of \<^verbatim>\<open>find_and_lock\<close> and a lock that is held\<close>















subsection \<open>More of the example hierarchy\<close>

lemma example_access_simps:
  "stack_mod example_access = 2"
  "stack_state example_access = cache_block_invalid"
  "\<not> err example_access"
  "dir_lock example_access = Some (2, 1, 0)"
  "tag example_access = 0x40"
  "stack_set example_access = 1"
  "way example_access = 0"
  "\<not> shared example_access"
  "ret_event example_access = ESIM_EV_NONE"
  "ret_stack example_access = None"
  "stack_id example_access = 7"
  by (simp_all add: example_access_def new_mod_stack_def)

lemma example_failed_simps:
  "stacks example_failed 2 = example_access\<lparr>err := True\<rparr>"
  "mods example_failed m = mods example_sim m"
  "events example_failed = []"
  "retry_delay example_failed 2 = 3"
  by (simp_all add: example_failed_def upd_stack_def example_sim_def retry_delay_def
        example_L1_def)

lemma example_L1_lock:
  "lock (dir_locks (dir example_L1) 1 0)"
  by (simp add: example_L1_def example_dir_def)







subsection \<open>A lock failure and the retry of the access\<close>








subsection \<open>Loads\<close>

lemma load_hit:
  assumes "\<not> err (stacks s stack)" "stack_state (stacks s stack) \<noteq> cache_block_invalid"
  shows "mod_handler_load EV_MOD_LOAD_ACTION stack s =
           Inr (s\<lparr>events := events s @ [(EV_MOD_LOAD_FINISH, Some stack, 0)]\<rparr>)"
  using assms by (simp add: mod_handler_load_def Let_def stmt_simps)

lemma load_miss:
  assumes "\<not> err (stacks s stack)" "stack_state (stacks s stack) = cache_block_invalid"
  shows "mod_handler_load EV_MOD_LOAD_ACTION stack s =
           Inr (s\<lparr>stacks := (stacks s)(next_stack s :=
                      (new_mod_stack (stack_id (stacks s stack)) (stack_mod (stacks s stack))
                         (tag (stacks s stack)) EV_MOD_LOAD_MISS (Some stack))
                      \<lparr>target_mod := low_mod (mods s (stack_mod (stacks s stack)))\<rparr>),
                  live_stacks := insert (next_stack s) (live_stacks s),
                  next_stack := Suc (next_stack s),
                  events := events s @ [(EV_MOD_READ_REQUEST, Some (next_stack s), 0)]\<rparr>)"
  using assms
  by (simp add: mod_handler_load_def Let_def stmt_simps mod_stack_create_def mod_get_low_mod_def)

lemma load_install:
  assumes "\<not> err (stacks s stack)" "cache (mods s (stack_mod (stacks s stack))) = Some c"
  shows "mod_handler_load EV_MOD_LOAD_MISS stack s =
           Inr (s\<lparr>mods := (mods s)(stack_mod (stacks s stack) :=
                     (mods s (stack_mod (stacks s stack)))
                       \<lparr>cache := Some (cache_set_block (stack_set (stacks s stack))
                           (way (stacks s stack)) (tag (stacks s stack))
                           (if shared (stacks s stack) then cache_block_shared
                            else cache_block_exclusive) c)\<rparr>),
                  events := events s @ [(EV_MOD_LOAD_FINISH, Some stack, 0)]\<rparr>)"
  using assms
  by (simp add: mod_handler_load_def Let_def stmt_simps upd_cache_def)

lemma load_finish:
  assumes "dir_lock (stacks s stack) = Some (a, b, c)"
  shows "\<exists>s'. mod_handler_load EV_MOD_LOAD_FINISH stack s = Inr s'
         \<and> \<not> lock (dir_locks (dir (mods s' a)) b c)
         \<and> (\<forall>m'. cache (mods s' m') = cache (mods s m'))
         \<and> stack \<notin> live_stacks s'
         \<and> access_list (mods s' (stack_mod (stacks s stack))) =
             remove1 stack (access_list (mods s (stack_mod (stacks s stack))))
         \<and> last (events s') = (ret_event (stacks s stack), ret_stack (stacks s stack), 0)"
proof -
  have "mod_handler_load EV_MOD_LOAD_FINISH stack s =
          Inr (mod_stack_return stack (mod_access_extract (stack_mod (stacks s stack)) stack
               (projr (dir_lock_unlock (Some (a, b, c)) s))))"
    using assms
    by (simp add: mod_handler_load_def Let_def then_do_def ok_def dir_lock_unlock_eq)
  then show ?thesis
    by (cases "stack_mod (stacks s stack) = a")
       (simp_all add: dir_lock_unlock_eq mod_access_extract_def
          mod_stack_return_def upd_mod_def esim_schedule_event_def)
qed

text \<open>
  Claim C8, as the code has it.  For a load whose \<^verbatim>\<open>find_and_lock\<close> returned without
  error:
  \<^item> a block found in a valid state schedules \<^verbatim>\<open>EV_MOD_LOAD_FINISH\<close> and nothing
    else: no stack is created and no request is sent;
  \<^item> a block found invalid creates a stack for a read request to the module below,
    which returns to \<^verbatim>\<open>EV_MOD_LOAD_MISS\<close>;
  \<^item> at \<^verbatim>\<open>EV_MOD_LOAD_MISS\<close>, when the read request returned without error, the
    block is set to the tag of the access, in state S if the reply says shared and in
    state E otherwise, and \<^verbatim>\<open>EV_MOD_LOAD_FINISH\<close> is scheduled;
  \<^item> at \<^verbatim>\<open>EV_MOD_LOAD_MISS\<close>, when the read request returned with an error, no cache
    changes, the lock of the block is released and the load is scheduled again
    (\<^verbatim>\<open>EV_MOD_LOAD_LOCK\<close>) after the retry delay;
  \<^item> \<^verbatim>\<open>EV_MOD_LOAD_FINISH\<close> releases the lock of the block, takes the access off the
    access list of the module and returns to the caller of the load.
\<close>

theorem load_access:
  "(\<not> err (stacks s stack) \<and> stack_state (stacks s stack) \<noteq> cache_block_invalid \<longrightarrow>
      mod_handler_load EV_MOD_LOAD_ACTION stack s =
        Inr (s\<lparr>events := events s @ [(EV_MOD_LOAD_FINISH, Some stack, 0)]\<rparr>))
   \<and> (\<not> err (stacks s stack) \<and> stack_state (stacks s stack) = cache_block_invalid \<longrightarrow>
      mod_handler_load EV_MOD_LOAD_ACTION stack s =
        Inr (s\<lparr>stacks := (stacks s)(next_stack s :=
                   (new_mod_stack (stack_id (stacks s stack)) (stack_mod (stacks s stack))
                      (tag (stacks s stack)) EV_MOD_LOAD_MISS (Some stack))
                   \<lparr>target_mod := low_mod (mods s (stack_mod (stacks s stack)))\<rparr>),
               live_stacks := insert (next_stack s) (live_stacks s),
               next_stack := Suc (next_stack s),
               events := events s @ [(EV_MOD_READ_REQUEST, Some (next_stack s), 0)]\<rparr>))
   \<and> (\<not> err (stacks s stack) \<and> cache (mods s (stack_mod (stacks s stack))) = Some c \<longrightarrow>
      mod_handler_load EV_MOD_LOAD_MISS stack s =
        Inr (s\<lparr>mods := (mods s)(stack_mod (stacks s stack) :=
                  (mods s (stack_mod (stacks s stack)))
                    \<lparr>cache := Some (cache_set_block (stack_set (stacks s stack))
                        (way (stacks s stack)) (tag (stacks s stack))
                        (if shared (stacks s stack) then cache_block_shared
                         else cache_block_exclusive) c)\<rparr>),
               events := events s @ [(EV_MOD_LOAD_FINISH, Some stack, 0)]\<rparr>))
   \<and> (err (stacks s stack) \<and> 0 < latency (mods s (stack_mod (stacks s stack)))
        \<and> dir_lock (stacks s stack) = Some (a, b, w) \<longrightarrow>
      (\<exists>s'. mod_handler_load EV_MOD_LOAD_MISS stack s = Inr s'
           \<and> (\<forall>m'. cache (mods s' m') = cache (mods s m'))
           \<and> \<not> lock (dir_locks (dir (mods s' a)) b w)
           \<and> retry (stacks s' stack)
           \<and> read_retries (stats (mods s' (stack_mod (stacks s stack)))) =
               Suc (read_retries (stats (mods s (stack_mod (stacks s stack)))))
           \<and> last (events s') =
               (EV_MOD_LOAD_LOCK, Some stack, retry_delay s (stack_mod (stacks s stack)))))
   \<and> (dir_lock (stacks s stack) = Some (a, b, w) \<longrightarrow>
      (\<exists>s'. mod_handler_load EV_MOD_LOAD_FINISH stack s = Inr s'
         \<and> \<not> lock (dir_locks (dir (mods s' a)) b w)
         \<and> (\<forall>m'. cache (mods s' m') = cache (mods s m'))
         \<and> stack \<notin> live_stacks s'
         \<and> access_list (mods s' (stack_mod (stacks s stack))) =
             remove1 stack (access_list (mods s (stack_mod (stacks s stack))))
         \<and> last (events s') = (ret_event (stacks s stack), ret_stack (stacks s stack), 0)))"
proof (intro conjI impI)
  assume "\<not> err (stacks s stack) \<and> stack_state (stacks s stack) \<noteq> cache_block_invalid"
  then show "mod_handler_load EV_MOD_LOAD_ACTION stack s =
        Inr (s\<lparr>events := events s @ [(EV_MOD_LOAD_FINISH, Some stack, 0)]\<rparr>)"
    by (simp add: load_hit)
next
  assume "\<not> err (stacks s stack) \<and> stack_state (stacks s stack) = cache_block_invalid"
  then show "mod_handler_load EV_MOD_LOAD_ACTION stack s =
        Inr (s\<lparr>stacks := (stacks s)(next_stack s :=
                   (new_mod_stack (stack_id (stacks s stack)) (stack_mod (stacks s stack))
                      (tag (stacks s stack)) EV_MOD_LOAD_MISS (Some stack))
                   \<lparr>target_mod := low_mod (mods s (stack_mod (stacks s stack)))\<rparr>),
               live_stacks := insert (next_stack s) (live_stacks s),
               next_stack := Suc (next_stack s),
               events := events s @ [(EV_MOD_READ_REQUEST, Some (next_stack s), 0)]\<rparr>)"
    by (simp add: load_miss)
next
  assume "\<not> err (stacks s stack) \<and> cache (mods s (stack_mod (stacks s stack))) = Some c"
  then show "mod_handler_load EV_MOD_LOAD_MISS stack s =
        Inr (s\<lparr>mods := (mods s)(stack_mod (stacks s stack) :=
                  (mods s (stack_mod (stacks s stack)))
                    \<lparr>cache := Some (cache_set_block (stack_set (stacks s stack))
                        (way (stacks s stack)) (tag (stacks s stack))
                        (if shared (stacks s stack) then cache_block_shared
                         else cache_block_exclusive) c)\<rparr>),
               events := events s @ [(EV_MOD_LOAD_FINISH, Some stack, 0)]\<rparr>)"
    by (simp add: load_install)
next
  assume "err (stacks s stack) \<and> 0 < latency (mods s (stack_mod (stacks s stack)))
        \<and> dir_lock (stacks s stack) = Some (a, b, w)"
  then show "\<exists>s'. mod_handler_load EV_MOD_LOAD_MISS stack s = Inr s'
           \<and> (\<forall>m'. cache (mods s' m') = cache (mods s m'))
           \<and> \<not> lock (dir_locks (dir (mods s' a)) b w)
           \<and> retry (stacks s' stack)
           \<and> read_retries (stats (mods s' (stack_mod (stacks s stack)))) =
               Suc (read_retries (stats (mods s (stack_mod (stacks s stack)))))
           \<and> last (events s') =
               (EV_MOD_LOAD_LOCK, Some stack, retry_delay s (stack_mod (stacks s stack)))"
    using load_miss_retry_result by blast
next
  assume "dir_lock (stacks s stack) = Some (a, b, w)"
  then show "\<exists>s'. mod_handler_load EV_MOD_LOAD_FINISH stack s = Inr s'
         \<and> \<not> lock (dir_locks (dir (mods s' a)) b w)
         \<and> (\<forall>m'. cache (mods s' m') = cache (mods s m'))
         \<and> stack \<notin> live_stacks s'
         \<and> access_list (mods s' (stack_mod (stacks s stack))) =
             remove1 stack (access_list (mods s (stack_mod (stacks s stack))))
         \<and> last (events s') = (ret_event (stacks s stack), ret_stack (stacks s stack), 0)"
    by (rule load_finish)
qed

text \<open>
  The theorem at the example hierarchy: the load of stack 2 misses, installs its
  block in state E, or retries when its request failed, and finishes.
\<close>

theorem load_access_witness:
  "mod_handler_load EV_MOD_LOAD_ACTION 2 example_sim =
     Inr (example_sim\<lparr>stacks := (stacks example_sim)(4 :=
             (new_mod_stack 7 2 0x40 EV_MOD_LOAD_MISS (Some 2))\<lparr>target_mod := Some 3\<rparr>),
           live_stacks := {2, 3, 4}, next_stack := 5,
           events := [(EV_MOD_READ_REQUEST, Some 4, 0)]\<rparr>)
   \<and> result_block_state (mod_handler_load EV_MOD_LOAD_MISS 2 example_sim) 2 1 0
       = Some cache_block_exclusive
   \<and> result_events (mod_handler_load EV_MOD_LOAD_MISS 2 example_sim)
       = Some [(EV_MOD_LOAD_FINISH, Some 2, 0)]
   \<and> (\<exists>s'. mod_handler_load EV_MOD_LOAD_MISS 2 example_failed = Inr s'
          \<and> cache (mods s' 2) = Some example_cache
          \<and> \<not> lock (dir_locks (dir (mods s' 2)) 1 0)
          \<and> last (events s') = (EV_MOD_LOAD_LOCK, Some 2, 3))
   \<and> (\<exists>s'. mod_handler_load EV_MOD_LOAD_FINISH 2 example_sim = Inr s'
          \<and> \<not> lock (dir_locks (dir (mods s' 2)) 1 0)
          \<and> 2 \<notin> live_stacks s'
          \<and> access_list (mods s' 2) = []
          \<and> last (events s') = (ESIM_EV_NONE, None, 0))"
proof -
  note w = load_access [of example_sim 2 example_cache 2 1 0]
  note f = load_access [of example_failed 2 example_cache 2 1 0]
  have a: "mod_handler_load EV_MOD_LOAD_ACTION 2 example_sim =
     Inr (example_sim\<lparr>stacks := (stacks example_sim)(4 :=
             (new_mod_stack 7 2 0x40 EV_MOD_LOAD_MISS (Some 2))\<lparr>target_mod := Some 3\<rparr>),
           live_stacks := {2, 3, 4}, next_stack := 5,
           events := [(EV_MOD_READ_REQUEST, Some 4, 0)]\<rparr>)"
    using w by (auto simp: example_simps example_access_simps example_sim_def)
  have b: "mod_handler_load EV_MOD_LOAD_MISS 2 example_sim =
     Inr (example_sim\<lparr>mods := (mods example_sim)(2 := example_L1
             \<lparr>cache := Some (cache_set_block 1 0 0x40 cache_block_exclusive example_cache)\<rparr>),
           events := [(EV_MOD_LOAD_FINISH, Some 2, 0)]\<rparr>)"
    using w by (simp add: example_simps example_access_simps)
  have c: "\<exists>s'. mod_handler_load EV_MOD_LOAD_MISS 2 example_failed = Inr s'
          \<and> cache (mods s' 2) = Some example_cache
          \<and> \<not> lock (dir_locks (dir (mods s' 2)) 1 0)
          \<and> last (events s') = (EV_MOD_LOAD_LOCK, Some 2, 3)"
    using f by (auto simp: example_failed_simps example_simps example_access_simps)
  have d: "\<exists>s'. mod_handler_load EV_MOD_LOAD_FINISH 2 example_sim = Inr s'
          \<and> \<not> lock (dir_locks (dir (mods s' 2)) 1 0)
          \<and> 2 \<notin> live_stacks s'
          \<and> access_list (mods s' 2) = []
          \<and> last (events s') = (ESIM_EV_NONE, None, 0)"
    using w by (auto simp: example_simps example_access_simps example_L1_def)
  show ?thesis
    using a c d by (simp add: b result_block_state_def result_events_def cache_set_block_def)
qed

text \<open>
  The load of stack 2 holds the lock of its block and missed; its read request came
  back with an error.  The block is not installed: it stays invalid, and the only
  event scheduled is the retry of the load.
\<close>

theorem load_access_counterexample:
  "dir_lock (stacks example_failed 2) = Some (2, 1, 0)
   \<and> lock (dir_locks (dir (mods example_failed 2)) 1 0)
   \<and> stack_state (stacks example_failed 2) = cache_block_invalid
   \<and> result_block_state (mod_handler_load EV_MOD_LOAD_MISS 2 example_failed) 2 1 0
       = Some cache_block_invalid
   \<and> result_events (mod_handler_load EV_MOD_LOAD_MISS 2 example_failed)
       = Some [(EV_MOD_LOAD_LOCK, Some 2, 3)]"
proof -
  have e: "err (stacks example_failed 2)"
    and l: "0 < latency (mods example_failed (stack_mod (stacks example_failed 2)))"
    and d: "dir_lock (stacks example_failed 2) = Some (2, 1, 0)"
    by (simp_all add: example_failed_simps example_simps example_access_simps)
  let ?s1 = "upd_stats 2 (\<lambda>t. t\<lparr>read_retries := Suc (read_retries t)\<rparr>) example_failed"
  have l1: "0 < latency (mods ?s1 2)"
    by (simp add: upd_stats_def upd_mod_def example_failed_simps example_simps)
  have r: "mod_handler_load EV_MOD_LOAD_MISS 2 example_failed =
          retry_after 2 2 EV_MOD_LOAD_LOCK [dir_lock_unlock (Some (2, 1, 0))] ?s1"
    using load_miss_retry [OF e l d]
    by (simp add: example_failed_simps example_access_simps)
  have rd: "retry_delay ?s1 2 = 3"
    by (simp add: example_failed_simps)
  show ?thesis
    unfolding r retry_after_unlock [OF l1] rd
    by (simp add: result_block_state_def result_events_def upd_stats_def upd_mod_def
          example_failed_simps example_simps example_access_simps example_L1_lock
          example_L1_def example_dir_def example_cache_def example_blk_def)
qed


subsection \<open>The events that complete a store\<close>





lemma cache_set_block_geometry [simp]:
  "num_sets (cache_set_block st w tg bs c) = num_sets c"
  "assoc (cache_set_block st w tg bs c) = assoc c"
  by (simp_all add: cache_set_block_def)

lemma cache_set_block_state [simp]:
  "blk_state (blks (cache_set_block st w tg bs c) st w) = bs"
  "blk_tag (blks (cache_set_block st w tg bs c) st w) = tg"
  by (simp_all add: cache_set_block_def)

lemma block_set_cong:
  "block_size md' = block_size md \<Longrightarrow> num_sets c' = num_sets c \<Longrightarrow>
   block_set md' c' a = block_set md c a"
  by (simp add: block_set_def block_tag_def)

lemma block_tag_cong:
  "block_size md' = block_size md \<Longrightarrow> block_tag md' a = block_tag md a"
  by (simp add: block_tag_def)











subsection \<open>The agreement in the example hierarchy\<close>








subsection \<open>The agreement is restored when the store completes\<close>




end
